theory Spec2Isabelle
  imports Main
begin

chapter \<open>go-installapplications: a shallow embedding of the orchestration engine\<close>

text \<open>
  The Go sources are embedded function by function, under their own names. Strings are
  byte lists, Go's \<^verbatim>\<open>int\<close> is \<^typ>\<open>int\<close>, a slice is a list, a struct is a record.
  A Go \<^verbatim>\<open>error\<close> result is an \<^typ>\<open>'a option\<close> whose \<open>None\<close> is \<^verbatim>\<open>nil\<close>.
  Logging calls write to a log sink only and are left out of the model.
\<close>

section \<open>Errors\<close>

text \<open>
  \<^verbatim>\<open>fmt.Errorf(format, args...)\<close> is kept as the format string with its argument list, so
  that every error site of the source can be recognised in the model. \<open>External\<close> is an
  error value produced outside the repository (operating system, network); \<open>ExitError\<close> is
  \<^verbatim>\<open>*exec.ExitError\<close> with its exit code, the error of a child process that ran and did not
  exit with 0; \<open>PreflightSuccessError\<close> is the typed sentinel of package \<^verbatim>\<open>installer\<close>. The
  argument \<open>Nil\<close> is a nil error passed to a format.
\<close>

datatype error =
    Errorf string "arg list"
  | External string
  | ExitError int
  | PreflightSuccessError
and arg = S string | I int | E error | Nil

section \<open>Package config: the manifest\<close>

record Item =
  File :: string
  Name :: string
  Type :: string
  URL :: string
  Hash :: string
  PackageID :: string
  Version :: string
  DoNotWait :: bool
  PkgRequired :: bool
  SkipIf :: string
  Retries :: int
  RetryWait :: int
  FailPolicy :: string

record Bootstrap =
  Preflight :: "Item list"
  SetupAssistant :: "Item list"
  Userland :: "Item list"

text \<open>\<^verbatim>\<open>validateFailPolicy\<close>: the three known values and the empty string pass.\<close>

definition validateFailPolicy :: "string \<Rightarrow> error option" where
  "validateFailPolicy policy =
     (if policy = ''failure_is_not_an_option'' \<or> policy = ''failable''
         \<or> policy = ''failable_execution'' then None
      else if policy = [] then None
      else Some (Errorf ''invalid fail_policy: '%s' (must be: failure_is_not_an_option, failable, or failable_execution)''
                   [S policy]))"

text \<open>
  \<^verbatim>\<open>validateItemForPhase\<close>: first the type switch, then the phase switch, then the
  fail policy, in the order of the source.
\<close>

definition validateItemForPhase :: "Item \<Rightarrow> string \<Rightarrow> error option" where
  "validateItemForPhase item phase =
     (if \<not> (Type item = ''package'' \<or> Type item = ''rootscript'' \<or> Type item = ''userscript''
             \<or> Type item = ''rootfile'' \<or> Type item = ''userfile'')
      then Some (Errorf ''invalid item type '%s' for '%s' (allowed: package, rootscript, userscript, rootfile, userfile)''
                   [S (Type item), S (Name item)])
      else
        (case (if phase = ''preflight'' \<or> phase = ''setupassistant'' then
                 (if Type item = ''userscript'' \<or> Type item = ''userfile''
                  then Some (Errorf (''phase '%s' only supports root operations (package, rootscript, rootfile), not '%s'' @ [CHR 0x27])
                               [S phase, S (Type item)])
                  else None)
               else if phase = ''userland'' then None
               else Some (Errorf ''unknown phase: %s'' [S phase])) of
           Some err \<Rightarrow> Some err
         | None \<Rightarrow>
            (if FailPolicy item \<noteq> [] then
               (case validateFailPolicy (FailPolicy item) of
                  Some err \<Rightarrow> Some (Errorf ''invalid fail_policy for item '%s': %w'' [S (Name item), E err])
                | None \<Rightarrow> None)
             else None)))"

text \<open>The three \<^verbatim>\<open>for ... range\<close> loops of \<^verbatim>\<open>ValidateBootstrap\<close>; each returns at the first error.\<close>

fun validatePreflightItems :: "Item list \<Rightarrow> error option" where
  "validatePreflightItems [] = None"
| "validatePreflightItems (item # rest) =
     (case validateItemForPhase item ''preflight'' of
        Some err \<Rightarrow> Some err
      | None \<Rightarrow>
          if Type item \<noteq> ''rootscript''
          then Some (Errorf ''preflight phase only supports rootscript type, got: %s'' [S (Type item)])
          else validatePreflightItems rest)"

fun validatePhaseItems :: "string \<Rightarrow> Item list \<Rightarrow> error option" where
  "validatePhaseItems phase [] = None"
| "validatePhaseItems phase (item # rest) =
     (case validateItemForPhase item phase of
        Some err \<Rightarrow> Some err
      | None \<Rightarrow> validatePhaseItems phase rest)"

definition ValidateBootstrap :: "Bootstrap \<Rightarrow> error option" where
  "ValidateBootstrap bootstrap =
     (if length (Preflight bootstrap) > 1
      then Some (Errorf ''preflight phase only supports a single rootscript (original InstallApplications compatibility)'' [])
      else case validatePreflightItems (Preflight bootstrap) of
        Some err \<Rightarrow> Some err
      | None \<Rightarrow>
         (case validatePhaseItems ''setupassistant'' (SetupAssistant bootstrap) of
            Some err \<Rightarrow> Some err
          | None \<Rightarrow> validatePhaseItems ''userland'' (Userland bootstrap)))"

definition GetEffectiveFailPolicy :: "Item \<Rightarrow> string" where
  "GetEffectiveFailPolicy item =
     (if FailPolicy item = [] then ''failable_execution'' else FailPolicy item)"

text \<open>The Go zero value \<^verbatim>\<open>Item{}\<close>, from which the example items below are built.\<close>

definition Item_zero :: Item where
  "Item_zero = \<lparr>File = [], Name = [], Type = [], URL = [], Hash = [], PackageID = [],
     Version = [], DoNotWait = False, PkgRequired = False, SkipIf = [], Retries = 0,
     RetryWait = 0, FailPolicy = []\<rparr>"

section \<open>Package config: the settings\<close>

text \<open>
  The fields of \<^verbatim>\<open>Config\<close> that the embedded functions read. Durations are integers
  (nanoseconds), the header map is an association list.
\<close>

record Config =
  JSONURL :: string
  InstallPath :: string
  Reboot :: bool
  MaxRetries :: int
  RetryDelay :: int
  CleanupOnFailure :: bool
  KeepFailedFiles :: bool
  CleanupOnSuccess :: bool
  DryRun :: bool
  TrackBackgroundProcesses :: bool
  BackgroundTimeout :: int
  DownloadMaxConcurrency :: int
  WaitForAgentTimeout :: int
  AgentRequestTimeout :: int
  HTTPAuthUser :: string
  HTTPAuthPassword :: string
  HTTPHeaders :: "(string \<times> string) list"
  FollowRedirects :: bool
  SkipValidation :: bool
  LaunchAgentIdentifier :: string
  LaunchDaemonIdentifier :: string

section \<open>Package retry: the persisted retry record\<close>

record RetryState =
  Count :: int
  FirstTry :: int
  LastTry :: int
  Reason :: string

text \<open>
  The file \<^verbatim>\<open>/var/tmp/go-installapplications/.retry-state\<close>: absent, present but not readable
  as a JSON \<^verbatim>\<open>RetryState\<close>, or holding a record. \<open>writable\<close> says whether
  \<^verbatim>\<open>os.MkdirAll\<close>, \<^verbatim>\<open>os.WriteFile\<close> and \<^verbatim>\<open>os.Remove\<close> succeed on it (a failed write or
  remove leaves the file as it was); \<open>clock\<close> is what \<^verbatim>\<open>time.Now()\<close> returns.
\<close>

datatype retry_file = Missing | Unreadable | Stored RetryState

record RetryStore =
  content :: retry_file
  writable :: bool
  clock :: int

definition MaxRetries_const :: int where
  "MaxRetries_const = 3"

definition readRetryState :: "RetryStore \<Rightarrow> error + RetryState" where
  "readRetryState s =
     (case content s of
        Missing \<Rightarrow> Inl (External ''open /var/tmp/go-installapplications/.retry-state: no such file or directory'')
      | Unreadable \<Rightarrow> Inl (External ''retry state cannot be read or decoded'')
      | Stored state \<Rightarrow> Inr state)"

definition saveRetryState :: "RetryState \<Rightarrow> RetryStore \<Rightarrow> error option \<times> RetryStore" where
  "saveRetryState state s =
     (if writable s then (None, s\<lparr>content := Stored state\<rparr>)
      else (Some (External ''retry state cannot be written''), s))"

definition GetRetryCount :: "RetryStore \<Rightarrow> int" where
  "GetRetryCount s = (case readRetryState s of Inl err \<Rightarrow> 0 | Inr state \<Rightarrow> Count state)"

definition IncrementRetryCount :: "string \<Rightarrow> RetryStore \<Rightarrow> error option \<times> RetryStore" where
  "IncrementRetryCount reason s =
     (let state = (case readRetryState s of
                     Inl err \<Rightarrow> \<lparr>Count = 0, FirstTry = clock s, LastTry = 0, Reason = []\<rparr>
                   | Inr state \<Rightarrow> state);
          state = state\<lparr>Count := Count state + 1\<rparr>;
          state = state\<lparr>LastTry := clock s\<rparr>;
          state = state\<lparr>Reason := reason\<rparr>
      in saveRetryState state s)"

definition ClearRetryCount :: "RetryStore \<Rightarrow> error option \<times> RetryStore" where
  "ClearRetryCount s =
     (if content s = Missing
      then (Some (External ''remove /var/tmp/go-installapplications/.retry-state: no such file or directory''), s)
      else if writable s then (None, s\<lparr>content := Missing\<rparr>)
      else (Some (External ''retry state cannot be removed''), s))"

definition ShouldRetry :: "RetryStore \<Rightarrow> bool \<times> error option" where
  "ShouldRetry s =
     (let count = GetRetryCount s in
      if count \<ge> MaxRetries_const
      then (False, Some (Errorf ''maximum retry attempts (%d) exceeded'' [I MaxRetries_const]))
      else (True, None))"

section \<open>Package utils: strings, architecture, package receipts\<close>

text \<open>
  The functions of Go's \<^verbatim>\<open>strings\<close> package that the sources call, on ASCII text: white space
  is tab, line feed, vertical tab, form feed, carriage return and space, and \<^verbatim>\<open>ToLower\<close>
  maps \<open>A\<close>..\<open>Z\<close>.
\<close>

definition isSpace :: "char \<Rightarrow> bool" where
  "isSpace c = (c = CHR 0x09 \<or> c = CHR 0x0A \<or> c = CHR 0x0B \<or> c = CHR 0x0C
              \<or> c = CHR 0x0D \<or> c = CHR '' '')"

definition TrimSpace :: "string \<Rightarrow> string" where
  "TrimSpace s = rev (dropWhile isSpace (rev (dropWhile isSpace s)))"

definition HasPrefix :: "string \<Rightarrow> string \<Rightarrow> bool" where
  "HasPrefix s prefix = (take (length prefix) s = prefix)"

fun Contains :: "string \<Rightarrow> string \<Rightarrow> bool" where
  "Contains [] substr = (substr = [])"
| "Contains (c # s) substr = (HasPrefix (c # s) substr \<or> Contains s substr)"

definition ToLower :: "string \<Rightarrow> string" where
  "ToLower s =
     map (\<lambda>c. case map_of (zip ''ABCDEFGHIJKLMNOPQRSTUVWXYZ'' ''abcdefghijklmnopqrstuvwxyz'') c of
                 Some l \<Rightarrow> l
               | None \<Rightarrow> c) s"

text \<open>\<^verbatim>\<open>strings.Split(s, "\n")\<close>: the pieces between line feeds, one more than there are line feeds.\<close>

fun Split_lines :: "string \<Rightarrow> string list" where
  "Split_lines [] = [[]]"
| "Split_lines (c # s) =
     (if c = CHR 0x0A then [] # Split_lines s
      else (case Split_lines s of
              [] \<Rightarrow> [[c]]
            | line # lines \<Rightarrow> (c # line) # lines))"

text \<open>\<^verbatim>\<open>strings.SplitN(s, ":", 2)\<close>: cut at the first colon, or the whole string when there is none.\<close>

definition SplitN_colon_2 :: "string \<Rightarrow> string list" where
  "SplitN_colon_2 s =
     (if CHR '':'' \<in> set s
      then [takeWhile (\<lambda>c. c \<noteq> CHR '':'') s, tl (dropWhile (\<lambda>c. c \<noteq> CHR '':'') s)]
      else [s])"

text \<open>
  What the host tells the program: the build constants \<^verbatim>\<open>runtime.GOOS\<close> and
  \<^verbatim>\<open>runtime.GOARCH\<close>, and the output of the three commands that the functions below run
  (\<open>None\<close> when the command returns an error). \<open>'x\<close> is the state of the machine outside
  the program.
\<close>

record 'x Host =
  GOOS :: string
  GOARCH :: string
  sysctl_cpu_brand_string :: "'x \<Rightarrow> string option"
  uname_v :: "'x \<Rightarrow> string option"
  pkgutil_pkg_info :: "string \<Rightarrow> 'x \<Rightarrow> string option"

definition IsAppleSilicon :: "'x Host \<Rightarrow> 'x \<Rightarrow> bool" where
  "IsAppleSilicon os x =
     (if GOOS os \<noteq> ''darwin'' then False
      else if GOARCH os = ''arm64'' then True
      else if GOARCH os = ''amd64'' then
        (case sysctl_cpu_brand_string os x of
           None \<Rightarrow> (case uname_v os x of
                      Some versionOutput \<Rightarrow> Contains versionOutput ''ARM64''
                    | None \<Rightarrow> False)
         | Some output \<Rightarrow> Contains (ToLower output) ''apple'')
      else False)"

definition IsIntel :: "'x Host \<Rightarrow> 'x \<Rightarrow> bool" where
  "IsIntel os x =
     (if GOOS os \<noteq> ''darwin'' then GOARCH os = ''amd64''
      else GOARCH os = ''amd64'' \<and> \<not> IsAppleSilicon os x)"

definition ShouldSkipItem :: "'x Host \<Rightarrow> string \<Rightarrow> 'x \<Rightarrow> bool" where
  "ShouldSkipItem os skipIf x =
     (if skipIf = [] then False
      else let skipIf = ToLower skipIf in
        if skipIf = ''arm64'' \<or> skipIf = ''apple_silicon'' then IsAppleSilicon os x
        else if skipIf = ''x86_64'' \<or> skipIf = ''intel'' then IsIntel os x
        else False)"

fun extractVersionFromLines :: "string list \<Rightarrow> error + string" where
  "extractVersionFromLines [] = Inl (Errorf ''version not found in package info'' [])"
| "extractVersionFromLines (line # lines) =
     (let line = TrimSpace line in
      if HasPrefix line ''version:'' then
        (let parts = SplitN_colon_2 line in
         if length parts = 2 then Inr (TrimSpace (parts ! 1))
         else extractVersionFromLines lines)
      else extractVersionFromLines lines)"

definition extractVersionFromPkgInfo :: "string \<Rightarrow> error + string" where
  "extractVersionFromPkgInfo output = extractVersionFromLines (Split_lines output)"

text \<open>
  \<^verbatim>\<open>CheckPackageReceipt(packageID, version, logger)\<close> returns \<^verbatim>\<open>(bool, error)\<close>. An empty package
  id is answered before \<^verbatim>\<open>pkgutil\<close> is run.
\<close>

definition CheckPackageReceipt :: "'x Host \<Rightarrow> string \<Rightarrow> string \<Rightarrow> 'x \<Rightarrow> bool \<times> error option" where
  "CheckPackageReceipt os packageID version x =
     (if packageID = [] then (True, None)
      else case pkgutil_pkg_info os packageID x of
        None \<Rightarrow> (False, None)
      | Some output \<Rightarrow>
         (let outputStr = TrimSpace output in
          if version = [] then (True, None)
          else case extractVersionFromPkgInfo outputStr of
            Inl err \<Rightarrow> (True, None)
          | Inr installedVersion \<Rightarrow>
              if installedVersion = version then (True, None) else (False, None)))"

section \<open>The collaborators of the phase engine\<close>

record DownloadResult =
  Item :: Item
  Error :: "error option"

text \<open>
  The Go interfaces \<^verbatim>\<open>download.Downloader\<close> and \<^verbatim>\<open>installer.Installer\<close> are records of
  methods. A method takes the state \<open>'x\<close> of the machine outside the program and returns
  its result with the new state. \<^verbatim>\<open>ExecuteScriptForPreflight\<close> belongs to the later of the two
  versions of the \<^verbatim>\<open>Installer\<close> interface.
\<close>

record 'x Downloader =
  Downloader_DownloadFile :: "string \<Rightarrow> string \<Rightarrow> string \<Rightarrow> 'x \<Rightarrow> error option \<times> 'x"
  Downloader_DownloadFileWithRetries ::
    "string \<Rightarrow> string \<Rightarrow> string \<Rightarrow> int \<Rightarrow> int \<Rightarrow> 'x \<Rightarrow> error option \<times> 'x"
  Downloader_VerifyFileHash :: "string \<Rightarrow> string \<Rightarrow> 'x \<Rightarrow> error option \<times> 'x"
  Downloader_DownloadMultipleWithCleanup ::
    "Item list \<Rightarrow> int \<Rightarrow> bool \<Rightarrow> 'x \<Rightarrow> DownloadResult list \<times> 'x"

record 'x Installer =
  Installer_InstallPackage :: "string \<Rightarrow> string \<Rightarrow> 'x \<Rightarrow> error option \<times> 'x"
  Installer_ExecuteScript :: "string \<Rightarrow> string \<Rightarrow> bool \<Rightarrow> bool \<Rightarrow> 'x \<Rightarrow> error option \<times> 'x"
  Installer_ExecuteScriptForPreflight ::
    "string \<Rightarrow> string \<Rightarrow> bool \<Rightarrow> bool \<Rightarrow> 'x \<Rightarrow> error option \<times> 'x"
  Installer_PlaceFile :: "string \<Rightarrow> string \<Rightarrow> 'x \<Rightarrow> error option \<times> 'x"
  Installer_WaitForBackgroundProcesses :: "int \<Rightarrow> 'x \<Rightarrow> error list \<times> 'x"
  Installer_GetBackgroundProcessCount :: "'x \<Rightarrow> int"

text \<open>
  The type \<^verbatim>\<open>download.CleanupTracker\<close> is not among the sources. Its methods are parameters;
  the set of tracked paths is part of the state \<open>'x\<close>.
\<close>

record 'x CleanupTracker =
  TrackFile :: "string \<Rightarrow> 'x \<Rightarrow> 'x"
  MarkSuccess :: "string \<Rightarrow> 'x \<Rightarrow> 'x"
  Cleanup :: "'x \<Rightarrow> error option \<times> 'x"
  CleanupAll :: "'x \<Rightarrow> error option \<times> 'x"

record 'x Manager =
  downloader :: "'x Downloader"
  installer :: "'x Installer"
  config :: Config
  cleanupTracker :: "'x CleanupTracker"

section \<open>Package utils: \<^verbatim>\<open>Retry\<close>\<close>

text \<open>
  \<^verbatim>\<open>Retry(operation, maxRetries, delay, description, logger)\<close> returns the number of attempts
  and the error. The loop \<^verbatim>\<open>for attempt := 0; attempt <= maxRetries; attempt++\<close> is
  \<open>Retry_loop\<close>; \<open>sleep\<close> is \<^verbatim>\<open>time.Sleep\<close>. The counter is an unbounded integer here and a
  64-bit \<^verbatim>\<open>int\<close> in the source: the two agree as long as \<open>maxRetries + 1\<close> is an \<^verbatim>\<open>int\<close>, that
  is for \<open>maxRetries < 9223372036854775807\<close>. With that last value the counter of the source
  wraps around, and its loop ends only when an attempt succeeds.
\<close>

function Retry_loop ::
  "('w \<Rightarrow> error option \<times> 'w) \<Rightarrow> int \<Rightarrow> int \<Rightarrow> (int \<Rightarrow> 'w \<Rightarrow> 'w) \<Rightarrow> int \<Rightarrow> error option \<Rightarrow> 'w
   \<Rightarrow> (int \<times> error option) \<times> 'w" where
  "Retry_loop operation maxRetries delay sleep attempt lastError w =
     (if attempt \<le> maxRetries then
        (let w1 = (if attempt > 0 then sleep delay w else w) in
         case operation w1 of
           (None, w2) \<Rightarrow> ((attempt + 1, None), w2)
         | (Some err, w2) \<Rightarrow>
             Retry_loop operation maxRetries delay sleep (attempt + 1) (Some err) w2)
      else
        ((maxRetries + 1,
          Some (Errorf ''failed after %d attempts: %w''
                  [I (maxRetries + 1), (case lastError of None \<Rightarrow> Nil | Some err \<Rightarrow> E err)])), w))"
  by pat_completeness auto
termination
  by (relation "measure (\<lambda>(operation, maxRetries, delay, sleep, attempt, lastError, w).
                   nat (maxRetries + 1 - attempt))") auto

definition Retry ::
  "('w \<Rightarrow> error option \<times> 'w) \<Rightarrow> int \<Rightarrow> int \<Rightarrow> (int \<Rightarrow> 'w \<Rightarrow> 'w) \<Rightarrow> 'w
   \<Rightarrow> (int \<times> error option) \<times> 'w" where
  "Retry operation maxRetries delay sleep w = Retry_loop operation maxRetries delay sleep 0 None w"

declare Retry_loop.simps [simp del]

text \<open>
  For the statements about retry loops: the machine at the start of attempt \<open>j\<close> (counted
  from 0) of a loop that starts in \<open>w\<close>, when the attempts before \<open>j\<close> have failed. Attempt 0
  starts at once; each later attempt starts after a pause that follows the failed attempt
  before it.
\<close>

primrec before_attempt :: "('w \<Rightarrow> error option \<times> 'w) \<Rightarrow> ('w \<Rightarrow> 'w) \<Rightarrow> 'w \<Rightarrow> nat \<Rightarrow> 'w" where
  "before_attempt operation pause w 0 = w"
| "before_attempt operation pause w (Suc j) =
     pause (snd (operation (before_attempt operation pause w j)))"

section \<open>Package download: the client\<close>

record Client =
  authUser :: string
  authPassword :: string
  customHeaders :: "(string \<times> string) list"
  defaultRetries :: int
  defaultRetryWait :: int
  followRedirects :: bool

definition SetFollowRedirects :: "bool \<Rightarrow> Client \<Rightarrow> Client" where
  "SetFollowRedirects follow c = c\<lparr>followRedirects := follow\<rparr>"

definition NewClient :: Client where
  "NewClient = SetFollowRedirects False
     \<lparr>authUser = [], authPassword = [], customHeaders = [], defaultRetries = 3,
      defaultRetryWait = 5, followRedirects = False\<rparr>"

definition NewClientWithAuth :: "string \<Rightarrow> string \<Rightarrow> (string \<times> string) list \<Rightarrow> Client" where
  "NewClientWithAuth user password headers = SetFollowRedirects False
     \<lparr>authUser = user, authPassword = password, customHeaders = headers, defaultRetries = 3,
      defaultRetryWait = 5, followRedirects = False\<rparr>"

definition SetRetryDefaults :: "int \<Rightarrow> int \<Rightarrow> Client \<Rightarrow> Client" where
  "SetRetryDefaults retries retryWaitSeconds c =
     (let c = (if retries > 0 then c\<lparr>defaultRetries := retries\<rparr> else c) in
      if retryWaitSeconds > 0 then c\<lparr>defaultRetryWait := retryWaitSeconds\<rparr> else c)"

text \<open>
  The request as \<^verbatim>\<open>downloadOnce\<close> builds it, and what it reads of the response.
\<close>

record Request =
  url :: string
  basicAuth :: "(string \<times> string) option"
  headers :: "(string \<times> string) list"
  userAgent :: string

record Response =
  StatusCode :: int
  Body :: string

text \<open>
  The machine as the download client sees it: the contents of the files, the durations
  passed to \<^verbatim>\<open>time.Sleep\<close> (nanoseconds, oldest first; a call with a duration that is not
  positive returns at once) and the requests sent (oldest first).
\<close>

record World =
  files :: "string \<rightharpoonup> string"
  slept :: "int list"
  requests :: "Request list"

text \<open>
  What the outside answers, as functions of the machine at the moment of the call:
  \<^verbatim>\<open>os.Stat\<close> on a directory path (\<open>None\<close>: an error, \<open>Some d\<close>: it exists and \<open>d\<close> says
  whether it is a directory), \<^verbatim>\<open>os.MkdirAll\<close>, \<^verbatim>\<open>filepath.Dir\<close>, \<^verbatim>\<open>http.NewRequest\<close>, the
  client's \<^verbatim>\<open>Do\<close> under the redirect policy, \<^verbatim>\<open>os.Create\<close>, \<^verbatim>\<open>io.Copy\<close> from the body to the
  file (\<open>None\<close>: the whole body was written, \<open>Some (n, err)\<close>: the error \<open>err\<close> after \<open>n\<close>
  bytes), \<^verbatim>\<open>os.Open\<close> and the read of an existing file for hashing, the hexadecimal
  SHA-256 digest, \<^verbatim>\<open>os.Remove\<close> (\<open>None\<close>: the file is removed), \<^verbatim>\<open>os.IsNotExist\<close>, and the
  order in which a \<^verbatim>\<open>range\<close> loop visits the keys of a map, which the program does not
  choose.
\<close>

record Outside =
  os_Stat_dir :: "string \<Rightarrow> World \<Rightarrow> bool option"
  os_MkdirAll :: "string \<Rightarrow> World \<Rightarrow> error option"
  filepath_Dir :: "string \<Rightarrow> string"
  http_NewRequest :: "string \<Rightarrow> error option"
  http_Do :: "bool \<Rightarrow> Request \<Rightarrow> World \<Rightarrow> error + Response"
  os_Create :: "string \<Rightarrow> World \<Rightarrow> error option"
  io_Copy :: "string \<Rightarrow> World \<Rightarrow> (nat \<times> error) option"
  os_Open :: "string \<Rightarrow> World \<Rightarrow> error option"
  io_Read :: "string \<Rightarrow> World \<Rightarrow> error option"
  sha256_hex :: "string \<Rightarrow> string"
  os_Remove :: "string \<Rightarrow> World \<Rightarrow> error option"
  os_IsNotExist :: "error \<Rightarrow> bool"
  map_range :: "string list \<Rightarrow> World \<Rightarrow> string list"

text \<open>
  A \<^verbatim>\<open>time.Duration\<close> is an \<^verbatim>\<open>int64\<close> and its arithmetic wraps around: \<open>int64 n\<close> is the number
  that the low 64 bits of \<open>n\<close> denote in two's complement.
\<close>

definition int64 :: "int \<Rightarrow> int" where
  "int64 n = (n + 9223372036854775808) mod 18446744073709551616 - 9223372036854775808"

definition time_Sleep :: "int \<Rightarrow> World \<Rightarrow> World" where
  "time_Sleep d w = w\<lparr>slept := slept w @ [d]\<rparr>"

definition EnsureDir :: "Outside \<Rightarrow> string \<Rightarrow> World \<Rightarrow> error option" where
  "EnsureDir out dirPath w =
     (if dirPath = [] then Some (Errorf ''directory path cannot be empty'' [])
      else case os_Stat_dir out dirPath w of
        Some isDir \<Rightarrow>
          if isDir then None
          else Some (Errorf ''path %s exists but is not a directory'' [S dirPath])
      | None \<Rightarrow>
         (case os_MkdirAll out dirPath w of
            Some err \<Rightarrow> Some (Errorf ''failed to create directory %s: %w'' [S dirPath, E err])
          | None \<Rightarrow> None))"

definition EnsureDirForFile :: "Outside \<Rightarrow> string \<Rightarrow> World \<Rightarrow> error option" where
  "EnsureDirForFile out filePath w = EnsureDir out (filepath_Dir out filePath) w"

text \<open>
  The request that \<^verbatim>\<open>downloadOnce\<close> builds: a GET of the URL, with Basic credentials when
  both the user and the password are configured, the custom headers and the User-Agent.
\<close>

definition downloadRequest :: "Client \<Rightarrow> string \<Rightarrow> Request" where
  "downloadRequest c url' =
     \<lparr>url = url',
      basicAuth = (if authUser c \<noteq> [] \<and> authPassword c \<noteq> []
                   then Some (authUser c, authPassword c) else None),
      headers = customHeaders c,
      userAgent = ''go-installapplications/1.0''\<rparr>"

text \<open>
  \<^verbatim>\<open>downloadOnce\<close>, a single download attempt. \<^verbatim>\<open>os.Create\<close> truncates the destination; a
  copy that fails after \<open>n\<close> bytes leaves the first \<open>n\<close> bytes of the body in it.
\<close>

definition downloadOnce :: "Client \<Rightarrow> Outside \<Rightarrow> string \<Rightarrow> string \<Rightarrow> World \<Rightarrow> error option \<times> World" where
  "downloadOnce c out url' filepath w =
     (case EnsureDirForFile out filepath w of
        Some err \<Rightarrow> (Some err, w)
      | None \<Rightarrow>
         (case http_NewRequest out url' of
            Some err \<Rightarrow> (Some (Errorf ''failed to create request for %s: %w'' [S url', E err]), w)
          | None \<Rightarrow>
             (let req = downloadRequest c url';
                  w1 = w\<lparr>requests := requests w @ [req]\<rparr>
              in case http_Do out (followRedirects c) req w of
                Inl err \<Rightarrow> (Some (Errorf ''failed to download %s: %w'' [S url', E err]), w1)
              | Inr resp \<Rightarrow>
                  if StatusCode resp \<noteq> 200
                  then (Some (Errorf ''download failed with status: %d'' [I (StatusCode resp)]), w1)
                  else
                    (case os_Create out filepath w1 of
                       Some err \<Rightarrow>
                         (Some (Errorf ''failed to create file %s: %w'' [S filepath, E err]), w1)
                     | None \<Rightarrow>
                        (case io_Copy out filepath w1 of
                           Some (n, err) \<Rightarrow>
                             (Some (Errorf ''failed to write file: %w'' [E err]),
                              w1\<lparr>files := (files w1)(filepath \<mapsto> take n (Body resp))\<rparr>)
                         | None \<Rightarrow>
                             (None, w1\<lparr>files := (files w1)(filepath \<mapsto> Body resp)\<rparr>))))))"

definition VerifyFileHash :: "Outside \<Rightarrow> string \<Rightarrow> string \<Rightarrow> World \<Rightarrow> error option" where
  "VerifyFileHash out filepath expectedHash w =
     (if expectedHash = [] then None
      else case files w filepath of
        None \<Rightarrow> Some (Errorf ''failed to open file for hash verification: %w''
                        [E (External ''no such file or directory'')])
      | Some contents \<Rightarrow>
         (case os_Open out filepath w of
            Some err \<Rightarrow> Some (Errorf ''failed to open file for hash verification: %w'' [E err])
          | None \<Rightarrow>
             (case io_Read out filepath w of
                Some err \<Rightarrow> Some (Errorf ''failed to read file for hashing: %w'' [E err])
              | None \<Rightarrow>
                 (let actualHash = sha256_hex out contents in
                  if actualHash \<noteq> expectedHash
                  then Some (Errorf ''hash mismatch: expected %s, got %s'' [S expectedHash, S actualHash])
                  else None))))"

definition DownloadFileWithRetries ::
  "Client \<Rightarrow> Outside \<Rightarrow> string \<Rightarrow> string \<Rightarrow> string \<Rightarrow> int \<Rightarrow> int \<Rightarrow> World \<Rightarrow> error option \<times> World" where
  "DownloadFileWithRetries c out url' filepath expectedHash retries retryWait w =
     (let retries = (if retries = 0 then defaultRetries c else retries);
          retryWait = (if retryWait = 0 then defaultRetryWait c else retryWait);
          retryDuration = int64 (retryWait * 1000000000)
      in case Retry (downloadOnce c out url' filepath) retries retryDuration time_Sleep w of
        ((attempts, Some err), w1) \<Rightarrow> (Some err, w1)
      | ((attempts, None), w1) \<Rightarrow> (VerifyFileHash out filepath expectedHash w1, w1))"

definition DownloadFile :: "Client \<Rightarrow> Outside \<Rightarrow> string \<Rightarrow> string \<Rightarrow> string \<Rightarrow> World \<Rightarrow> error option \<times> World" where
  "DownloadFile c out url' filepath expectedHash w =
     DownloadFileWithRetries c out url' filepath expectedHash 3 5 w"

section \<open>Package download: the cleanup tracker\<close>

text \<open>
  The field \<^verbatim>\<open>files\<close> of \<^verbatim>\<open>CleanupTracker\<close>, a map from path to \<^verbatim>\<open>shouldDelete\<close>, is an
  association list with one entry for each key; \<open>map_assign k v m\<close> is the assignment
  \<^verbatim>\<open>m[k] = v\<close>. The tracker is used by the download client and by the phase manager, over
  different views of the machine, so \<^verbatim>\<open>Cleanup\<close> and \<^verbatim>\<open>CleanupAll\<close> take what they call:
  \<open>remove\<close> is \<^verbatim>\<open>os.Remove\<close>, \<open>isNotExist\<close> is \<^verbatim>\<open>os.IsNotExist\<close>, and \<open>order\<close> gives the order
  in which the \<^verbatim>\<open>range\<close> loop visits the keys. \<open>removeTracked\<close> is the loop over the paths to
  remove, with the list \<^verbatim>\<open>errors\<close>.
\<close>

fun map_assign :: "'k \<Rightarrow> 'v \<Rightarrow> ('k \<times> 'v) list \<Rightarrow> ('k \<times> 'v) list" where
  "map_assign k v [] = [(k, v)]"
| "map_assign k v ((k', v') # m) =
     (if k = k' then (k', v) # m else (k', v') # map_assign k v m)"

definition NewCleanupTracker :: "(string \<times> bool) list" where
  "NewCleanupTracker = []"

definition Tracker_TrackFile :: "string \<Rightarrow> (string \<times> bool) list \<Rightarrow> (string \<times> bool) list" where
  "Tracker_TrackFile filepath ct = map_assign filepath True ct"

definition Tracker_MarkSuccess :: "string \<Rightarrow> (string \<times> bool) list \<Rightarrow> (string \<times> bool) list" where
  "Tracker_MarkSuccess filepath ct = map_assign filepath False ct"

fun removeTracked ::
  "(string \<Rightarrow> 'w \<Rightarrow> error option \<times> 'w) \<Rightarrow> (error \<Rightarrow> bool) \<Rightarrow> string list \<Rightarrow> error list \<Rightarrow> 'w
   \<Rightarrow> error list \<times> 'w" where
  "removeTracked remove isNotExist [] errors w = (errors, w)"
| "removeTracked remove isNotExist (filepath # rest) errors w =
     (case remove filepath w of
        (Some err, w1) \<Rightarrow>
          if \<not> isNotExist err
          then removeTracked remove isNotExist rest
                 (errors @ [Errorf ''failed to cleanup %s: %w'' [S filepath, E err]]) w1
          else removeTracked remove isNotExist rest errors w1
      | (None, w1) \<Rightarrow> removeTracked remove isNotExist rest errors w1)"

definition Tracker_Cleanup ::
  "(string \<Rightarrow> 'w \<Rightarrow> error option \<times> 'w) \<Rightarrow> (error \<Rightarrow> bool) \<Rightarrow> (string list \<Rightarrow> string list)
   \<Rightarrow> (string \<times> bool) list \<Rightarrow> 'w \<Rightarrow> error option \<times> 'w" where
  "Tracker_Cleanup remove isNotExist order ct w =
     (case removeTracked remove isNotExist
             (filter (\<lambda>filepath. map_of ct filepath = Some True) (order (map fst ct))) [] w of
        (errors, w1) \<Rightarrow>
          (if length errors > 0
           then Some (Errorf ''cleanup errors: %d files failed to delete'' [I (int (length errors))])
           else None, w1))"

definition Tracker_CleanupAll ::
  "(string \<Rightarrow> 'w \<Rightarrow> error option \<times> 'w) \<Rightarrow> (error \<Rightarrow> bool) \<Rightarrow> (string list \<Rightarrow> string list)
   \<Rightarrow> (string \<times> bool) list \<Rightarrow> 'w \<Rightarrow> error option \<times> 'w" where
  "Tracker_CleanupAll remove isNotExist order ct w =
     (case removeTracked remove isNotExist (order (map fst ct)) [] w of
        (errors, w1) \<Rightarrow>
          (if length errors > 0
           then Some (Errorf ''cleanup errors: %d files failed to delete'' [I (int (length errors))])
           else None, w1))"

section \<open>Package download: \<^verbatim>\<open>DownloadMultipleWithCleanup\<close>\<close>

text \<open>\<^verbatim>\<open>os.Remove\<close> on the files of the download client: a removal that succeeds takes the file away.\<close>

definition removeFile :: "Outside \<Rightarrow> string \<Rightarrow> World \<Rightarrow> error option \<times> World" where
  "removeFile out filepath w =
     (case os_Remove out filepath w of
        None \<Rightarrow> (None, w\<lparr>files := (files w)(filepath := None)\<rparr>)
      | Some err \<Rightarrow> (Some err, w))"

text \<open>
  The body of the goroutine that \<^verbatim>\<open>DownloadMultipleWithCleanup\<close> starts for an item, between
  acquiring and releasing the semaphore: the result for the item, the tracker and the
  machine afterwards.
\<close>

definition downloadItem ::
  "Client \<Rightarrow> Outside \<Rightarrow> Item \<Rightarrow> (string \<times> bool) list \<Rightarrow> World
   \<Rightarrow> DownloadResult \<times> (string \<times> bool) list \<times> World" where
  "downloadItem c out item t w =
     (if URL item \<noteq> [] then
        (let t1 = Tracker_TrackFile (File item) t in
         case DownloadFileWithRetries c out (URL item) (File item) (Hash item)
                (Retries item) (RetryWait item) w of
           (Some err, w1) \<Rightarrow> (\<lparr>Item = item, Error = Some err\<rparr>, t1, w1)
         | (None, w1) \<Rightarrow>
             (\<lparr>Item = item, Error = None\<rparr>, Tracker_MarkSuccess (File item) t1, w1))
      else (\<lparr>Item = item, Error = None\<rparr>, t, w))"

text \<open>
  The goroutines run in an order that the program does not choose. A schedule is the list
  of their steps: \<open>Acquire i\<close>, goroutine \<open>i\<close> takes a slot of the semaphore, which it can do
  when fewer than \<open>capacity\<close> slots are taken; \<open>Finish i\<close>, goroutine \<open>i\<close>, holding a slot,
  downloads its item, writes \<^verbatim>\<open>results[i]\<close> and releases the slot. The download of one item
  is one step: the steps inside two downloads are not interleaved. A step that the state
  does not allow gives \<open>None\<close>.
\<close>

datatype event = Acquire nat | Finish nat

record Pool =
  pool_results :: "DownloadResult list"
  pool_waiting :: "nat list"
  pool_running :: "nat list"
  pool_cleanup :: "(string \<times> bool) list"
  pool_world :: World

fun pool_step :: "Client \<Rightarrow> Outside \<Rightarrow> Item list \<Rightarrow> nat \<Rightarrow> event \<Rightarrow> Pool \<Rightarrow> Pool option" where
  "pool_step c out items capacity (Acquire i) s =
     (if i \<in> set (pool_waiting s) \<and> length (pool_running s) < capacity
      then Some (s\<lparr>pool_waiting := remove1 i (pool_waiting s), pool_running := i # pool_running s\<rparr>)
      else None)"
| "pool_step c out items capacity (Finish i) s =
     (if i \<in> set (pool_running s) \<and> i < length items then
        (case downloadItem c out (items ! i) (pool_cleanup s) (pool_world s) of
           (result, t, w) \<Rightarrow>
             Some (s\<lparr>pool_results := (pool_results s)[i := result], pool_running := remove1 i (pool_running s),
                     pool_cleanup := t, pool_world := w\<rparr>))
      else None)"

fun pool_run :: "Client \<Rightarrow> Outside \<Rightarrow> Item list \<Rightarrow> nat \<Rightarrow> event list \<Rightarrow> Pool \<Rightarrow> Pool option" where
  "pool_run c out items capacity [] s = Some s"
| "pool_run c out items capacity (e # schedule) s =
     (case pool_step c out items capacity e s of
        None \<Rightarrow> None
      | Some s' \<Rightarrow> pool_run c out items capacity schedule s')"

text \<open>
  \<^verbatim>\<open>DownloadMultipleWithCleanup\<close> under a schedule. \<^verbatim>\<open>wg.Wait()\<close> returns when every goroutine
  has finished; the result is \<open>None\<close> when the schedule is not a run of all goroutines to
  their end.
\<close>

definition DownloadMultipleWithCleanup ::
  "Client \<Rightarrow> Outside \<Rightarrow> Item list \<Rightarrow> int \<Rightarrow> bool \<Rightarrow> event list \<Rightarrow> World
   \<Rightarrow> (DownloadResult list \<times> World) option" where
  "DownloadMultipleWithCleanup c out items maxConcurrency cleanupOnFailure schedule w =
     (let maxConcurrency = (if maxConcurrency \<le> 0 then int (length items) else maxConcurrency);
          start = \<lparr>pool_results = replicate (length items) \<lparr>Item = Item_zero, Error = None\<rparr>,
                   pool_waiting = [0..<length items], pool_running = [],
                   pool_cleanup = NewCleanupTracker, pool_world = w\<rparr>
      in case pool_run c out items (nat maxConcurrency) schedule start of
        None \<Rightarrow> None
      | Some s \<Rightarrow>
          if pool_waiting s = [] \<and> pool_running s = [] then
            (let failedCount = length (filter (\<lambda>result. DownloadResult.Error result \<noteq> None) (pool_results s)) in
             if cleanupOnFailure \<and> failedCount > 0
             then Some (pool_results s,
                        snd (Tracker_Cleanup (removeFile out) (os_IsNotExist out)
                               (\<lambda>keys. map_range out keys (pool_world s))
                               (pool_cleanup s) (pool_world s)))
             else Some (pool_results s, pool_world s))
          else None)"

text \<open>The schedule in which the goroutines run one after the other, in the order of the items.\<close>

definition sequential_schedule :: "nat \<Rightarrow> event list" where
  "sequential_schedule n = concat (map (\<lambda>i. [Acquire i, Finish i]) [0..<n])"

section \<open>Package ipc: requests and responses\<close>

record RPCRequest =
  ID :: string
  Command :: string
  Path :: string
  Source :: string
  DoNotWait :: bool

record RPCResponse =
  ID :: string
  OK :: bool
  Started :: bool
  ExitCode :: int
  Output :: string
  Error :: string

text \<open>The Go zero values \<^verbatim>\<open>ipc.RPCRequest{}\<close> and \<^verbatim>\<open>ipc.RPCResponse{}\<close>.\<close>

definition RPCRequest_zero :: RPCRequest where
  "RPCRequest_zero = \<lparr>RPCRequest.ID = [], Command = [], Path = [], Source = [], DoNotWait = False\<rparr>"

definition RPCResponse_zero :: RPCResponse where
  "RPCResponse_zero = \<lparr>RPCResponse.ID = [], OK = False, Started = False, ExitCode = 0,
     Output = [], Error = []\<rparr>"

section \<open>Package mode: the protocol client\<close>

text \<open>
  \<^verbatim>\<open>generateRequestID\<close> reads eight random bytes and the clock. \<open>random_hex\<close> is the
  hexadecimal rendering of the bytes (\<open>None\<close> when \<^verbatim>\<open>rand.Read\<close> fails) and \<open>unix_nano\<close> the
  decimal rendering of \<^verbatim>\<open>time.Now().UnixNano()\<close>.
\<close>

record IDSource =
  random_hex :: "string option"
  unix_nano :: string

definition generateRequestID :: "IDSource \<Rightarrow> string" where
  "generateRequestID src =
     (case random_hex src of
        None \<Rightarrow> ''req-'' @ unix_nano src
      | Some b \<Rightarrow> ''req-'' @ b @ ''-'' @ unix_nano src)"

text \<open>
  The connection primitives of \<^verbatim>\<open>callAgent\<close>: \<^verbatim>\<open>net.DialTimeout\<close> on the socket path, the JSON
  encoder writing the request, the JSON decoder reading the response (\<open>Inl\<close> is a decode
  error, which includes the expiry of the deadline), and the sources of a fresh id.
\<close>

record 'x Net =
  DialTimeout :: "string \<Rightarrow> 'x \<Rightarrow> error option \<times> 'x"
  Encode :: "RPCRequest \<Rightarrow> 'x \<Rightarrow> error option \<times> 'x"
  Decode :: "'x \<Rightarrow> (error + RPCResponse) \<times> 'x"
  idSource :: "'x \<Rightarrow> IDSource"

definition callAgent ::
  "'x Net \<Rightarrow> string \<Rightarrow> RPCRequest \<Rightarrow> int \<Rightarrow> 'x \<Rightarrow> (RPCResponse \<times> error option) \<times> 'x" where
  "callAgent net sockPath req callTimeout x =
     (let req = (if RPCRequest.ID req = []
                 then req\<lparr>RPCRequest.ID := generateRequestID (idSource net x)\<rparr> else req) in
      case DialTimeout net sockPath x of
        (Some err, x1) \<Rightarrow> ((RPCResponse_zero, Some (Errorf ''failed to connect agent: %w'' [E err])), x1)
      | (None, x1) \<Rightarrow>
         (case Encode net req x1 of
            (Some err, x2) \<Rightarrow> ((RPCResponse_zero, Some (Errorf ''encode error: %w'' [E err])), x2)
          | (None, x2) \<Rightarrow>
             (case Decode net x2 of
                (Inl err, x3) \<Rightarrow> ((RPCResponse_zero, Some (Errorf ''decode error: %w'' [E err])), x3)
              | (Inr resp, x3) \<Rightarrow>
                  if RPCResponse.ID resp \<noteq> RPCRequest.ID req
                  then ((RPCResponse_zero, Some (Errorf ''mismatched response id'' [])), x3)
                  else ((resp, None), x3))))"

section \<open>Package mode: the helper's request handler\<close>

text \<open>
  The function that \<^verbatim>\<open>RunAgent\<close> passes to \<^verbatim>\<open>startAgentIPCServer\<close>. \<open>errorText\<close> is the
  method \<^verbatim>\<open>Error()\<close> of Go errors and \<open>closeDone\<close> the closing of the channel \<^verbatim>\<open>done\<close>.
\<close>

record 'x AgentDeps =
  agentInstaller :: "'x Installer"
  errorText :: "error \<Rightarrow> string"
  closeDone :: "'x \<Rightarrow> 'x"

definition RunAgent_handler :: "'x AgentDeps \<Rightarrow> Config \<Rightarrow> RPCRequest \<Rightarrow> 'x \<Rightarrow> RPCResponse \<times> 'x" where
  "RunAgent_handler deps cfg req x =
     (if Command req = ''Ping'' then
        (RPCResponse_zero\<lparr>RPCResponse.ID := RPCRequest.ID req, OK := True\<rparr>, x)
      else if Command req = ''Shutdown'' then
        (RPCResponse_zero\<lparr>RPCResponse.ID := RPCRequest.ID req, OK := True\<rparr>, closeDone deps x)
      else if Command req = ''RunUserScript'' then
        (if RPCRequest.DoNotWait req then
           (case Installer_ExecuteScript (agentInstaller deps) (Path req) ''userscript'' True
                   (TrackBackgroundProcesses cfg) x of
              (Some err, x') \<Rightarrow>
                (RPCResponse_zero\<lparr>RPCResponse.ID := RPCRequest.ID req, OK := False,
                   RPCResponse.Error := errorText deps err\<rparr>, x')
            | (None, x') \<Rightarrow>
                (RPCResponse_zero\<lparr>RPCResponse.ID := RPCRequest.ID req, OK := True, Started := True\<rparr>, x'))
         else
           (case Installer_ExecuteScript (agentInstaller deps) (Path req) ''userscript'' False
                   (TrackBackgroundProcesses cfg) x of
              (Some err, x') \<Rightarrow>
                (RPCResponse_zero\<lparr>RPCResponse.ID := RPCRequest.ID req, OK := False,
                   RPCResponse.Error := errorText deps err\<rparr>, x')
            | (None, x') \<Rightarrow>
                (RPCResponse_zero\<lparr>RPCResponse.ID := RPCRequest.ID req, OK := True\<rparr>, x')))
      else if Command req = ''PlaceUserFile'' then
        (case Installer_PlaceFile (agentInstaller deps) (Path req) ''userfile'' x of
           (Some err, x') \<Rightarrow>
             (RPCResponse_zero\<lparr>RPCResponse.ID := RPCRequest.ID req, OK := False,
                RPCResponse.Error := errorText deps err\<rparr>, x')
         | (None, x') \<Rightarrow>
             (RPCResponse_zero\<lparr>RPCResponse.ID := RPCRequest.ID req, OK := True\<rparr>, x'))
      else
        (RPCResponse_zero\<lparr>RPCResponse.ID := RPCRequest.ID req, OK := False,
           RPCResponse.Error := ''unknown command''\<rparr>, x))"

text \<open>
  The connection handler of \<^verbatim>\<open>startAgentIPCServer\<close> seen from the client: what the client
  decodes after it has encoded \<open>req\<close> is the handler's response to \<open>req\<close>. The state is that
  of the helper together with the request in flight; a client that connects to a helper
  that does not listen gets an error.
\<close>

record 'x AgentSide =
  listening :: bool
  inFlight :: "RPCRequest option"
  ids :: IDSource
  helper :: 'x

definition agentNet :: "'x AgentDeps \<Rightarrow> Config \<Rightarrow> 'x AgentSide Net" where
  "agentNet deps cfg =
     \<lparr>DialTimeout = (\<lambda>sockPath a.
          if listening a then (None, a)
          else (Some (External ''dial unix: connect: no such file or directory''), a)),
      Encode = (\<lambda>req a. (None, a\<lparr>inFlight := Some req\<rparr>)),
      Decode = (\<lambda>a. case inFlight a of
          None \<Rightarrow> (Inl (External ''EOF''), a)
        | Some req \<Rightarrow>
            (case RunAgent_handler deps cfg req (helper a) of
               (resp, h') \<Rightarrow> (Inr resp, a\<lparr>inFlight := None, helper := h'\<rparr>))),
      idSource = ids\<rparr>"

section \<open>Package phases: the fail-policy evaluator\<close>

text \<open>
  \<^verbatim>\<open>handleItemError(item, err, operation)\<close> returns true when the phase must stop. The error
  value is only logged, so the model takes the item and the operation.
\<close>

definition handleItemError :: "Item \<Rightarrow> string \<Rightarrow> bool" where
  "handleItemError item operation =
     (let policy = GetEffectiveFailPolicy item in
      if policy = ''failure_is_not_an_option'' then True
      else if policy = ''failable'' then False
      else if policy = ''failable_execution'' then
        (if operation = ''script execution'' then False else True)
      else True)"

section \<open>Package phases: \<^verbatim>\<open>ProcessItems\<close>\<close>

text \<open>
  The body of the loop \<^verbatim>\<open>for i, item := range successfulItems\<close>. It returns the error with
  which \<^verbatim>\<open>ProcessItems\<close> returns (or \<open>None\<close> to go on with the next item), the new value of
  \<^verbatim>\<open>backgroundProcessCount\<close> and the new state.
\<close>

definition installItem ::
  "'x Manager \<Rightarrow> 'x Host \<Rightarrow> Item \<Rightarrow> int \<Rightarrow> 'x \<Rightarrow> error option \<times> int \<times> 'x" where
  "installItem m os item backgroundProcessCount x =
     (if Type item = ''package'' then
        (case (if PkgRequired item
               then Some (CheckPackageReceipt os (PackageID item) (Version item) x)
               else None) of
           Some (isInstalled, Some err) \<Rightarrow>
             (if handleItemError item ''package receipt check''
              then (Some (Errorf ''failed to check package receipt for %s: %w'' [S (Name item), E err]),
                    backgroundProcessCount, x)
              else (None, backgroundProcessCount, x))
         | Some (True, None) \<Rightarrow> (None, backgroundProcessCount, x)
         | _ \<Rightarrow>
             (case Installer_InstallPackage (installer m) (File item) ''/'' x of
                (Some err, x') \<Rightarrow>
                  (if handleItemError item ''package installation''
                   then (Some (Errorf ''failed to install package %s: %w'' [S (Name item), E err]),
                         backgroundProcessCount, x')
                   else (None, backgroundProcessCount, x'))
              | (None, x') \<Rightarrow> (None, backgroundProcessCount, x')))
      else if Type item = ''rootscript'' then
        (case Installer_ExecuteScript (installer m) (File item) ''rootscript'' (Item.DoNotWait item)
                (TrackBackgroundProcesses (config m)) x of
           (Some err, x') \<Rightarrow>
             (if handleItemError item ''script execution''
              then (Some (Errorf ''failed to execute root script %s: %w'' [S (Name item), E err]),
                    backgroundProcessCount, x')
              else (None, backgroundProcessCount, x'))
         | (None, x') \<Rightarrow>
             (if Item.DoNotWait item \<and> TrackBackgroundProcesses (config m)
              then (None, backgroundProcessCount + 1, x')
              else (None, backgroundProcessCount, x')))
      else if Type item = ''userscript'' then
        (case Installer_ExecuteScript (installer m) (File item) ''userscript'' (Item.DoNotWait item)
                (TrackBackgroundProcesses (config m)) x of
           (Some err, x') \<Rightarrow>
             (if handleItemError item ''script execution''
              then (Some (Errorf ''failed to execute user script %s: %w'' [S (Name item), E err]),
                    backgroundProcessCount, x')
              else (None, backgroundProcessCount, x'))
         | (None, x') \<Rightarrow>
             (if Item.DoNotWait item \<and> TrackBackgroundProcesses (config m)
              then (None, backgroundProcessCount + 1, x')
              else (None, backgroundProcessCount, x')))
      else if Type item = ''rootfile'' then
        (case Installer_PlaceFile (installer m) (File item) ''rootfile'' x of
           (Some err, x') \<Rightarrow>
             (if handleItemError item ''file placement''
              then (Some (Errorf ''failed to place root file %s: %w'' [S (Name item), E err]),
                    backgroundProcessCount, x')
              else (None, backgroundProcessCount, x'))
         | (None, x') \<Rightarrow> (None, backgroundProcessCount, x'))
      else if Type item = ''userfile'' then
        (case Installer_PlaceFile (installer m) (File item) ''userfile'' x of
           (Some err, x') \<Rightarrow>
             (if handleItemError item ''file placement''
              then (Some (Errorf ''failed to place user file %s: %w'' [S (Name item), E err]),
                    backgroundProcessCount, x')
              else (None, backgroundProcessCount, x'))
         | (None, x') \<Rightarrow> (None, backgroundProcessCount, x'))
      else (None, backgroundProcessCount, x))"

fun installItems ::
  "'x Manager \<Rightarrow> 'x Host \<Rightarrow> Item list \<Rightarrow> int \<Rightarrow> 'x \<Rightarrow> error option \<times> int \<times> 'x" where
  "installItems m os [] backgroundProcessCount x = (None, backgroundProcessCount, x)"
| "installItems m os (item # rest) backgroundProcessCount x =
     (case installItem m os item backgroundProcessCount x of
        (Some err, backgroundProcessCount', x') \<Rightarrow> (Some err, backgroundProcessCount', x')
      | (None, backgroundProcessCount', x') \<Rightarrow> installItems m os rest backgroundProcessCount' x')"

text \<open>The loop that tracks the target path of every filtered item with a non-empty path.\<close>

fun trackFiles :: "'x CleanupTracker \<Rightarrow> Item list \<Rightarrow> 'x \<Rightarrow> 'x" where
  "trackFiles t [] x = x"
| "trackFiles t (item # rest) x =
     trackFiles t rest (if File item \<noteq> [] then TrackFile t (File item) x else x)"

definition ProcessItems ::
  "'x Manager \<Rightarrow> 'x Host \<Rightarrow> Item list \<Rightarrow> string \<Rightarrow> 'x \<Rightarrow> error option \<times> 'x" where
  "ProcessItems m os items phaseName x =
     (if length items = 0 then (None, x)
      else
        let filteredItems = filter (\<lambda>item. \<not> ShouldSkipItem os (SkipIf item) x) items in
        if length filteredItems = 0 then (None, x)
        else
          let maxConcurrency = (if DownloadMaxConcurrency (config m) \<le> 0 then 4
                                else DownloadMaxConcurrency (config m));
              cleanupFailed = (CleanupOnFailure (config m) \<and> \<not> KeepFailedFiles (config m));
              x1 = trackFiles (cleanupTracker m) filteredItems x;
              (results, x2) = Downloader_DownloadMultipleWithCleanup (downloader m)
                                filteredItems maxConcurrency cleanupFailed x1;
              downloadErrors = List.map_filter DownloadResult.Error results;
              successfulItems = map Item (filter (\<lambda>result. DownloadResult.Error result = None) results)
          in
          if length downloadErrors > 0
          then (Some (Errorf ''failed to download %d items in %s phase, first error: %w''
                        [I (int (length downloadErrors)), S phaseName, E (hd downloadErrors)]), x2)
          else
            (case installItems m os successfulItems 0 x2 of
               (Some err, backgroundProcessCount, x3) \<Rightarrow> (Some err, x3)
             | (None, backgroundProcessCount, x3) \<Rightarrow>
                 (case (if backgroundProcessCount > 0 \<and> TrackBackgroundProcesses (config m)
                        then Installer_WaitForBackgroundProcesses (installer m)
                               (BackgroundTimeout (config m)) x3
                        else ([], x3)) of
                    (errors, x4) \<Rightarrow>
                      if length errors > 0
                      then (Some (Errorf ''background processes failed in %s phase: %d errors''
                                    [S phaseName, I (int (length errors))]), x4)
                      else if CleanupOnSuccess (config m)
                      then (None, snd (CleanupAll (cleanupTracker m) x4))
                      else (None, x4))))"

section \<open>Package mode: the driver \<^verbatim>\<open>RunDaemon\<close>\<close>

text \<open>
  What \<^verbatim>\<open>RunDaemon\<close> and \<^verbatim>\<open>getBootstrap\<close> build or call outside themselves: the download
  client for the manifest and the one for the items (\<^verbatim>\<open>NewClient\<close> or \<^verbatim>\<open>NewClientWithAuth\<close>
  with the retry defaults and the redirect policy applied), the system installer, the
  cleanup tracker of the phase manager, the host, reading and decoding the manifest file
  (\<^verbatim>\<open>os.ReadFile\<close> and \<^verbatim>\<open>json.Unmarshal\<close>), the manifest of the managed configuration, the
  readiness wait, the change of ownership, the protocol client, the text of an error, the
  decimal text of an integer and the reboot command. The retry record is reached through package \<^verbatim>\<open>retry\<close> only, so it is
  kept apart from the state \<open>'x\<close> of the collaborators.
\<close>

record 'x DaemonDeps =
  bootstrapDownloader :: "'x Downloader"
  itemDownloader :: "'x Downloader"
  systemInstaller :: "'x Installer"
  tracker :: "'x CleanupTracker"
  hostOS :: "'x Host"
  readBootstrapJSON :: "string \<Rightarrow> 'x \<Rightarrow> error + Bootstrap"
  LoadBootstrapFromProfile :: "'x \<Rightarrow> error + Bootstrap"
  waitForAgentSocket :: "int \<Rightarrow> 'x \<Rightarrow> (error + string) \<times> 'x"
  changeFileOwnershipToConsoleUser :: "string \<Rightarrow> 'x \<Rightarrow> error option \<times> 'x"
  agentCall :: "string \<Rightarrow> RPCRequest \<Rightarrow> int \<Rightarrow> 'x \<Rightarrow> (RPCResponse \<times> error option) \<times> 'x"
  errText :: "error \<Rightarrow> string"
  intText :: "int \<Rightarrow> string"
  shutdownReboot :: "'x \<Rightarrow> 'x"

definition LoadBootstrapWithOptions ::
  "'x DaemonDeps \<Rightarrow> string \<Rightarrow> bool \<Rightarrow> 'x \<Rightarrow> error + Bootstrap" where
  "LoadBootstrapWithOptions deps filename validate x =
     (case readBootstrapJSON deps filename x of
        Inl err \<Rightarrow> Inl err
      | Inr bootstrap \<Rightarrow>
          if validate then
            (case ValidateBootstrap bootstrap of
               Some err \<Rightarrow> Inl err
             | None \<Rightarrow> Inr bootstrap)
          else Inr bootstrap)"

definition LoadBootstrap :: "'x DaemonDeps \<Rightarrow> string \<Rightarrow> 'x \<Rightarrow> error + Bootstrap" where
  "LoadBootstrap deps filename x = LoadBootstrapWithOptions deps filename True x"

definition getBootstrap :: "'x DaemonDeps \<Rightarrow> Config \<Rightarrow> 'x \<Rightarrow> (error + Bootstrap) \<times> 'x" where
  "getBootstrap deps cfg x =
     (if JSONURL cfg \<noteq> [] then
        (let bootstrapPath = InstallPath cfg @ ''/bootstrap.json'' in
         case Downloader_DownloadFile (bootstrapDownloader deps) (JSONURL cfg) bootstrapPath [] x of
           (Some err, x1) \<Rightarrow> (Inl (Errorf ''failed to download bootstrap: %w'' [E err]), x1)
         | (None, x1) \<Rightarrow>
             (case (if SkipValidation cfg
                    then LoadBootstrapWithOptions deps bootstrapPath False x1
                    else LoadBootstrap deps bootstrapPath x1) of
                Inl err \<Rightarrow> (Inl (Errorf ''failed to parse bootstrap: %w'' [E err]), x1)
              | Inr bootstrap \<Rightarrow> (Inr bootstrap, x1)))
      else
        (case LoadBootstrapFromProfile deps x of
           Inl err \<Rightarrow> (Inl (Errorf ''failed to load bootstrap from mobile config: %w'' [E err]), x)
         | Inr bootstrap \<Rightarrow> (Inr bootstrap, x)))"

text \<open>
  The body of the loop over the userland items in \<^verbatim>\<open>RunDaemon\<close>. The first component is
  \<open>Some code\<close> when the body calls \<^verbatim>\<open>os.Exit(code)\<close>.
\<close>

definition userlandItem ::
  "'x DaemonDeps \<Rightarrow> Config \<Rightarrow> string \<Rightarrow> Item \<Rightarrow> int \<Rightarrow> 'x \<Rightarrow> int option \<times> int \<times> 'x" where
  "userlandItem deps cfg sockPath item backgroundProcessCount x =
     (if Type item = ''userscript'' then
        (case changeFileOwnershipToConsoleUser deps (File item) x of
           (Some err, x1) \<Rightarrow> (Some 1, backgroundProcessCount, x1)
         | (None, x1) \<Rightarrow>
            (case agentCall deps sockPath
                    (RPCRequest_zero\<lparr>Command := ''RunUserScript'', Path := File item,
                       RPCRequest.DoNotWait := Item.DoNotWait item\<rparr>)
                    (AgentRequestTimeout cfg) x1 of
               ((resp, err), x2) \<Rightarrow>
                 if err \<noteq> None \<or> \<not> OK resp then (Some 1, backgroundProcessCount, x2)
                 else if Item.DoNotWait item then (None, backgroundProcessCount + 1, x2)
                 else (None, backgroundProcessCount, x2)))
      else if Type item = ''userfile'' then
        (case changeFileOwnershipToConsoleUser deps (File item) x of
           (Some err, x1) \<Rightarrow> (Some 1, backgroundProcessCount, x1)
         | (None, x1) \<Rightarrow>
            (case agentCall deps sockPath
                    (RPCRequest_zero\<lparr>Command := ''PlaceUserFile'', Path := File item\<rparr>)
                    (AgentRequestTimeout cfg) x1 of
               ((resp, err), x2) \<Rightarrow>
                 if err \<noteq> None \<or> \<not> OK resp then (Some 1, backgroundProcessCount, x2)
                 else (None, backgroundProcessCount, x2)))
      else if Type item = ''package'' then
        (case (if PkgRequired item
               then Some (CheckPackageReceipt (hostOS deps) (PackageID item) (Version item) x)
               else None) of
           Some (isInstalled, Some checkErr) \<Rightarrow> (Some 1, backgroundProcessCount, x)
         | Some (True, None) \<Rightarrow> (None, backgroundProcessCount, x)
         | _ \<Rightarrow>
            (case Installer_InstallPackage (systemInstaller deps) (File item) ''/'' x of
               (Some err, x1) \<Rightarrow> (Some 1, backgroundProcessCount, x1)
             | (None, x1) \<Rightarrow> (None, backgroundProcessCount, x1)))
      else if Type item = ''rootscript'' then
        (case Installer_ExecuteScript (systemInstaller deps) (File item) ''rootscript''
                (Item.DoNotWait item) (TrackBackgroundProcesses cfg) x of
           (Some err, x1) \<Rightarrow> (Some 1, backgroundProcessCount, x1)
         | (None, x1) \<Rightarrow>
             if Item.DoNotWait item then (None, backgroundProcessCount + 1, x1)
             else (None, backgroundProcessCount, x1))
      else if Type item = ''rootfile'' then
        (case Installer_PlaceFile (systemInstaller deps) (File item) ''rootfile'' x of
           (Some err, x1) \<Rightarrow> (Some 1, backgroundProcessCount, x1)
         | (None, x1) \<Rightarrow> (None, backgroundProcessCount, x1))
      else (None, backgroundProcessCount, x))"

fun userlandItems ::
  "'x DaemonDeps \<Rightarrow> Config \<Rightarrow> string \<Rightarrow> Item list \<Rightarrow> int \<Rightarrow> 'x \<Rightarrow> int option \<times> int \<times> 'x" where
  "userlandItems deps cfg sockPath [] backgroundProcessCount x = (None, backgroundProcessCount, x)"
| "userlandItems deps cfg sockPath (item # rest) backgroundProcessCount x =
     (case userlandItem deps cfg sockPath item backgroundProcessCount x of
        (Some code, backgroundProcessCount', x') \<Rightarrow> (Some code, backgroundProcessCount', x')
      | (None, backgroundProcessCount', x') \<Rightarrow>
          userlandItems deps cfg sockPath rest backgroundProcessCount' x')"

text \<open>
  \<^verbatim>\<open>RunDaemon\<close> ends in \<^verbatim>\<open>os.Exit\<close> on every path: the result is the exit code with the retry
  store and the state of the collaborators at that moment. The part from the pre-download
  of the userland items to the shutdown request is \<open>runUserland\<close>; it returns \<open>Some code\<close>
  when it exits, with \<open>True\<close> when it has incremented the retry count before.
\<close>

definition runUserland ::
  "'x DaemonDeps \<Rightarrow> Config \<Rightarrow> Item list \<Rightarrow> 'x \<Rightarrow> (int \<times> string option) option \<times> 'x" where
  "runUserland deps cfg userland x =
     (let cleanupFailed = (CleanupOnFailure cfg \<and> \<not> KeepFailedFiles cfg) in
      case Downloader_DownloadMultipleWithCleanup (itemDownloader deps) userland
             (DownloadMaxConcurrency cfg) cleanupFailed x of
        (results, x1) \<Rightarrow>
          let downloadErrors = List.map_filter DownloadResult.Error results in
          if length downloadErrors > 0
          then (Some (1, Some (''userland downloads failed: ''
                                 @ intText deps (int (length downloadErrors)) @ '' errors'')), x1)
          else
            (case waitForAgentSocket deps (WaitForAgentTimeout cfg) x1 of
               (Inl err, x2) \<Rightarrow> (Some (1, None), x2)
             | (Inr sockPath, x2) \<Rightarrow>
                (case userlandItems deps cfg sockPath userland 0 x2 of
                   (Some code, backgroundProcessCount, x3) \<Rightarrow> (Some (code, None), x3)
                 | (None, backgroundProcessCount, x3) \<Rightarrow>
                    (case (if backgroundProcessCount > 0 \<and> TrackBackgroundProcesses cfg
                           then Installer_WaitForBackgroundProcesses (systemInstaller deps)
                                  (BackgroundTimeout cfg) x3
                           else ([], x3)) of
                       (errors, x4) \<Rightarrow>
                         if length errors > 0 then (Some (1, None), x4)
                         else
                           (case agentCall deps sockPath (RPCRequest_zero\<lparr>Command := ''Shutdown''\<rparr>)
                                   (AgentRequestTimeout cfg) x4 of
                              (r, x5) \<Rightarrow> (None, x5))))))"

definition RunDaemon ::
  "'x DaemonDeps \<Rightarrow> Config \<Rightarrow> RetryStore \<times> 'x \<Rightarrow> int \<times> RetryStore \<times> 'x" where
  "RunDaemon deps cfg sx =
     (case sx of (s, x) \<Rightarrow>
      if \<not> fst (ShouldRetry s) then (0, s, x)
      else
        let s1 = snd (IncrementRetryCount ''daemon started'' s) in
        case getBootstrap deps cfg x of
          (Inl err, x1) \<Rightarrow>
            (1, snd (IncrementRetryCount (''bootstrap failed: '' @ errText deps err) s1), x1)
        | (Inr bootstrap, x1) \<Rightarrow>
           (let manager = \<lparr>downloader = itemDownloader deps, installer = systemInstaller deps,
                           config = cfg, cleanupTracker = tracker deps\<rparr> in
            case (if length (Preflight bootstrap) > 0
                  then ProcessItems manager (hostOS deps) (Preflight bootstrap) ''preflight'' x1
                  else (None, x1)) of
              (Some err, x2) \<Rightarrow>
                (1, snd (IncrementRetryCount (''preflight failed: '' @ errText deps err) s1), x2)
            | (None, x2) \<Rightarrow>
               (case (if length (SetupAssistant bootstrap) > 0
                      then ProcessItems manager (hostOS deps) (SetupAssistant bootstrap)
                             ''setupassistant'' x2
                      else (None, x2)) of
                  (Some err, x3) \<Rightarrow>
                    (1, snd (IncrementRetryCount (''setupassistant failed: '' @ errText deps err) s1), x3)
                | (None, x3) \<Rightarrow>
                   (case (if length (Userland bootstrap) > 0
                          then runUserland deps cfg (Userland bootstrap) x3
                          else (None, x3)) of
                      (Some (code, Some reason), x4) \<Rightarrow>
                        (code, snd (IncrementRetryCount reason s1), x4)
                    | (Some (code, None), x4) \<Rightarrow> (code, s1, x4)
                    | (None, x4) \<Rightarrow>
                        (0, snd (ClearRetryCount s1),
                         if Reboot cfg then shutdownReboot deps x4 else x4)))))"

section \<open>Package installer: packages, scripts and files\<close>

text \<open>
  What the installers and \<^verbatim>\<open>utils.Exit\<close> ask of the operating system, over the state \<open>'x\<close>
  of the machine. \<open>sys_IsNotExist p\<close> is \<^verbatim>\<open>os.IsNotExist\<close> of the error of \<^verbatim>\<open>os.Stat(p)\<close>. A
  command is the list of its arguments, run in a working directory (\<open>[]\<close> for the current
  one): \<open>cmd_CombinedOutput\<close> waits for the child and returns its output with \<open>None\<close> when it
  exited with 0, \<open>Some (ExitError code)\<close> when it ran and did not, and another error when it
  could not be started; \<open>cmd_Run\<close> returns the standard output and the standard error
  apart; \<open>cmd_Start\<close> does not wait. The file modes \<^verbatim>\<open>0755\<close> and \<^verbatim>\<open>0644\<close> are the numbers 493
  and 420. The methods of \<^verbatim>\<open>utils.ProcessTracker\<close>, which start goroutines and timers, are
  parameters; the processes that it tracks are part of \<open>'x\<close>.
\<close>

record 'x System =
  sys_IsNotExist :: "string \<Rightarrow> 'x \<Rightarrow> bool"
  sys_Chmod :: "string \<Rightarrow> nat \<Rightarrow> 'x \<Rightarrow> error option \<times> 'x"
  sys_Remove :: "string \<Rightarrow> 'x \<Rightarrow> error option \<times> 'x"
  sys_RemoveAll :: "string \<Rightarrow> 'x \<Rightarrow> error option \<times> 'x"
  sys_Dir :: "string \<Rightarrow> string"
  sys_Sleep :: "int \<Rightarrow> 'x \<Rightarrow> 'x"
  cmd_CombinedOutput :: "string list \<Rightarrow> string \<Rightarrow> 'x \<Rightarrow> (string \<times> error option) \<times> 'x"
  cmd_Run :: "string list \<Rightarrow> 'x \<Rightarrow> (string \<times> string \<times> error option) \<times> 'x"
  cmd_Start :: "string list \<Rightarrow> string \<Rightarrow> 'x \<Rightarrow> error option \<times> 'x"
  tracker_StartBackgroundProcess :: "string list \<Rightarrow> string \<Rightarrow> string \<Rightarrow> 'x \<Rightarrow> error option \<times> 'x"
  tracker_WaitForCompletion :: "int \<Rightarrow> 'x \<Rightarrow> error list \<times> 'x"
  tracker_GetActiveCount :: "'x \<Rightarrow> int"

definition RunCommandCapture :: "'x System \<Rightarrow> string list \<Rightarrow> 'x \<Rightarrow> (error + string) \<times> 'x" where
  "RunCommandCapture sys args x =
     (if length args = 0 then (Inl (Errorf ''no command provided'' []), x)
      else
        (case cmd_Run sys args x of
           ((stdout, stderr, Some err), x1) \<Rightarrow>
             (Inl (Errorf ''%v: %s'' [E err, S (TrimSpace stderr)]), x1)
         | ((stdout, stderr, None), x1) \<Rightarrow> (Inr (TrimSpace stdout), x1)))"

definition GetConsoleUserUID :: "'x System \<Rightarrow> 'x \<Rightarrow> (error + string) \<times> 'x" where
  "GetConsoleUserUID sys x = RunCommandCapture sys [''stat'', ''-f'', ''%u'', ''/dev/console''] x"

record PackageInstaller =
  dryRun :: bool
  isAgentMode :: bool



record FilePlacer =
  dryRun :: bool
  isAgentMode :: bool



text \<open>
  The script executor with \<^verbatim>\<open>ExecuteScriptForPreflight\<close>. \<^verbatim>\<open>detectScriptInterpreter\<close> reads the
  first line of the script for a log message and its error is dropped, so it is left out.
\<close>

record ScriptExecutor =
  dryRun :: bool
  isAgentMode :: bool


definition handleDryRunExecution :: "string \<Rightarrow> string \<Rightarrow> bool \<Rightarrow> error option" where
  "handleDryRunExecution scriptPath scriptType doNotWait = None"

definition validateAndPrepareScript :: "'x System \<Rightarrow> string \<Rightarrow> 'x \<Rightarrow> error option \<times> 'x" where
  "validateAndPrepareScript sys scriptPath x =
     (if sys_IsNotExist sys scriptPath x
      then (Some (Errorf ''script does not exist: %s'' [S scriptPath]), x)
      else
        (case sys_Chmod sys scriptPath 493 x of
           (Some err, x1) \<Rightarrow> (Some (Errorf ''failed to make script executable: %w'' [E err]), x1)
         | (None, x1) \<Rightarrow> (None, x1)))"

text \<open>The command that \<^verbatim>\<open>createScriptCommand\<close> builds: its arguments and its working directory.\<close>

definition createScriptCommand ::
  "'x System \<Rightarrow> ScriptExecutor \<Rightarrow> string \<Rightarrow> string \<Rightarrow> 'x
   \<Rightarrow> (error + string list \<times> string) \<times> 'x" where
  "createScriptCommand sys se scriptPath scriptType x =
     (if scriptType = ''rootscript'' then (Inr ([scriptPath], sys_Dir sys scriptPath), x)
      else if scriptType = ''userscript'' then
        (if ScriptExecutor.isAgentMode se then (Inr ([scriptPath], sys_Dir sys scriptPath), x)
         else
           (case GetConsoleUserUID sys x of
              (Inl err, x1) \<Rightarrow> (Inl (Errorf ''failed to get user UID for userscript: %w'' [E err]), x1)
            | (Inr userUID, x1) \<Rightarrow>
                (Inr ([''launchctl'', ''asuser'', userUID, scriptPath], sys_Dir sys scriptPath), x1)))
      else (Inl (Errorf ''unknown script type: %s'' [S scriptType]), x))"

definition handleBackgroundExecution ::
  "'x System \<Rightarrow> string list \<times> string \<Rightarrow> string \<Rightarrow> string \<Rightarrow> bool \<Rightarrow> 'x \<Rightarrow> error option \<times> 'x" where
  "handleBackgroundExecution sys cmd scriptPath scriptType trackBackgroundProcesses x =
     (if trackBackgroundProcesses
      then tracker_StartBackgroundProcess sys (fst cmd) (snd cmd)
             (scriptPath @ '' ('' @ scriptType @ '')'') x
      else
        (case cmd_Start sys (fst cmd) (snd cmd) x of
           (Some err, x1) \<Rightarrow> (Some (Errorf ''failed to start background script: %w'' [E err]), x1)
         | (None, x1) \<Rightarrow> (None, x1)))"

definition handlePreflightResult :: "error option \<Rightarrow> string \<Rightarrow> error option" where
  "handlePreflightResult err output =
     (case err of
        Some (ExitError exitCode) \<Rightarrow> None
      | Some e \<Rightarrow> Some (Errorf ''preflight script execution failed: %w, output: %s'' [E e, S output])
      | None \<Rightarrow> Some PreflightSuccessError)"

definition executeAndHandleResult ::
  "'x System \<Rightarrow> string list \<times> string \<Rightarrow> string \<Rightarrow> string \<Rightarrow> bool \<Rightarrow> 'x \<Rightarrow> error option \<times> 'x" where
  "executeAndHandleResult sys cmd scriptPath scriptType isPreflight x =
     (case cmd_CombinedOutput sys (fst cmd) (snd cmd) x of
        ((output, err), x1) \<Rightarrow>
          if isPreflight \<and> scriptType = ''rootscript'' then (handlePreflightResult err output, x1)
          else
            (case err of
               Some e \<Rightarrow> (Some (Errorf ''script execution failed: %w, output: %s'' [E e, S output]), x1)
             | None \<Rightarrow> (None, x1)))"

definition executeScript ::
  "'x System \<Rightarrow> ScriptExecutor \<Rightarrow> string \<Rightarrow> string \<Rightarrow> bool \<Rightarrow> bool \<Rightarrow> bool \<Rightarrow> 'x
   \<Rightarrow> error option \<times> 'x" where
  "executeScript sys se scriptPath scriptType doNotWait trackBackgroundProcesses isPreflight x =
     (if ScriptExecutor.dryRun se then (handleDryRunExecution scriptPath scriptType doNotWait, x)
      else
        (case validateAndPrepareScript sys scriptPath x of
           (Some err, x1) \<Rightarrow> (Some err, x1)
         | (None, x1) \<Rightarrow>
            (case createScriptCommand sys se scriptPath scriptType x1 of
               (Inl err, x2) \<Rightarrow> (Some err, x2)
             | (Inr cmd, x2) \<Rightarrow>
                 if doNotWait \<and> \<not> isPreflight
                 then handleBackgroundExecution sys cmd scriptPath scriptType trackBackgroundProcesses x2
                 else executeAndHandleResult sys cmd scriptPath scriptType isPreflight x2)))"

definition ExecuteScript ::
  "'x System \<Rightarrow> ScriptExecutor \<Rightarrow> string \<Rightarrow> string \<Rightarrow> bool \<Rightarrow> bool \<Rightarrow> 'x \<Rightarrow> error option \<times> 'x" where
  "ExecuteScript sys se scriptPath scriptType doNotWait trackBackgroundProcesses x =
     executeScript sys se scriptPath scriptType doNotWait trackBackgroundProcesses False x"

definition ExecuteScriptForPreflight ::
  "'x System \<Rightarrow> ScriptExecutor \<Rightarrow> string \<Rightarrow> string \<Rightarrow> bool \<Rightarrow> bool \<Rightarrow> 'x \<Rightarrow> error option \<times> 'x" where
  "ExecuteScriptForPreflight sys se scriptPath scriptType doNotWait trackBackgroundProcesses x =
     executeScript sys se scriptPath scriptType doNotWait trackBackgroundProcesses True x"




section \<open>Package manager: the phase manager with the preflight phase\<close>










section \<open>Package utils: \<^verbatim>\<open>Exit\<close> and \<^verbatim>\<open>Cleanup\<close>\<close>



section \<open>Package mode: \<^verbatim>\<open>RunDaemon\<close> with the phase manager\<close>










section \<open>Test doubles\<close>

text \<open>
  The fakes of \<^verbatim>\<open>manager_test.go\<close>, over a state that is the list of the calls made so far:
  \<open>fakeDownloader\<close> reports every download as successful, \<open>fakeInstaller\<close> fails on the script
  \<^verbatim>\<open>fail.sh\<close> with the error \<^verbatim>\<open>boom\<close> and succeeds otherwise. \<open>fakeTracker\<close> tracks nothing and
  \<open>fakeHost\<close> is an Apple Silicon Mac without package receipts.
\<close>

definition fakeDownloader :: "string list Downloader" where
  "fakeDownloader =
     \<lparr>Downloader_DownloadFile = (\<lambda>u p h x. (None, x)),
      Downloader_DownloadFileWithRetries = (\<lambda>u p h r w x. (None, x)),
      Downloader_VerifyFileHash = (\<lambda>p h x. (None, x)),
      Downloader_DownloadMultipleWithCleanup =
        (\<lambda>items maxc cleanup x. (map (\<lambda>it. \<lparr>Item = it, Error = None\<rparr>) items, x))\<rparr>"

definition fakeInstaller :: "string list Installer" where
  "fakeInstaller =
     \<lparr>Installer_InstallPackage = (\<lambda>pkgPath target x. (None, x @ [''InstallPackage '' @ pkgPath])),
      Installer_ExecuteScript = (\<lambda>scriptPath scriptType doNotWait track x.
         (if scriptPath = ''fail.sh'' then Some (External ''boom'') else None,
          x @ [''ExecuteScript '' @ scriptPath])),
      Installer_ExecuteScriptForPreflight = (\<lambda>scriptPath scriptType doNotWait track x.
         (if scriptPath = ''fail.sh'' then Some (External ''boom'') else None,
          x @ [''ExecuteScriptForPreflight '' @ scriptPath])),
      Installer_PlaceFile = (\<lambda>filePath fileType x. (None, x @ [''PlaceFile '' @ filePath])),
      Installer_WaitForBackgroundProcesses = (\<lambda>timeout x. ([], x)),
      Installer_GetBackgroundProcessCount = (\<lambda>x. 0)\<rparr>"

definition fakeTracker :: "string list CleanupTracker" where
  "fakeTracker =
     \<lparr>TrackFile = (\<lambda>p x. x), MarkSuccess = (\<lambda>p x. x),
      Cleanup = (\<lambda>x. (None, x)), CleanupAll = (\<lambda>x. (None, x))\<rparr>"

definition fakeHost :: "string list Host" where
  "fakeHost =
     \<lparr>GOOS = ''darwin'', GOARCH = ''arm64'',
      sysctl_cpu_brand_string = (\<lambda>x. Some ''Apple M1''),
      uname_v = (\<lambda>x. None),
      pkgutil_pkg_info = (\<lambda>packageID x. None)\<rparr>"

definition fakeManager :: "Config \<Rightarrow> string list Manager" where
  "fakeManager cfg =
     \<lparr>downloader = fakeDownloader, installer = fakeInstaller, config = cfg,
      cleanupTracker = fakeTracker\<rparr>"

text \<open>The defaults of \<^verbatim>\<open>config.NewConfig()\<close> for the fields of the model.\<close>

definition NewConfig :: Config where
  "NewConfig =
     \<lparr>JSONURL = [], InstallPath = ''/Library/go-installapplications'', Reboot = False,
      MaxRetries = 3, RetryDelay = 5, CleanupOnFailure = True, KeepFailedFiles = False,
      CleanupOnSuccess = True, DryRun = False, TrackBackgroundProcesses = False,
      BackgroundTimeout = 300000000000, DownloadMaxConcurrency = 4,
      WaitForAgentTimeout = 86400000000000, AgentRequestTimeout = 7200000000000,
      HTTPAuthUser = [], HTTPAuthPassword = [], HTTPHeaders = [],
      FollowRedirects = False, SkipValidation = False,
      LaunchAgentIdentifier = ''com.github.go-installapplications.agent'',
      LaunchDaemonIdentifier = ''com.github.go-installapplications.daemon''\<rparr>"

text \<open>
  A driver whose manifest download succeeds and whose manifest file decodes to \<open>decoded\<close>
  (an error when the file is not valid JSON); the helper never listens.
\<close>

definition fakeDeps :: "error + Bootstrap \<Rightarrow> string list DaemonDeps" where
  "fakeDeps decoded =
     \<lparr>bootstrapDownloader = fakeDownloader, itemDownloader = fakeDownloader,
      systemInstaller = fakeInstaller, tracker = fakeTracker, hostOS = fakeHost,
      readBootstrapJSON = (\<lambda>filename x. decoded),
      LoadBootstrapFromProfile = (\<lambda>x. Inl (External ''no bootstrap in profile'')),
      waitForAgentSocket = (\<lambda>timeout x. (Inl (External ''timeout waiting for agent socket''), x)),
      changeFileOwnershipToConsoleUser = (\<lambda>p x. (None, x)),
      agentCall = (\<lambda>sockPath req timeout x.
         ((RPCResponse_zero, Some (External ''failed to connect agent'')), x)),
      errText = (\<lambda>err. ''error''),
      intText = (\<lambda>n. ''n''),
      shutdownReboot = (\<lambda>x. x)\<rparr>"

text \<open>
  A connection on which the peer answers every request with the same response, and the
  helper's collaborators for the examples.
\<close>

definition replyingNet :: "RPCResponse \<Rightarrow> IDSource \<Rightarrow> unit Net" where
  "replyingNet resp src =
     \<lparr>DialTimeout = (\<lambda>sockPath x. (None, x)),
      Encode = (\<lambda>req x. (None, x)),
      Decode = (\<lambda>x. (Inr resp, x)),
      idSource = (\<lambda>x. src)\<rparr>"

definition fakeAgentDeps :: "string list AgentDeps" where
  "fakeAgentDeps =
     \<lparr>agentInstaller = fakeInstaller, errorText = (\<lambda>err. ''boom''),
      closeDone = (\<lambda>x. x @ [''close(done)''])\<rparr>"

text \<open>
  An outside whose server and disk follow a script indexed by the number of requests sent
  before: \<open>serve j\<close> is the answer to request \<open>j\<close> and \<open>copy j\<close> the outcome of streaming its
  body. Directories exist, files can be created, opened and read, and the files that exist
  can be removed; a map is ranged over from the key added last to the key added first.
  \<open>sha256_examples\<close> is SHA-256 on the contents that the examples use.
\<close>

definition sha256_examples :: "string \<Rightarrow> string" where
  "sha256_examples contents =
     (if contents = ''hello''
      then ''2cf24dba5fb0a30e26e83b2ac5b9e29e1b161e5c1fa7425e73043362938b9824''
      else if contents = ''jello''
      then ''187c9bceeb919e1b3e6d20fa50ecabf7d9d50b5343e8f9a3d912abb13929102e''
      else if contents = ''hel''
      then ''d6a81f224bbf2f7c22baddbd5d40730eb20cfb0b3d74e10cab61788214caceb1''
      else [])"

definition scriptedOutside ::
  "(nat \<Rightarrow> error + Response) \<Rightarrow> (nat \<Rightarrow> (nat \<times> error) option) \<Rightarrow> Outside" where
  "scriptedOutside serve copy =
     \<lparr>os_Stat_dir = (\<lambda>p w. Some True),
      os_MkdirAll = (\<lambda>p w. None),
      filepath_Dir = (\<lambda>p. ''/tmp''),
      http_NewRequest = (\<lambda>u. None),
      http_Do = (\<lambda>follow req w. serve (length (requests w))),
      os_Create = (\<lambda>p w. None),
      io_Copy = (\<lambda>p w. copy (length (requests w) - 1)),
      os_Open = (\<lambda>p w. None),
      io_Read = (\<lambda>p w. None),
      sha256_hex = sha256_examples,
      os_Remove = (\<lambda>p w. if files w p = None
                             then Some (External ''no such file or directory'') else None),
      os_IsNotExist = (\<lambda>err. err = External ''no such file or directory''),
      map_range = (\<lambda>keys w. rev keys)\<rparr>"

definition World_empty :: World where
  "World_empty = \<lparr>files = Map.empty, slept = [], requests = []\<rparr>"

text \<open>
  Three outsides for the examples: a disk that fills up after three bytes of the body; a
  mirror that serves other content at the first request and the expected content later; a
  server that answers 503 once and then serves the content.
\<close>

definition diskFullOutside :: Outside where
  "diskFullOutside =
     scriptedOutside (\<lambda>j. Inr \<lparr>StatusCode = 200, Body = ''hello''\<rparr>)
                     (\<lambda>j. Some (3, External ''write /tmp/f.bin: no space left on device''))"

definition staleMirrorOutside :: Outside where
  "staleMirrorOutside =
     scriptedOutside (\<lambda>j. if j = 0 then Inr \<lparr>StatusCode = 200, Body = ''jello''\<rparr>
                           else Inr \<lparr>StatusCode = 200, Body = ''hello''\<rparr>)
                     (\<lambda>j. None)"

definition flakyServerOutside :: Outside where
  "flakyServerOutside =
     scriptedOutside (\<lambda>j. if j = 0 then Inr \<lparr>StatusCode = 503, Body = []\<rparr>
                           else Inr \<lparr>StatusCode = 200, Body = ''hello''\<rparr>)
                     (\<lambda>j. None)"

text \<open>
  Two packages that expect the content \<open>hello\<close>, for the examples of
  \<^verbatim>\<open>DownloadMultipleWithCleanup\<close>.
\<close>

definition examplePackageA :: Item where
  "examplePackageA =
     Item_zero\<lparr>File := ''/tmp/a.pkg'', URL := ''https://example.com/a.pkg'',
                Hash := ''2cf24dba5fb0a30e26e83b2ac5b9e29e1b161e5c1fa7425e73043362938b9824''\<rparr>"

definition examplePackageB :: Item where
  "examplePackageB =
     Item_zero\<lparr>File := ''/tmp/b.pkg'', URL := ''https://example.com/b.pkg'',
                Hash := ''2cf24dba5fb0a30e26e83b2ac5b9e29e1b161e5c1fa7425e73043362938b9824''\<rparr>"



section \<open>Verified properties\<close>

subsection \<open>Manifest validation\<close>

lemma validateFailPolicy_None_iff:
  "validateFailPolicy p = None \<longleftrightarrow>
   p \<in> {[], ''failure_is_not_an_option'', ''failable'', ''failable_execution''}"
  by (auto simp: validateFailPolicy_def)

lemma validateItemForPhase_preflight:
  "validateItemForPhase i ''preflight'' = None \<longleftrightarrow>
   Type i \<in> {''package'', ''rootscript'', ''rootfile''} \<and>
   FailPolicy i \<in> {[], ''failure_is_not_an_option'', ''failable'', ''failable_execution''}"
  by (auto simp: validateItemForPhase_def validateFailPolicy_def split: option.splits)

lemma validateItemForPhase_setupassistant:
  "validateItemForPhase i ''setupassistant'' = None \<longleftrightarrow>
   Type i \<in> {''package'', ''rootscript'', ''rootfile''} \<and>
   FailPolicy i \<in> {[], ''failure_is_not_an_option'', ''failable'', ''failable_execution''}"
  by (auto simp: validateItemForPhase_def validateFailPolicy_def split: option.splits)

lemma validateItemForPhase_userland:
  "validateItemForPhase i ''userland'' = None \<longleftrightarrow>
   Type i \<in> {''package'', ''rootscript'', ''userscript'', ''rootfile'', ''userfile''} \<and>
   FailPolicy i \<in> {[], ''failure_is_not_an_option'', ''failable'', ''failable_execution''}"
  by (auto simp: validateItemForPhase_def validateFailPolicy_def split: option.splits)

lemma validatePhaseItems_None_iff:
  "validatePhaseItems phase xs = None \<longleftrightarrow> (\<forall>i\<in>set xs. validateItemForPhase i phase = None)"
  by (induction xs) (auto split: option.splits)

lemma validatePreflightItems_None_iff:
  "validatePreflightItems xs = None \<longleftrightarrow>
   (\<forall>i\<in>set xs. validateItemForPhase i ''preflight'' = None \<and> Type i = ''rootscript'')"
  by (induction xs) (auto split: option.splits)

lemma validatePhaseItems_Some:
  "validatePhaseItems phase xs = Some err \<Longrightarrow> \<exists>i\<in>set xs. validateItemForPhase i phase = Some err"
  by (induction xs) (auto split: option.splits)

lemma validatePreflightItems_Some:
  "validatePreflightItems xs = Some err \<Longrightarrow>
   \<exists>i\<in>set xs. validateItemForPhase i ''preflight'' = Some err \<or>
      (Type i \<noteq> ''rootscript'' \<and>
       err = Errorf ''preflight phase only supports rootscript type, got: %s'' [S (Type i)])"
  by (induction xs) (auto split: option.splits if_splits)

lemma ValidateBootstrap_None_iff:
  "ValidateBootstrap b = None \<longleftrightarrow>
      length (Preflight b) \<le> 1
    \<and> (\<forall>i\<in>set (Preflight b). Type i = ''rootscript'')
    \<and> (\<forall>i\<in>set (SetupAssistant b). Type i \<in> {''package'', ''rootscript'', ''rootfile''})
    \<and> (\<forall>i\<in>set (Preflight b) \<union> set (SetupAssistant b) \<union> set (Userland b).
          Type i \<in> {''package'', ''rootscript'', ''userscript'', ''rootfile'', ''userfile''}
        \<and> FailPolicy i \<in> {[], ''failure_is_not_an_option'', ''failable'', ''failable_execution''})"
proof -
  define pol where "pol = (\<lambda>i::Item. FailPolicy i \<in> {[], ''failure_is_not_an_option'', ''failable'', ''failable_execution''})"
  define root where "root = (\<lambda>i::Item. Type i \<in> {''package'', ''rootscript'', ''rootfile''})"
  define five where "five = (\<lambda>i::Item. Type i \<in> {''package'', ''rootscript'', ''userscript'', ''rootfile'', ''userfile''})"
  define rs where "rs = (\<lambda>i::Item. Type i = ''rootscript'')"
  have rs_root: "rs i \<Longrightarrow> root i" and root_five: "root i \<Longrightarrow> five i" for i
    by (auto simp add: rs_def root_def five_def)
  have P: "validatePreflightItems (Preflight b) = None \<longleftrightarrow>
       (\<forall>i\<in>set (Preflight b). rs i \<and> pol i)"
    unfolding validatePreflightItems_None_iff validateItemForPhase_preflight pol_def rs_def by auto
  have A: "validatePhaseItems ''setupassistant'' (SetupAssistant b) = None \<longleftrightarrow>
       (\<forall>i\<in>set (SetupAssistant b). root i \<and> pol i)"
    unfolding validatePhaseItems_None_iff validateItemForPhase_setupassistant pol_def root_def by simp
  have U: "validatePhaseItems ''userland'' (Userland b) = None \<longleftrightarrow>
       (\<forall>i\<in>set (Userland b). five i \<and> pol i)"
    unfolding validatePhaseItems_None_iff validateItemForPhase_userland pol_def five_def by simp
  have V: "ValidateBootstrap b = None \<longleftrightarrow>
       length (Preflight b) \<le> 1 \<and> validatePreflightItems (Preflight b) = None
       \<and> validatePhaseItems ''setupassistant'' (SetupAssistant b) = None
       \<and> validatePhaseItems ''userland'' (Userland b) = None"
    unfolding ValidateBootstrap_def by (simp split: option.splits add: not_less)
  have "ValidateBootstrap b = None \<longleftrightarrow>
      length (Preflight b) \<le> 1
    \<and> (\<forall>i\<in>set (Preflight b). rs i)
    \<and> (\<forall>i\<in>set (SetupAssistant b). root i)
    \<and> (\<forall>i\<in>set (Preflight b) \<union> set (SetupAssistant b) \<union> set (Userland b). five i \<and> pol i)"
    unfolding V P A U using rs_root root_five by (simp only: ball_Un) blast
  then show ?thesis unfolding pol_def root_def five_def rs_def .
qed

lemma validateItemForPhase_offence:
  "validateItemForPhase i phase = Some err \<Longrightarrow>
     (Type i \<notin> {''package'', ''rootscript'', ''userscript'', ''rootfile'', ''userfile''} \<and>
      err = Errorf ''invalid item type '%s' for '%s' (allowed: package, rootscript, userscript, rootfile, userfile)''
             [S (Type i), S (Name i)])
   \<or> ((phase = ''preflight'' \<or> phase = ''setupassistant'') \<and>
       Type i \<in> {''userscript'', ''userfile''} \<and>
       err = Errorf (''phase '%s' only supports root operations (package, rootscript, rootfile), not '%s'' @ [CHR 0x27])
             [S phase, S (Type i)])
   \<or> (phase \<notin> {''preflight'', ''setupassistant'', ''userland''} \<and> err = Errorf ''unknown phase: %s'' [S phase])
   \<or> (FailPolicy i \<notin> {[], ''failure_is_not_an_option'', ''failable'', ''failable_execution''} \<and>
       err = Errorf ''invalid fail_policy for item '%s': %w''
               [S (Name i),
                E (Errorf ''invalid fail_policy: '%s' (must be: failure_is_not_an_option, failable, or failable_execution)''
                     [S (FailPolicy i)])])"
  unfolding validateItemForPhase_def validateFailPolicy_def
  by (clarsimp split: if_splits option.splits)

lemma ValidateBootstrap_Some_offending:
  assumes rej: "ValidateBootstrap b = Some err"
  shows "(length (Preflight b) > 1 \<and>
          err = Errorf ''preflight phase only supports a single rootscript (original InstallApplications compatibility)'' [])
       \<or> (\<exists>i\<in>set (Preflight b). Type i \<noteq> ''rootscript'' \<and>
             err = Errorf ''preflight phase only supports rootscript type, got: %s'' [S (Type i)])
       \<or> (\<exists>i\<in>set (Preflight b) \<union> set (SetupAssistant b) \<union> set (Userland b).
             Type i \<notin> {''package'', ''rootscript'', ''userscript'', ''rootfile'', ''userfile''} \<and>
             err = Errorf ''invalid item type '%s' for '%s' (allowed: package, rootscript, userscript, rootfile, userfile)''
                     [S (Type i), S (Name i)])
       \<or> (\<exists>i\<in>set (Preflight b) \<union> set (SetupAssistant b) \<union> set (Userland b).
             FailPolicy i \<notin> {[], ''failure_is_not_an_option'', ''failable'', ''failable_execution''} \<and>
             err = Errorf ''invalid fail_policy for item '%s': %w''
                     [S (Name i),
                      E (Errorf ''invalid fail_policy: '%s' (must be: failure_is_not_an_option, failable, or failable_execution)''
                           [S (FailPolicy i)])])
       \<or> (\<exists>i\<in>set (Preflight b). Type i \<in> {''userscript'', ''userfile''} \<and>
             err = Errorf (''phase '%s' only supports root operations (package, rootscript, rootfile), not '%s'' @ [CHR 0x27])
                     [S ''preflight'', S (Type i)])
       \<or> (\<exists>i\<in>set (SetupAssistant b). Type i \<in> {''userscript'', ''userfile''} \<and>
             err = Errorf (''phase '%s' only supports root operations (package, rootscript, rootfile), not '%s'' @ [CHR 0x27])
                     [S ''setupassistant'', S (Type i)])"
    (is "?D1 \<or> ?D2 \<or> ?D3 \<or> ?D4 \<or> ?D5 \<or> ?D6")
proof -
  have item_case: "?D3 \<or> ?D4 \<or> ?D5 \<or> ?D6"
    if i: "i \<in> set (Preflight b) \<and> phase = ''preflight''
         \<or> i \<in> set (SetupAssistant b) \<and> phase = ''setupassistant''
         \<or> i \<in> set (Userland b) \<and> phase = ''userland''"
      and v: "validateItemForPhase i phase = Some err" for i phase
  proof -
    have mem: "i \<in> set (Preflight b) \<union> set (SetupAssistant b) \<union> set (Userland b)"
      using i by (simp only: Un_iff) iprover
    have known: "phase \<in> {''preflight'', ''setupassistant'', ''userland''}"
      using i by (simp only: insert_iff) iprover
    from validateItemForPhase_offence[OF v] known
    consider (bad_type) "Type i \<notin> {''package'', ''rootscript'', ''userscript'', ''rootfile'', ''userfile''} \<and>
             err = Errorf ''invalid item type '%s' for '%s' (allowed: package, rootscript, userscript, rootfile, userfile)''
                     [S (Type i), S (Name i)]"
      | (bad_policy) "FailPolicy i \<notin> {[], ''failure_is_not_an_option'', ''failable'', ''failable_execution''} \<and>
             err = Errorf ''invalid fail_policy for item '%s': %w''
                     [S (Name i),
                      E (Errorf ''invalid fail_policy: '%s' (must be: failure_is_not_an_option, failable, or failable_execution)''
                           [S (FailPolicy i)])]"
      | (root_only) "(phase = ''preflight'' \<or> phase = ''setupassistant'') \<and>
          Type i \<in> {''userscript'', ''userfile''} \<and>
          err = Errorf (''phase '%s' only supports root operations (package, rootscript, rootfile), not '%s'' @ [CHR 0x27])
             [S phase, S (Type i)]"
      by iprover
    then show ?thesis
    proof cases
      case bad_type
      then have ?D3 using mem by (intro bexI[of _ i])
      then show ?thesis by - (rule disjI1, assumption)
    next
      case bad_policy
      then have ?D4 using mem by (intro bexI[of _ i])
      then show ?thesis by - (rule disjI2, rule disjI1, assumption)
    next
      case root_only
      then have e: "Type i \<in> {''userscript'', ''userfile''} \<and>
          err = Errorf (''phase '%s' only supports root operations (package, rootscript, rootfile), not '%s'' @ [CHR 0x27])
             [S phase, S (Type i)]" and ph: "phase = ''preflight'' \<or> phase = ''setupassistant''"
        by iprover+
      from ph show ?thesis
      proof
        assume p: "phase = ''preflight''"
        then have "i \<in> set (Preflight b)" using i by simp
        then have ?D5 using e unfolding p by (intro bexI[of _ i])
        then show ?thesis by - (rule disjI2, rule disjI2, rule disjI1, assumption)
      next
        assume p: "phase = ''setupassistant''"
        then have "i \<in> set (SetupAssistant b)" using i by simp
        then have ?D6 using e unfolding p by (intro bexI[of _ i])
        then show ?thesis by - (rule disjI2, rule disjI2, rule disjI2, assumption)
      qed
    qed
  qed
  have split: "?D1 \<or> validatePreflightItems (Preflight b) = Some err
      \<or> validatePhaseItems ''setupassistant'' (SetupAssistant b) = Some err
      \<or> validatePhaseItems ''userland'' (Userland b) = Some err"
  proof (cases "length (Preflight b) > 1")
    case True
    with rej have ?D1 unfolding ValidateBootstrap_def by simp
    then show ?thesis by - (rule disjI1, assumption)
  next
    case False
    note few = this
    show ?thesis
    proof (cases "validatePreflightItems (Preflight b)")
      case (Some e)
      with rej few have "validatePreflightItems (Preflight b) = Some err"
        unfolding ValidateBootstrap_def by simp
      then show ?thesis by - (rule disjI2, rule disjI1, assumption)
    next
      case None
      note pre_ok = this
      show ?thesis
      proof (cases "validatePhaseItems ''setupassistant'' (SetupAssistant b)")
        case (Some e)
        with rej few pre_ok have "validatePhaseItems ''setupassistant'' (SetupAssistant b) = Some err"
          unfolding ValidateBootstrap_def by simp
        then show ?thesis by - (rule disjI2, rule disjI2, rule disjI1, assumption)
      next
        case None
        with rej few pre_ok have "validatePhaseItems ''userland'' (Userland b) = Some err"
          unfolding ValidateBootstrap_def by simp
        then show ?thesis by - (rule disjI2, rule disjI2, rule disjI2, assumption)
      qed
    qed
  qed
  then consider (too_many) "?D1"
    | (in_preflight) "validatePreflightItems (Preflight b) = Some err"
    | (in_setupassistant) "validatePhaseItems ''setupassistant'' (SetupAssistant b) = Some err"
    | (in_userland) "validatePhaseItems ''userland'' (Userland b) = Some err"
    by (elim disjE)
  then show ?thesis
  proof cases
    case too_many
    then show ?thesis by - (rule disjI1, assumption)
  next
    case in_preflight
    from validatePreflightItems_Some[OF in_preflight] obtain i where i: "i \<in> set (Preflight b)"
      and d: "validateItemForPhase i ''preflight'' = Some err \<or>
        (Type i \<noteq> ''rootscript'' \<and>
         err = Errorf ''preflight phase only supports rootscript type, got: %s'' [S (Type i)])"
      by (rule bexE)
    from d show ?thesis
    proof
      assume "validateItemForPhase i ''preflight'' = Some err"
      with i have "?D3 \<or> ?D4 \<or> ?D5 \<or> ?D6" by (intro item_case[of i "''preflight''"] disjI1 conjI refl)
      then show ?thesis by - (rule disjI2, rule disjI2, assumption)
    next
      assume "Type i \<noteq> ''rootscript'' \<and>
         err = Errorf ''preflight phase only supports rootscript type, got: %s'' [S (Type i)]"
      with i have ?D2 by (intro bexI[of _ i])
      then show ?thesis by - (rule disjI2, rule disjI1, assumption)
    qed
  next
    case in_setupassistant
    from validatePhaseItems_Some[OF in_setupassistant] obtain i where i: "i \<in> set (SetupAssistant b)"
      and d: "validateItemForPhase i ''setupassistant'' = Some err" by (rule bexE)
    then have "?D3 \<or> ?D4 \<or> ?D5 \<or> ?D6" by (intro item_case[of i "''setupassistant''"] disjI2 disjI1 conjI refl)
    then show ?thesis by - (rule disjI2, rule disjI2, assumption)
  next
    case in_userland
    from validatePhaseItems_Some[OF in_userland] obtain i where i: "i \<in> set (Userland b)"
      and d: "validateItemForPhase i ''userland'' = Some err" by (rule bexE)
    then have "?D3 \<or> ?D4 \<or> ?D5 \<or> ?D6" by (intro item_case[of i "''userland''"] disjI2 conjI refl)
    then show ?thesis by - (rule disjI2, rule disjI2, assumption)
  qed
qed

text \<open>
  Claim C4. A manifest is accepted by \<^verbatim>\<open>ValidateBootstrap\<close> exactly when the preflight
  sequence has at most one item, every preflight item is a rootscript, every setupassistant
  item has one of the types package, rootscript, rootfile, every item of every phase has one
  of the five allowed types, and every fail_policy is empty or one of the three known
  values. A rejected manifest yields an error about a rule that the manifest breaks, which
  names what breaks it: the preflight phase when it has more than one item; the preflight
  phase and the type of a preflight item that is not a rootscript; the type and the name of
  an item whose type is not one of the five; the name of an item whose fail_policy is not
  one of the known values, with that value; the phase (preflight or setupassistant) and
  the type of an item of that phase that is a userscript or a userfile.
\<close>

theorem ValidateBootstrap_accepts_exactly_valid_manifests:
  "(ValidateBootstrap b = None \<longleftrightarrow>
      length (Preflight b) \<le> 1
    \<and> (\<forall>i\<in>set (Preflight b). Type i = ''rootscript'')
    \<and> (\<forall>i\<in>set (SetupAssistant b). Type i \<in> {''package'', ''rootscript'', ''rootfile''})
    \<and> (\<forall>i\<in>set (Preflight b) \<union> set (SetupAssistant b) \<union> set (Userland b).
          Type i \<in> {''package'', ''rootscript'', ''userscript'', ''rootfile'', ''userfile''}
        \<and> FailPolicy i \<in> {[], ''failure_is_not_an_option'', ''failable'', ''failable_execution''}))
   \<and> (\<forall>err. ValidateBootstrap b = Some err \<longrightarrow>
         (length (Preflight b) > 1 \<and>
          err = Errorf ''preflight phase only supports a single rootscript (original InstallApplications compatibility)'' [])
       \<or> (\<exists>i\<in>set (Preflight b). Type i \<noteq> ''rootscript'' \<and>
             err = Errorf ''preflight phase only supports rootscript type, got: %s'' [S (Type i)])
       \<or> (\<exists>i\<in>set (Preflight b) \<union> set (SetupAssistant b) \<union> set (Userland b).
             Type i \<notin> {''package'', ''rootscript'', ''userscript'', ''rootfile'', ''userfile''} \<and>
             err = Errorf ''invalid item type '%s' for '%s' (allowed: package, rootscript, userscript, rootfile, userfile)''
                     [S (Type i), S (Name i)])
       \<or> (\<exists>i\<in>set (Preflight b) \<union> set (SetupAssistant b) \<union> set (Userland b).
             FailPolicy i \<notin> {[], ''failure_is_not_an_option'', ''failable'', ''failable_execution''} \<and>
             err = Errorf ''invalid fail_policy for item '%s': %w''
                     [S (Name i),
                      E (Errorf ''invalid fail_policy: '%s' (must be: failure_is_not_an_option, failable, or failable_execution)''
                           [S (FailPolicy i)])])
       \<or> (\<exists>i\<in>set (Preflight b). Type i \<in> {''userscript'', ''userfile''} \<and>
             err = Errorf (''phase '%s' only supports root operations (package, rootscript, rootfile), not '%s'' @ [CHR 0x27])
                     [S ''preflight'', S (Type i)])
       \<or> (\<exists>i\<in>set (SetupAssistant b). Type i \<in> {''userscript'', ''userfile''} \<and>
             err = Errorf (''phase '%s' only supports root operations (package, rootscript, rootfile), not '%s'' @ [CHR 0x27])
                     [S ''setupassistant'', S (Type i)]))"
  by (intro conjI allI impI, rule ValidateBootstrap_None_iff, erule ValidateBootstrap_Some_offending)

text \<open>
  The theorem at the manifest of scenario 1 (a preflight rootscript, a setupassistant
  package, a userland userscript), which is accepted, and at a manifest whose second
  setupassistant item is a userscript, which is rejected with the error that names the
  phase and that type.
\<close>

theorem ValidateBootstrap_accepts_exactly_valid_manifests_witness:
  "ValidateBootstrap
     \<lparr>Preflight = [Item_zero\<lparr>Name := ''ok'', File := ''/tmp/a.sh'', Type := ''rootscript''\<rparr>],
      SetupAssistant = [Item_zero\<lparr>Name := ''pkg'', File := ''/tmp/x.pkg'', Type := ''package''\<rparr>],
      Userland = [Item_zero\<lparr>Name := ''us'', File := ''/tmp/u.sh'', Type := ''userscript'',
                              FailPolicy := ''failable_execution''\<rparr>]\<rparr> = None
   \<and> ValidateBootstrap
     \<lparr>Preflight = [Item_zero\<lparr>Name := ''ok'', File := ''/tmp/a.sh'', Type := ''rootscript''\<rparr>],
      SetupAssistant = [Item_zero\<lparr>Name := ''pkg'', File := ''/tmp/x.pkg'', Type := ''package''\<rparr>,
                        Item_zero\<lparr>Name := ''us'', File := ''/tmp/u.sh'', Type := ''userscript''\<rparr>],
      Userland = []\<rparr>
     = Some (Errorf (''phase '%s' only supports root operations (package, rootscript, rootfile), not '%s'' @ [CHR 0x27])
               [S ''setupassistant'', S ''userscript''])
   \<and> (length [Item_zero\<lparr>Name := ''ok'', File := ''/tmp/a.sh'', Type := ''rootscript''\<rparr>] \<le> 1
      \<and> Type (Item_zero\<lparr>Name := ''us'', File := ''/tmp/u.sh'', Type := ''userscript''\<rparr>)
            \<in> {''userscript'', ''userfile''})"
proof -
  let ?ok = "Item_zero\<lparr>Name := ''ok'', File := ''/tmp/a.sh'', Type := ''rootscript''\<rparr>"
  let ?pkg = "Item_zero\<lparr>Name := ''pkg'', File := ''/tmp/x.pkg'', Type := ''package''\<rparr>"
  let ?us = "Item_zero\<lparr>Name := ''us'', File := ''/tmp/u.sh'', Type := ''userscript''\<rparr>"
  let ?bad = "\<lparr>Preflight = [?ok], SetupAssistant = [?pkg, ?us], Userland = []\<rparr>"
  let ?err = "Errorf (''phase '%s' only supports root operations (package, rootscript, rootfile), not '%s'' @ [CHR 0x27])
               [S ''setupassistant'', S ''userscript'']"
  have accepted: "ValidateBootstrap
     \<lparr>Preflight = [?ok], SetupAssistant = [?pkg],
      Userland = [Item_zero\<lparr>Name := ''us'', File := ''/tmp/u.sh'', Type := ''userscript'',
                              FailPolicy := ''failable_execution''\<rparr>]\<rparr> = None"
    by (rule iffD2[OF conjunct1[OF ValidateBootstrap_accepts_exactly_valid_manifests]])
       (simp add: Item_zero_def)
  have rejected: "ValidateBootstrap ?bad = Some ?err"
    by (simp add: ValidateBootstrap_def validateItemForPhase_def validateFailPolicy_def Item_zero_def)
  note offence = mp[OF spec[OF conjunct2[OF ValidateBootstrap_accepts_exactly_valid_manifests[of ?bad]],
                              of ?err] rejected]
  from offence have offending: "length [?ok] \<le> 1 \<and> Type ?us \<in> {''userscript'', ''userfile''}"
    by (simp add: Item_zero_def)
  show ?thesis
    by (rule conjI[OF accepted conjI[OF rejected offending]])
qed

subsection \<open>The fail-policy evaluator\<close>

text \<open>
  Claim C2. With effective policy \<^verbatim>\<open>failable_execution\<close>, which is also the effective policy
  of an item whose fail_policy field is empty, the phase continues exactly when the failing
  operation is script execution, and it stops for package installation, package receipt
  check and file placement; with \<^verbatim>\<open>failable\<close> it always continues; with
  \<^verbatim>\<open>failure_is_not_an_option\<close> it always stops. (\<^verbatim>\<open>handleItemError\<close> returns true to stop.)
\<close>

theorem handleItemError_fail_policy:
  "(GetEffectiveFailPolicy item = ''failable_execution'' \<longrightarrow>
      (\<not> handleItemError item operation \<longleftrightarrow> operation = ''script execution'')
      \<and> handleItemError item ''package installation''
      \<and> handleItemError item ''package receipt check''
      \<and> handleItemError item ''file placement'')
   \<and> (FailPolicy item = [] \<longrightarrow> GetEffectiveFailPolicy item = ''failable_execution'')
   \<and> (GetEffectiveFailPolicy item = ''failable'' \<longrightarrow> \<not> handleItemError item operation)
   \<and> (GetEffectiveFailPolicy item = ''failure_is_not_an_option'' \<longrightarrow>
         handleItemError item operation)"
  by (simp add: handleItemError_def GetEffectiveFailPolicy_def)

text \<open>
  The theorem at the items of \<^verbatim>\<open>TestManagerProcessItems_FailPolicy\<close>: a failing script with
  \<^verbatim>\<open>failable_execution\<close> does not stop the phase, an item without fail_policy stops it on a
  failed package installation, \<^verbatim>\<open>failable\<close> continues after a failed file placement and
  \<^verbatim>\<open>failure_is_not_an_option\<close> stops on a failed script.
\<close>

theorem handleItemError_fail_policy_witness:
  "\<not> handleItemError (Item_zero\<lparr>Name := ''bad'', File := ''fail.sh'', Type := ''rootscript'',
          FailPolicy := ''failable_execution''\<rparr>) ''script execution''
   \<and> handleItemError Item_zero ''package installation''
   \<and> \<not> handleItemError (Item_zero\<lparr>FailPolicy := ''failable''\<rparr>) ''file placement''
   \<and> handleItemError (Item_zero\<lparr>Name := ''stop'', File := ''fail.sh'', Type := ''rootscript'',
          FailPolicy := ''failure_is_not_an_option''\<rparr>) ''script execution''"
proof (intro conjI)
  let ?bad = "Item_zero\<lparr>Name := ''bad'', File := ''fail.sh'', Type := ''rootscript'',
          FailPolicy := ''failable_execution''\<rparr>"
  have "GetEffectiveFailPolicy ?bad = ''failable_execution''"
    by (simp add: GetEffectiveFailPolicy_def)
  with handleItemError_fail_policy[of ?bad "''script execution''"]
  show "\<not> handleItemError ?bad ''script execution''" by simp
next
  have "FailPolicy Item_zero = []" by (simp add: Item_zero_def)
  with handleItemError_fail_policy[of Item_zero "''package installation''"]
  show "handleItemError Item_zero ''package installation''" by simp
next
  let ?f = "Item_zero\<lparr>FailPolicy := ''failable''\<rparr>"
  have "GetEffectiveFailPolicy ?f = ''failable''" by (simp add: GetEffectiveFailPolicy_def)
  with handleItemError_fail_policy[of ?f "''file placement''"]
  show "\<not> handleItemError ?f ''file placement''" by simp
next
  let ?stop = "Item_zero\<lparr>Name := ''stop'', File := ''fail.sh'', Type := ''rootscript'',
          FailPolicy := ''failure_is_not_an_option''\<rparr>"
  have "GetEffectiveFailPolicy ?stop = ''failure_is_not_an_option''"
    by (simp add: GetEffectiveFailPolicy_def)
  with handleItemError_fail_policy[of ?stop "''script execution''"]
  show "handleItemError ?stop ''script execution''" by simp
qed

subsection \<open>Package receipts in the phase engine\<close>

lemma CheckPackageReceipt_empty_id: "CheckPackageReceipt os [] version x = (True, None)"
  by (simp add: CheckPackageReceipt_def)

lemma installItem_required_empty_id:
  assumes "Type item = ''package''" "PkgRequired item" "PackageID item = []"
  shows "installItem m os item backgroundProcessCount x = (None, backgroundProcessCount, x)"
  using assms by (simp add: installItem_def CheckPackageReceipt_empty_id)

lemma installItems_skip:
  assumes "installItem m os item = (\<lambda>bg x. (None, bg, x))"
  shows "installItems m os (before @ item # after) bg x = installItems m os (before @ after) bg x"
proof (induction before arbitrary: bg x)
  case Nil
  show ?case using assms by simp
next
  case (Cons a before)
  show ?case
  proof (cases "installItem m os a bg x")
    case (fields err bg' x')
    then show ?thesis using Cons.IH by (cases err) simp_all
  qed
qed

text \<open>
  Claim C10. For a package item with \<^verbatim>\<open>pkg_required\<close> set and an empty package id,
  \<^verbatim>\<open>CheckPackageReceipt\<close> reports the package as installed; the loop body of \<^verbatim>\<open>ProcessItems\<close>
  then goes on to the next item with the state of the machine unchanged, whatever the
  installer is, and the loop over a list that holds the item behaves as the loop over the
  list without it: the package installer is not invoked for it.
\<close>

theorem pkg_required_with_empty_package_id_is_skipped:
  "Type item = ''package'' \<and> PkgRequired item \<and> PackageID item = [] \<longrightarrow>
     CheckPackageReceipt os (PackageID item) (Version item) x = (True, None)
   \<and> installItem m os item backgroundProcessCount x = (None, backgroundProcessCount, x)
   \<and> installItems m os (before @ item # after) backgroundProcessCount x
       = installItems m os (before @ after) backgroundProcessCount x"
proof (intro impI, elim conjE, intro conjI)
  assume a: "Type item = ''package''" "PkgRequired item" "PackageID item = []"
  show "CheckPackageReceipt os (PackageID item) (Version item) x = (True, None)"
    using a by (simp add: CheckPackageReceipt_empty_id)
  show "installItem m os item backgroundProcessCount x = (None, backgroundProcessCount, x)"
    using a by (rule installItem_required_empty_id)
  have "installItem m os item = (\<lambda>bg x. (None, bg, x))"
    using a by (intro ext) (rule installItem_required_empty_id)
  then show "installItems m os (before @ item # after) backgroundProcessCount x
       = installItems m os (before @ after) backgroundProcessCount x"
    by (rule installItems_skip)
qed

text \<open>
  The theorem at a required package without package id, followed by an ordinary package,
  with the recording installer: only the second package reaches the installer.
\<close>

theorem pkg_required_with_empty_package_id_is_skipped_witness:
  "installItems (fakeManager NewConfig) fakeHost
     [Item_zero\<lparr>Name := ''required'', File := ''/tmp/x.pkg'', Type := ''package'', PkgRequired := True\<rparr>,
      Item_zero\<lparr>Name := ''plain'', File := ''/tmp/y.pkg'', Type := ''package''\<rparr>] 0 []
   = (None, 0, [''InstallPackage /tmp/y.pkg''])"
proof -
  let ?req = "Item_zero\<lparr>Name := ''required'', File := ''/tmp/x.pkg'', Type := ''package'', PkgRequired := True\<rparr>"
  let ?plain = "Item_zero\<lparr>Name := ''plain'', File := ''/tmp/y.pkg'', Type := ''package''\<rparr>"
  have h: "Type ?req = ''package'' \<and> PkgRequired ?req \<and> PackageID ?req = []"
    by (simp add: Item_zero_def)
  note t = mp[OF pkg_required_with_empty_package_id_is_skipped
                   [of ?req fakeHost "[]" "fakeManager NewConfig" 0 "[]" "[?plain]"] h]
  from t have "installItems (fakeManager NewConfig) fakeHost ([] @ ?req # [?plain]) 0 []
             = installItems (fakeManager NewConfig) fakeHost ([] @ [?plain]) 0 []"
    by (elim conjE)
  also have "\<dots> = (None, 0, [''InstallPackage /tmp/y.pkg''])"
    by (simp add: installItem_def fakeManager_def fakeInstaller_def Item_zero_def)
  finally show ?thesis by simp
qed

subsection \<open>The retry record and the driver\<close>

lemma GetRetryCount_cases:
  "GetRetryCount s = (case content s of Stored st \<Rightarrow> Count st | _ \<Rightarrow> 0)"
  by (simp add: GetRetryCount_def readRetryState_def split: retry_file.splits)

lemma ShouldRetry_False_iff:
  "fst (ShouldRetry s) = False \<longleftrightarrow> (\<exists>st. content s = Stored st \<and> Count st \<ge> 3)"
  by (auto simp: ShouldRetry_def GetRetryCount_cases MaxRetries_const_def Let_def
           split: retry_file.splits)

text \<open>
  Claim C6. \<^verbatim>\<open>ShouldRetry\<close> returns false exactly when the retry file holds a record whose
  count is at least 3; the driver then exits with code 0, and neither the retry store nor
  the state of any collaborator has changed: the manifest has not been loaded.
\<close>

theorem ShouldRetry_cap_and_driver_exit:
  "(fst (ShouldRetry s) = False \<longleftrightarrow> (\<exists>st. content s = Stored st \<and> Count st \<ge> 3))
   \<and> (\<not> fst (ShouldRetry s) \<longrightarrow> RunDaemon deps cfg (s, x) = (0, s, x))"
  using ShouldRetry_False_iff[of s] by (simp add: RunDaemon_def)

text \<open>The theorem at a retry record with count 3 (scenario 5).\<close>

theorem ShouldRetry_cap_and_driver_exit_witness:
  "\<not> fst (ShouldRetry \<lparr>content = Stored \<lparr>Count = 3, FirstTry = 10, LastTry = 30, Reason = ''daemon started''\<rparr>,
                      writable = True, clock = 40\<rparr>)
   \<and> RunDaemon (fakeDeps (Inl (External ''unexpected end of JSON input''))) (NewConfig\<lparr>JSONURL := ''https://example.com/bootstrap.json''\<rparr>)
        (\<lparr>content = Stored \<lparr>Count = 3, FirstTry = 10, LastTry = 30, Reason = ''daemon started''\<rparr>,
          writable = True, clock = 40\<rparr>, [])
      = (0, \<lparr>content = Stored \<lparr>Count = 3, FirstTry = 10, LastTry = 30, Reason = ''daemon started''\<rparr>,
              writable = True, clock = 40\<rparr>, [])"
proof -
  let ?s = "\<lparr>content = Stored \<lparr>Count = 3, FirstTry = 10, LastTry = 30, Reason = ''daemon started''\<rparr>,
                      writable = True, clock = 40\<rparr>"
  note t = ShouldRetry_cap_and_driver_exit[of ?s "fakeDeps (Inl (External ''unexpected end of JSON input''))"
             "NewConfig\<lparr>JSONURL := ''https://example.com/bootstrap.json''\<rparr>" "[]"]
  have "\<exists>st. content ?s = Stored st \<and> Count st \<ge> 3" by simp
  then have "fst (ShouldRetry ?s) = False" by (rule iffD2[OF conjunct1[OF t]])
  then have n: "\<not> fst (ShouldRetry ?s)" by simp
  from n mp[OF conjunct2[OF t] n] show ?thesis by (rule conjI)
qed

text \<open>
  Claim C7 says that a failed run increases the count of the retry record by exactly one.
  The driver increments once with the reason \<^verbatim>\<open>daemon started\<close> and once more on the exits
  after a failed manifest load, a failed preflight or setupassistant phase and failed
  userland downloads. With no retry record and a manifest file that is not valid JSON the
  run exits with code 1 and leaves the count at 2.
\<close>

theorem RunDaemon_failed_run_counts_twice:
  "RunDaemon (fakeDeps (Inl (External ''unexpected end of JSON input'')))
        (NewConfig\<lparr>JSONURL := ''https://example.com/bootstrap.json''\<rparr>)
        (\<lparr>content = Missing, writable = True, clock = 40\<rparr>, [])
   = (1, \<lparr>content = Stored \<lparr>Count = 2, FirstTry = 40, LastTry = 40,
                              Reason = ''bootstrap failed: error''\<rparr>,
          writable = True, clock = 40\<rparr>, [])"
  by (simp add: RunDaemon_def ShouldRetry_def GetRetryCount_def readRetryState_def
        MaxRetries_const_def IncrementRetryCount_def saveRetryState_def getBootstrap_def
        LoadBootstrap_def LoadBootstrapWithOptions_def fakeDeps_def fakeDownloader_def
        NewConfig_def Let_def)

text \<open>The same for every store that allows the run and can be written.\<close>

lemma RunDaemon_bootstrap_failure_count:
  assumes "fst (ShouldRetry s)" "writable s" "fst (getBootstrap deps cfg x) = Inl err"
  shows "fst (RunDaemon deps cfg (s, x)) = 1
       \<and> GetRetryCount (fst (snd (RunDaemon deps cfg (s, x)))) = GetRetryCount s + 2"
  using assms
  by (cases "getBootstrap deps cfg x")
     (simp add: RunDaemon_def GetRetryCount_def readRetryState_def
        IncrementRetryCount_def saveRetryState_def Let_def split: retry_file.splits)

text \<open>
  The exits of the userland phase after the downloads do not increment again: when the
  helper never listens, the failed run leaves the count at 1.
\<close>

lemma RunDaemon_helper_unavailable_counts_once:
  "RunDaemon (fakeDeps (Inr \<lparr>Preflight = [], SetupAssistant = [],
                Userland = [Item_zero\<lparr>Name := ''us'', File := ''/tmp/u.sh'', Type := ''userscript''\<rparr>]\<rparr>))
        (NewConfig\<lparr>JSONURL := ''https://example.com/bootstrap.json''\<rparr>)
        (\<lparr>content = Missing, writable = True, clock = 40\<rparr>, [])
   = (1, \<lparr>content = Stored \<lparr>Count = 1, FirstTry = 40, LastTry = 40,
                              Reason = ''daemon started''\<rparr>,
          writable = True, clock = 40\<rparr>, [])"
  by (simp add: RunDaemon_def ShouldRetry_def GetRetryCount_def readRetryState_def
        MaxRetries_const_def IncrementRetryCount_def saveRetryState_def getBootstrap_def
        LoadBootstrap_def LoadBootstrapWithOptions_def fakeDeps_def fakeDownloader_def
        NewConfig_def Let_def ValidateBootstrap_def validateItemForPhase_def Item_zero_def
        runUserland_def List.map_filter_def)

subsection \<open>Request ids of the orchestration protocol\<close>

lemma generateRequestID_nonempty: "generateRequestID src \<noteq> []"
  by (simp add: generateRequestID_def split: option.splits)

lemma RunAgent_handler_echoes_id:
  "RPCResponse.ID (fst (RunAgent_handler deps cfg req h)) = RPCRequest.ID req"
  by (simp add: RunAgent_handler_def RPCResponse_zero_def split: prod.splits option.splits)

lemma callAgent_success_echo:
  assumes ok: "snd (fst (callAgent net sockPath req callTimeout x)) = None"
  shows "RPCResponse.ID (fst (fst (callAgent net sockPath req callTimeout x)))
         = (if RPCRequest.ID req = [] then generateRequestID (idSource net x) else RPCRequest.ID req)"
proof -
  define req' where "req' = (if RPCRequest.ID req = []
                 then req\<lparr>RPCRequest.ID := generateRequestID (idSource net x)\<rparr> else req)"
  have id': "RPCRequest.ID req'
      = (if RPCRequest.ID req = [] then generateRequestID (idSource net x) else RPCRequest.ID req)"
    by (simp add: req'_def)
  obtain e1 x1 where d: "DialTimeout net sockPath x = (e1, x1)" by (cases "DialTimeout net sockPath x")
  obtain e2 x2 where e: "Encode net req' x1 = (e2, x2)" by (cases "Encode net req' x1")
  obtain r3 x3 where r: "Decode net x2 = (r3, x3)" by (cases "Decode net x2")
  have unfold: "callAgent net sockPath req callTimeout x =
     (case e1 of Some err \<Rightarrow> ((RPCResponse_zero, Some (Errorf ''failed to connect agent: %w'' [E err])), x1)
      | None \<Rightarrow> (case e2 of Some err \<Rightarrow> ((RPCResponse_zero, Some (Errorf ''encode error: %w'' [E err])), x2)
         | None \<Rightarrow> (case r3 of Inl err \<Rightarrow> ((RPCResponse_zero, Some (Errorf ''decode error: %w'' [E err])), x3)
            | Inr resp \<Rightarrow> if RPCResponse.ID resp \<noteq> RPCRequest.ID req'
                  then ((RPCResponse_zero, Some (Errorf ''mismatched response id'' [])), x3)
                  else ((resp, None), x3))))"
    using d e r unfolding callAgent_def req'_def[symmetric] Let_def
    by (simp split: option.splits sum.splits)
  show ?thesis
    using ok unfolding unfold id'[symmetric]
    by (cases e1; cases e2; cases r3) (simp_all split: if_splits)
qed

lemma callAgent_mismatch:
  assumes "id' = (if RPCRequest.ID req = [] then generateRequestID (idSource net x) else RPCRequest.ID req)"
    and "DialTimeout net sockPath x = (None, x1)"
    and "Encode net (req\<lparr>RPCRequest.ID := id'\<rparr>) x1 = (None, x2)"
    and "Decode net x2 = (Inr resp, x3)"
    and "RPCResponse.ID resp \<noteq> id'"
  shows "callAgent net sockPath req callTimeout x
         = ((RPCResponse_zero, Some (Errorf ''mismatched response id'' [])), x3)"
  using assms by (simp add: callAgent_def Let_def split: if_splits)

lemma callAgent_agentNet:
  assumes "listening a"
    and "id' = (if RPCRequest.ID req = [] then generateRequestID (ids a) else RPCRequest.ID req)"
  shows "callAgent (agentNet deps cfg) sockPath req callTimeout a
         = ((fst (RunAgent_handler deps cfg (req\<lparr>RPCRequest.ID := id'\<rparr>) (helper a)), None),
            a\<lparr>inFlight := None,
              helper := snd (RunAgent_handler deps cfg (req\<lparr>RPCRequest.ID := id'\<rparr>) (helper a))\<rparr>)"
proof -
  obtain resp h' where r: "RunAgent_handler deps cfg (req\<lparr>RPCRequest.ID := id'\<rparr>) (helper a) = (resp, h')"
    by (cases "RunAgent_handler deps cfg (req\<lparr>RPCRequest.ID := id'\<rparr>) (helper a)")
  have "RPCResponse.ID resp = id'"
    using RunAgent_handler_echoes_id[of deps cfg "req\<lparr>RPCRequest.ID := id'\<rparr>" "helper a"] r by simp
  then show ?thesis
    using assms r by (simp add: callAgent_def agentNet_def Let_def split: if_splits)
qed

text \<open>
  Claim C8. The id that \<^verbatim>\<open>callAgent\<close> sends is the caller's, or a generated one when the
  caller gave none, and it is never empty. The helper's handler copies the id of the request
  into its response in every branch. A call that succeeds returns a response with the id
  that was sent; when the connection delivers a response with another id, the call fails
  with \<^verbatim>\<open>mismatched response id\<close> and the response is dropped. Against a listening helper
  the call returns the handler's response to the request with the id attached.
\<close>

theorem request_id_round_trip:
  "(if RPCRequest.ID req = [] then generateRequestID (idSource net x) else RPCRequest.ID req) \<noteq> []
   \<and> RPCResponse.ID (fst (RunAgent_handler deps cfg r h)) = RPCRequest.ID r
   \<and> (snd (fst (callAgent net sockPath req callTimeout x)) = None \<longrightarrow>
        RPCResponse.ID (fst (fst (callAgent net sockPath req callTimeout x)))
        = (if RPCRequest.ID req = [] then generateRequestID (idSource net x) else RPCRequest.ID req))
   \<and> (DialTimeout net sockPath x = (None, x1)
        \<and> Encode net (req\<lparr>RPCRequest.ID :=
              (if RPCRequest.ID req = [] then generateRequestID (idSource net x) else RPCRequest.ID req)\<rparr>) x1
            = (None, x2)
        \<and> Decode net x2 = (Inr resp, x3)
        \<and> RPCResponse.ID resp
            \<noteq> (if RPCRequest.ID req = [] then generateRequestID (idSource net x) else RPCRequest.ID req)
        \<longrightarrow> callAgent net sockPath req callTimeout x
            = ((RPCResponse_zero, Some (Errorf ''mismatched response id'' [])), x3))
   \<and> (listening a \<longrightarrow>
        callAgent (agentNet deps cfg) sockPath req callTimeout a
        = ((fst (RunAgent_handler deps cfg
                   (req\<lparr>RPCRequest.ID :=
                      (if RPCRequest.ID req = [] then generateRequestID (ids a) else RPCRequest.ID req)\<rparr>)
                   (helper a)), None),
           a\<lparr>inFlight := None,
             helper := snd (RunAgent_handler deps cfg
                   (req\<lparr>RPCRequest.ID :=
                      (if RPCRequest.ID req = [] then generateRequestID (ids a) else RPCRequest.ID req)\<rparr>)
                   (helper a))\<rparr>))"
proof (intro conjI impI)
  show "(if RPCRequest.ID req = [] then generateRequestID (idSource net x) else RPCRequest.ID req) \<noteq> []"
    by (simp add: generateRequestID_nonempty)
  show "RPCResponse.ID (fst (RunAgent_handler deps cfg r h)) = RPCRequest.ID r"
    by (rule RunAgent_handler_echoes_id)
next
  assume "snd (fst (callAgent net sockPath req callTimeout x)) = None"
  then show "RPCResponse.ID (fst (fst (callAgent net sockPath req callTimeout x)))
        = (if RPCRequest.ID req = [] then generateRequestID (idSource net x) else RPCRequest.ID req)"
    by (rule callAgent_success_echo)
next
  assume "DialTimeout net sockPath x = (None, x1)
        \<and> Encode net (req\<lparr>RPCRequest.ID :=
              (if RPCRequest.ID req = [] then generateRequestID (idSource net x) else RPCRequest.ID req)\<rparr>) x1
            = (None, x2)
        \<and> Decode net x2 = (Inr resp, x3)
        \<and> RPCResponse.ID resp
            \<noteq> (if RPCRequest.ID req = [] then generateRequestID (idSource net x) else RPCRequest.ID req)"
  then have "DialTimeout net sockPath x = (None, x1)"
    and "Encode net (req\<lparr>RPCRequest.ID :=
              (if RPCRequest.ID req = [] then generateRequestID (idSource net x) else RPCRequest.ID req)\<rparr>) x1
            = (None, x2)"
    and "Decode net x2 = (Inr resp, x3)"
    and "RPCResponse.ID resp
            \<noteq> (if RPCRequest.ID req = [] then generateRequestID (idSource net x) else RPCRequest.ID req)"
    by simp_all
  then show "callAgent net sockPath req callTimeout x
            = ((RPCResponse_zero, Some (Errorf ''mismatched response id'' [])), x3)"
    by (rule callAgent_mismatch[OF refl])
next
  assume "listening a"
  then show "callAgent (agentNet deps cfg) sockPath req callTimeout a
        = ((fst (RunAgent_handler deps cfg
                   (req\<lparr>RPCRequest.ID :=
                      (if RPCRequest.ID req = [] then generateRequestID (ids a) else RPCRequest.ID req)\<rparr>)
                   (helper a)), None),
           a\<lparr>inFlight := None,
             helper := snd (RunAgent_handler deps cfg
                   (req\<lparr>RPCRequest.ID :=
                      (if RPCRequest.ID req = [] then generateRequestID (ids a) else RPCRequest.ID req)\<rparr>)
                   (helper a))\<rparr>)"
    by (rule callAgent_agentNet[OF _ refl])
qed

text \<open>
  The theorem at a \<^verbatim>\<open>Ping\<close> without id that is answered with a stale id, and at a
  \<^verbatim>\<open>RunUserScript\<close> without id sent to a listening helper.
\<close>

theorem request_id_round_trip_witness:
  "callAgent (replyingNet (RPCResponse_zero\<lparr>RPCResponse.ID := ''req-0000000000000000-1'', OK := True\<rparr>)
                \<lparr>random_hex = Some ''a1b2c3d4e5f60718'', unix_nano = ''1700000000000000000''\<rparr>)
        ''/var/tmp/go-installapplications/agent-501.sock''
        (RPCRequest_zero\<lparr>Command := ''Ping''\<rparr>) 7200000000000 ()
     = ((RPCResponse_zero, Some (Errorf ''mismatched response id'' [])), ())
   \<and> callAgent (agentNet fakeAgentDeps NewConfig)
        ''/var/tmp/go-installapplications/agent-501.sock''
        (RPCRequest_zero\<lparr>Command := ''RunUserScript'', Path := ''/tmp/u.sh''\<rparr>) 7200000000000
        \<lparr>listening = True, inFlight = None,
          ids = \<lparr>random_hex = Some ''a1b2c3d4e5f60718'', unix_nano = ''1700000000000000000''\<rparr>,
          helper = []\<rparr>
     = ((RPCResponse_zero\<lparr>RPCResponse.ID := ''req-a1b2c3d4e5f60718-1700000000000000000'', OK := True\<rparr>, None),
        \<lparr>listening = True, inFlight = None,
          ids = \<lparr>random_hex = Some ''a1b2c3d4e5f60718'', unix_nano = ''1700000000000000000''\<rparr>,
          helper = [''ExecuteScript /tmp/u.sh'']\<rparr>)"
proof (rule conjI)
  let ?src = "\<lparr>random_hex = Some ''a1b2c3d4e5f60718'', unix_nano = ''1700000000000000000''\<rparr>"
  let ?stale = "RPCResponse_zero\<lparr>RPCResponse.ID := ''req-0000000000000000-1'', OK := True\<rparr>"
  let ?net = "replyingNet ?stale ?src"
  let ?req = "RPCRequest_zero\<lparr>Command := ''Ping''\<rparr>"
  note t = request_id_round_trip[of ?req ?net "()" _ _ _ _ "''/var/tmp/go-installapplications/agent-501.sock''"
             7200000000000 "()" "()" ?stale "()"]
  have h: "DialTimeout ?net ''/var/tmp/go-installapplications/agent-501.sock'' () = (None, ())
        \<and> Encode ?net (?req\<lparr>RPCRequest.ID :=
              (if RPCRequest.ID ?req = [] then generateRequestID (idSource ?net ()) else RPCRequest.ID ?req)\<rparr>) ()
            = (None, ())
        \<and> Decode ?net () = (Inr ?stale, ())
        \<and> RPCResponse.ID ?stale
            \<noteq> (if RPCRequest.ID ?req = [] then generateRequestID (idSource ?net ()) else RPCRequest.ID ?req)"
    by (simp add: replyingNet_def RPCRequest_zero_def RPCResponse_zero_def generateRequestID_def)
  note d = t[THEN conjunct2, THEN conjunct2, THEN conjunct2, THEN conjunct1]
  from mp[OF d h]
  show "callAgent ?net ''/var/tmp/go-installapplications/agent-501.sock'' ?req 7200000000000 ()
     = ((RPCResponse_zero, Some (Errorf ''mismatched response id'' [])), ())" .
next
  let ?src = "\<lparr>random_hex = Some ''a1b2c3d4e5f60718'', unix_nano = ''1700000000000000000''\<rparr>"
  let ?a = "\<lparr>listening = True, inFlight = None, ids = ?src, helper = []\<rparr> :: string list AgentSide"
  let ?req = "RPCRequest_zero\<lparr>Command := ''RunUserScript'', Path := ''/tmp/u.sh''\<rparr>"
  let ?p = "''/var/tmp/go-installapplications/agent-501.sock''"
  note t = request_id_round_trip[of ?req "agentNet fakeAgentDeps NewConfig" ?a fakeAgentDeps NewConfig
             _ _ ?p 7200000000000 _ _ _ _ ?a]
  have l: "listening ?a" by simp
  note f = t[THEN conjunct2, THEN conjunct2, THEN conjunct2, THEN conjunct2]
  from mp[OF f l]
  show "callAgent (agentNet fakeAgentDeps NewConfig) ?p ?req 7200000000000 ?a
     = ((RPCResponse_zero\<lparr>RPCResponse.ID := ''req-a1b2c3d4e5f60718-1700000000000000000'', OK := True\<rparr>, None),
        \<lparr>listening = True, inFlight = None, ids = ?src, helper = [''ExecuteScript /tmp/u.sh'']\<rparr>)"
    by (simp add: RunAgent_handler_def fakeAgentDeps_def fakeInstaller_def NewConfig_def
          RPCRequest_zero_def RPCResponse_zero_def generateRequestID_def)
qed

subsection \<open>The retry loop\<close>

lemma before_attempt_shift:
  "before_attempt operation pause (pause (snd (operation w))) k
   = before_attempt operation pause w (Suc k)"
  by (induction k) simp_all

lemma Retry_loop_success:
  assumes "0 \<le> a" "a + int k \<le> r"
    and "\<forall>j<k. fst (operation (before_attempt operation (sleep d) (if a > 0 then sleep d w else w) j)) \<noteq> None"
    and "fst (operation (before_attempt operation (sleep d) (if a > 0 then sleep d w else w) k)) = None"
  shows "Retry_loop operation r d sleep a lastError w
         = ((a + int k + 1, None),
            snd (operation (before_attempt operation (sleep d) (if a > 0 then sleep d w else w) k)))"
  using assms
proof (induction k arbitrary: a w lastError)
  case 0
  let ?S = "if a > 0 then sleep d w else w"
  obtain w2 where "operation ?S = (None, w2)"
    using 0(4) by (cases "operation ?S") simp
  then show ?case using 0(1,2)
    by (subst Retry_loop.simps) (simp add: Let_def)
next
  case (Suc k)
  let ?S = "if a > 0 then sleep d w else w"
  from Suc.prems(3) have "fst (operation (before_attempt operation (sleep d) ?S 0)) \<noteq> None"
    by blast
  then obtain err w2 where op: "operation ?S = (Some err, w2)"
    by (cases "operation ?S") auto
  have a1: "0 \<le> a + 1" "a + 1 + int k \<le> r" "a + 1 > 0" using Suc.prems(1,2) by simp_all
  have sh: "before_attempt operation (sleep d) (sleep d w2) j
            = before_attempt operation (sleep d) ?S (Suc j)" for j
    using before_attempt_shift[of operation "sleep d" ?S j] op by simp
  have fails: "\<forall>j<k. fst (operation (before_attempt operation (sleep d)
                   (if a + 1 > 0 then sleep d w2 else w2) j)) \<noteq> None"
    using Suc.prems(3) a1(3) sh by auto
  have ok: "fst (operation (before_attempt operation (sleep d)
                   (if a + 1 > 0 then sleep d w2 else w2) k)) = None"
    using Suc.prems(4) a1(3) sh by simp
  have "Retry_loop operation r d sleep a lastError w
        = Retry_loop operation r d sleep (a + 1) (Some err) w2"
    using op Suc.prems(1,2) by (subst Retry_loop.simps) (simp add: Let_def)
  also have "\<dots> = ((a + 1 + int k + 1, None),
            snd (operation (before_attempt operation (sleep d) (if a + 1 > 0 then sleep d w2 else w2) k)))"
    by (rule Suc.IH[OF a1(1) a1(2) fails ok])
  finally show ?case using a1(3) sh by (simp add: add.commute add.left_commute)
qed

lemma Retry_loop_failure:
  assumes "0 \<le> a"
    and "\<forall>j. a + int j \<le> r \<longrightarrow>
           fst (operation (before_attempt operation (sleep d) (if a > 0 then sleep d w else w) j)) \<noteq> None"
  shows "snd (fst (Retry_loop operation r d sleep a lastError w)) \<noteq> None"
  using assms
proof (induction "nat (r + 1 - a)" arbitrary: a w lastError)
  case 0
  then have "\<not> a \<le> r" by simp
  then show ?case by (subst Retry_loop.simps) simp
next
  case (Suc n)
  let ?S = "if a > 0 then sleep d w else w"
  from Suc.hyps(2) have le: "a \<le> r" by simp
  with Suc.prems(2)[rule_format, of 0] have "fst (operation ?S) \<noteq> None" by simp
  then obtain err w2 where op: "operation ?S = (Some err, w2)"
    by (cases "operation ?S") auto
  have sh: "before_attempt operation (sleep d) (sleep d w2) j
            = before_attempt operation (sleep d) ?S (Suc j)" for j
    using before_attempt_shift[of operation "sleep d" ?S j] op by simp
  have n: "n = nat (r + 1 - (a + 1))" using Suc.hyps(2) by simp
  have a1: "0 \<le> a + 1" using Suc.prems(1) by simp
  have fails: "\<forall>j. a + 1 + int j \<le> r \<longrightarrow>
           fst (operation (before_attempt operation (sleep d)
                  (if a + 1 > 0 then sleep d w2 else w2) j)) \<noteq> None"
  proof (intro allI impI)
    fix j assume "a + 1 + int j \<le> r"
    then have "a + int (Suc j) \<le> r" by simp
    moreover have "a + 1 > 0" using Suc.prems(1) by simp
    ultimately show
      "fst (operation (before_attempt operation (sleep d)
                  (if a + 1 > 0 then sleep d w2 else w2) j)) \<noteq> None"
      using Suc.prems(2)[rule_format, of "Suc j"] sh by simp
  qed
  have "Retry_loop operation r d sleep a lastError w
        = Retry_loop operation r d sleep (a + 1) (Some err) w2"
    using op le by (subst Retry_loop.simps) (simp add: Let_def)
  then show ?case using Suc.hyps(1)[OF n a1 fails] by simp
qed

lemma Retry_succeeds_iff:
  "snd (fst (Retry operation r d sleep w)) = None \<longleftrightarrow>
   (\<exists>k. int k \<le> r
      \<and> (\<forall>j<k. fst (operation (before_attempt operation (sleep d) w j)) \<noteq> None)
      \<and> fst (operation (before_attempt operation (sleep d) w k)) = None)"
proof
  assume ok: "snd (fst (Retry operation r d sleep w)) = None"
  show "\<exists>k. int k \<le> r
      \<and> (\<forall>j<k. fst (operation (before_attempt operation (sleep d) w j)) \<noteq> None)
      \<and> fst (operation (before_attempt operation (sleep d) w k)) = None"
  proof (rule ccontr)
    assume none: "\<not> ?thesis"
    have "\<forall>j. 0 + int j \<le> r \<longrightarrow>
            fst (operation (before_attempt operation (sleep d) (if (0::int) > 0 then sleep d w else w) j)) \<noteq> None"
    proof (intro allI)
      fix j
      show "0 + int j \<le> r \<longrightarrow>
            fst (operation (before_attempt operation (sleep d) (if (0::int) > 0 then sleep d w else w) j)) \<noteq> None"
      proof (induction j rule: nat_less_induct)
        case (1 j)
        show ?case
        proof
          assume jr: "0 + int j \<le> r"
          have before: "\<forall>i<j. fst (operation (before_attempt operation (sleep d) w i)) \<noteq> None"
            using 1 jr by auto
          from none have "\<not> (int j \<le> r
              \<and> (\<forall>i<j. fst (operation (before_attempt operation (sleep d) w i)) \<noteq> None)
              \<and> fst (operation (before_attempt operation (sleep d) w j)) = None)"
            by blast
          with before jr have "fst (operation (before_attempt operation (sleep d) w j)) \<noteq> None"
            by simp
          then show "fst (operation (before_attempt operation (sleep d)
                 (if (0::int) > 0 then sleep d w else w) j)) \<noteq> None"
            by simp
        qed
      qed
    qed
    note all_fail = this
    have "snd (fst (Retry_loop operation r d sleep 0 None w)) \<noteq> None"
      by (rule Retry_loop_failure[where a = 0 and sleep = sleep and d = d]) (simp, rule all_fail)
    with ok show False
      by (simp add: Retry_def)
  qed
next
  assume "\<exists>k. int k \<le> r
      \<and> (\<forall>j<k. fst (operation (before_attempt operation (sleep d) w j)) \<noteq> None)
      \<and> fst (operation (before_attempt operation (sleep d) w k)) = None"
  then obtain k where k: "int k \<le> r"
      "\<forall>j<k. fst (operation (before_attempt operation (sleep d) w j)) \<noteq> None"
      "fst (operation (before_attempt operation (sleep d) w k)) = None" by blast
  from Retry_loop_success[of 0 k r operation sleep d w None] k
  show "snd (fst (Retry operation r d sleep w)) = None"
    by (simp add: Retry_def)
qed

lemma Retry_first_success:
  assumes "int k \<le> r"
    and "\<forall>j<k. fst (operation (before_attempt operation (sleep d) w j)) \<noteq> None"
    and "fst (operation (before_attempt operation (sleep d) w k)) = None"
  shows "Retry operation r d sleep w
         = ((int k + 1, None), snd (operation (before_attempt operation (sleep d) w k)))"
  using Retry_loop_success[of 0 k r operation sleep d w None] assms by (simp add: Retry_def)

lemma Retry_loop_exhausted:
  assumes "0 \<le> a" "a \<le> r"
    and "\<forall>j. a + int j \<le> r \<longrightarrow>
           fst (operation (before_attempt operation (sleep d) (if a > 0 then sleep d w else w) j)) \<noteq> None"
  shows "Retry_loop operation r d sleep a lastError w
         = ((r + 1,
             Some (Errorf ''failed after %d attempts: %w''
                     [I (r + 1),
                      E (the (fst (operation (before_attempt operation (sleep d)
                                             (if a > 0 then sleep d w else w) (nat (r - a))))))])),
            snd (operation (before_attempt operation (sleep d)
                              (if a > 0 then sleep d w else w) (nat (r - a)))))"
  using assms
proof (induction "nat (r - a)" arbitrary: a w lastError)
  case 0
  let ?S = "if a > 0 then sleep d w else w"
  from 0 have ar: "a = r" by simp
  from 0(4)[rule_format, of 0] 0(3) have "fst (operation ?S) \<noteq> None" by simp
  then obtain err w2 where op: "operation ?S = (Some err, w2)"
    by (cases "operation ?S") auto
  have "Retry_loop operation r d sleep a lastError w
        = Retry_loop operation r d sleep (a + 1) (Some err) w2"
    using op 0(3) by (subst Retry_loop.simps) (simp add: Let_def)
  also have "\<dots> = ((r + 1, Some (Errorf ''failed after %d attempts: %w'' [I (r + 1), E err])), w2)"
    using ar by (subst Retry_loop.simps) simp
  finally show ?case using op ar by simp
next
  case (Suc n)
  let ?S = "if a > 0 then sleep d w else w"
  from Suc.hyps(2) have lt: "a < r" by simp
  from Suc.prems(3)[rule_format, of 0] lt have "fst (operation ?S) \<noteq> None" by simp
  then obtain err w2 where op: "operation ?S = (Some err, w2)"
    by (cases "operation ?S") auto
  have sh: "before_attempt operation (sleep d) (sleep d w2) j
            = before_attempt operation (sleep d) ?S (Suc j)" for j
    using before_attempt_shift[of operation "sleep d" ?S j] op by simp
  have n: "n = nat (r - (a + 1))" using Suc.hyps(2) by simp
  have a1: "0 \<le> a + 1" "a + 1 \<le> r" "a + 1 > 0" using Suc.prems(1) lt by simp_all
  have fails: "\<forall>j. a + 1 + int j \<le> r \<longrightarrow>
           fst (operation (before_attempt operation (sleep d)
                  (if a + 1 > 0 then sleep d w2 else w2) j)) \<noteq> None"
  proof (intro allI impI)
    fix j assume "a + 1 + int j \<le> r"
    then have "a + int (Suc j) \<le> r" by simp
    then show
      "fst (operation (before_attempt operation (sleep d)
                  (if a + 1 > 0 then sleep d w2 else w2) j)) \<noteq> None"
      using Suc.prems(3)[rule_format, of "Suc j"] sh a1(3) by simp
  qed
  have idx: "Suc (nat (r - (a + 1))) = nat (r - a)" using lt by simp
  have "Retry_loop operation r d sleep a lastError w
        = Retry_loop operation r d sleep (a + 1) (Some err) w2"
    using op lt by (subst Retry_loop.simps) (simp add: Let_def)
  also note Suc.hyps(1)[OF n a1(1) a1(2) fails, of "Some err"]
  finally show ?case using a1(3) sh idx by simp
qed

lemma Retry_exhausted:
  assumes "0 \<le> r"
    and "\<forall>j. int j \<le> r \<longrightarrow> fst (operation (before_attempt operation (sleep d) w j)) \<noteq> None"
  shows "Retry operation r d sleep w
         = ((r + 1,
             Some (Errorf ''failed after %d attempts: %w''
                     [I (r + 1),
                      E (the (fst (operation (before_attempt operation (sleep d) w (nat r)))))])),
            snd (operation (before_attempt operation (sleep d) w (nat r))))"
  using Retry_loop_exhausted[of 0 r operation sleep d w None] assms by (simp add: Retry_def)

lemma Retry_no_attempt:
  "r < 0 \<Longrightarrow>
   Retry operation r d sleep w
     = ((r + 1, Some (Errorf ''failed after %d attempts: %w'' [I (r + 1), Nil])), w)"
  unfolding Retry_def by (subst Retry_loop.simps) simp

subsection \<open>Download with retries and hash verification\<close>

lemma downloadOnce_slept: "slept (snd (downloadOnce c out u p w)) = slept w"
  by (simp add: downloadOnce_def Let_def split: option.splits sum.splits prod.splits)

lemma before_attempt_slept:
  "slept (before_attempt (downloadOnce c out u p) (time_Sleep d) w k) = slept w @ replicate k d"
  by (induction k) (simp_all add: downloadOnce_slept time_Sleep_def replicate_append_same)

lemma VerifyFileHash_None_iff:
  "expectedHash \<noteq> [] \<Longrightarrow>
   VerifyFileHash out p expectedHash w = None \<longleftrightarrow>
     (\<exists>contents. files w p = Some contents \<and> os_Open out p w = None \<and> io_Read out p w = None
        \<and> sha256_hex out contents = expectedHash)"
  by (simp add: VerifyFileHash_def Let_def split: option.splits)

lemma DownloadFileWithRetries_first_success:
  assumes r: "r = (if retries = 0 then defaultRetries c else retries)"
    and d: "d = int64 ((if retryWait = 0 then defaultRetryWait c else retryWait) * 1000000000)"
    and k: "int k \<le> r"
      "\<forall>j<k. fst (downloadOnce c out u p (before_attempt (downloadOnce c out u p) (time_Sleep d) w j)) \<noteq> None"
      "fst (downloadOnce c out u p (before_attempt (downloadOnce c out u p) (time_Sleep d) w k)) = None"
  shows "DownloadFileWithRetries c out u p expectedHash retries retryWait w
         = (VerifyFileHash out p expectedHash
              (snd (downloadOnce c out u p (before_attempt (downloadOnce c out u p) (time_Sleep d) w k))),
            snd (downloadOnce c out u p (before_attempt (downloadOnce c out u p) (time_Sleep d) w k)))"
  using Retry_first_success[of k r "downloadOnce c out u p" time_Sleep d w, OF k]
  unfolding DownloadFileWithRetries_def r d by (simp add: Let_def)

lemma DownloadFileWithRetries_succeeds_iff:
  assumes r: "r = (if retries = 0 then defaultRetries c else retries)"
    and d: "d = int64 ((if retryWait = 0 then defaultRetryWait c else retryWait) * 1000000000)"
  shows "fst (DownloadFileWithRetries c out u p expectedHash retries retryWait w) = None \<longleftrightarrow>
     (\<exists>k. int k \<le> r
        \<and> (\<forall>j<k. fst (downloadOnce c out u p (before_attempt (downloadOnce c out u p) (time_Sleep d) w j)) \<noteq> None)
        \<and> fst (downloadOnce c out u p (before_attempt (downloadOnce c out u p) (time_Sleep d) w k)) = None
        \<and> VerifyFileHash out p expectedHash
             (snd (downloadOnce c out u p (before_attempt (downloadOnce c out u p) (time_Sleep d) w k))) = None)"
    (is "?L \<longleftrightarrow> ?R")
proof
  assume L: ?L
  have "snd (fst (Retry (downloadOnce c out u p) r d time_Sleep w)) = None"
  proof (rule ccontr)
    assume "snd (fst (Retry (downloadOnce c out u p) r d time_Sleep w)) \<noteq> None"
    then obtain n err w1 where "Retry (downloadOnce c out u p) r d time_Sleep w = ((n, Some err), w1)"
      by (cases "Retry (downloadOnce c out u p) r d time_Sleep w") auto
    then have "fst (DownloadFileWithRetries c out u p expectedHash retries retryWait w) = Some err"
      unfolding DownloadFileWithRetries_def r d by (simp add: Let_def)
    with L show False by simp
  qed
  then obtain k where k: "int k \<le> r"
      "\<forall>j<k. fst (downloadOnce c out u p (before_attempt (downloadOnce c out u p) (time_Sleep d) w j)) \<noteq> None"
      "fst (downloadOnce c out u p (before_attempt (downloadOnce c out u p) (time_Sleep d) w k)) = None"
    unfolding Retry_succeeds_iff by blast
  from DownloadFileWithRetries_first_success[OF r d k, of expectedHash] L
  have "VerifyFileHash out p expectedHash
             (snd (downloadOnce c out u p (before_attempt (downloadOnce c out u p) (time_Sleep d) w k))) = None"
    by simp
  with k show ?R by blast
next
  assume ?R
  then obtain k where k: "int k \<le> r"
      "\<forall>j<k. fst (downloadOnce c out u p (before_attempt (downloadOnce c out u p) (time_Sleep d) w j)) \<noteq> None"
      "fst (downloadOnce c out u p (before_attempt (downloadOnce c out u p) (time_Sleep d) w k)) = None"
    and v: "VerifyFileHash out p expectedHash
             (snd (downloadOnce c out u p (before_attempt (downloadOnce c out u p) (time_Sleep d) w k))) = None"
    by blast
  from DownloadFileWithRetries_first_success[OF r d k, of expectedHash] v show ?L by simp
qed

lemma DownloadFileWithRetries_exhausted:
  assumes r: "r = (if retries = 0 then defaultRetries c else retries)"
    and d: "d = int64 ((if retryWait = 0 then defaultRetryWait c else retryWait) * 1000000000)"
    and "0 \<le> r"
    and "\<forall>j. int j \<le> r \<longrightarrow>
           fst (downloadOnce c out u p (before_attempt (downloadOnce c out u p) (time_Sleep d) w j)) \<noteq> None"
  shows "DownloadFileWithRetries c out u p expectedHash retries retryWait w
         = (Some (Errorf ''failed after %d attempts: %w''
                    [I (r + 1),
                     E (the (fst (downloadOnce c out u p
                                    (before_attempt (downloadOnce c out u p) (time_Sleep d) w (nat r)))))]),
            snd (downloadOnce c out u p (before_attempt (downloadOnce c out u p) (time_Sleep d) w (nat r))))"
  using Retry_exhausted[of r "downloadOnce c out u p" time_Sleep d w, OF assms(3,4)]
  unfolding DownloadFileWithRetries_def r d by (simp add: Let_def)

lemma DownloadFileWithRetries_no_attempt:
  assumes r: "r = (if retries = 0 then defaultRetries c else retries)"
    and "r < 0"
  shows "DownloadFileWithRetries c out u p expectedHash retries retryWait w
         = (Some (Errorf ''failed after %d attempts: %w'' [I (r + 1), Nil]), w)"
  using Retry_no_attempt[of r "downloadOnce c out u p" _ time_Sleep w, OF assms(2)]
  unfolding DownloadFileWithRetries_def r by (simp add: Let_def)

lemma downloadOnce_requests:
  "length (requests (snd (downloadOnce c out u p w))) \<le> Suc (length (requests w))"
  by (simp add: downloadOnce_def Let_def split: option.splits sum.splits prod.splits)

text \<open>
  Claim C1 says that the retry loop wraps the hash verification, so that an attempt whose
  hash mismatches is retried and the call succeeds when some attempt saves a file with the
  expected digest. At a mirror that serves other content at the first request and the
  expected content afterwards, with 3 retries, the call makes one request, does not sleep
  and returns the hash mismatch, although the second attempt would have saved a file that
  verifies.
\<close>

theorem DownloadFileWithRetries_counterexample:
  "fst (DownloadFileWithRetries NewClient staleMirrorOutside ''https://example.com/f.bin'' ''/tmp/f.bin''
          ''2cf24dba5fb0a30e26e83b2ac5b9e29e1b161e5c1fa7425e73043362938b9824'' 3 5 World_empty)
     = Some (Errorf ''hash mismatch: expected %s, got %s''
               [S ''2cf24dba5fb0a30e26e83b2ac5b9e29e1b161e5c1fa7425e73043362938b9824'',
                S ''187c9bceeb919e1b3e6d20fa50ecabf7d9d50b5343e8f9a3d912abb13929102e''])
   \<and> length (requests (snd (DownloadFileWithRetries NewClient staleMirrorOutside
          ''https://example.com/f.bin'' ''/tmp/f.bin''
          ''2cf24dba5fb0a30e26e83b2ac5b9e29e1b161e5c1fa7425e73043362938b9824'' 3 5 World_empty))) = 1
   \<and> slept (snd (DownloadFileWithRetries NewClient staleMirrorOutside
          ''https://example.com/f.bin'' ''/tmp/f.bin''
          ''2cf24dba5fb0a30e26e83b2ac5b9e29e1b161e5c1fa7425e73043362938b9824'' 3 5 World_empty)) = []
   \<and> fst (downloadOnce NewClient staleMirrorOutside ''https://example.com/f.bin'' ''/tmp/f.bin''
          (time_Sleep 5000000000 (snd (DownloadFileWithRetries NewClient staleMirrorOutside
             ''https://example.com/f.bin'' ''/tmp/f.bin''
             ''2cf24dba5fb0a30e26e83b2ac5b9e29e1b161e5c1fa7425e73043362938b9824'' 3 5 World_empty)))) = None
   \<and> VerifyFileHash staleMirrorOutside ''/tmp/f.bin''
          ''2cf24dba5fb0a30e26e83b2ac5b9e29e1b161e5c1fa7425e73043362938b9824''
          (snd (downloadOnce NewClient staleMirrorOutside ''https://example.com/f.bin'' ''/tmp/f.bin''
             (time_Sleep 5000000000 (snd (DownloadFileWithRetries NewClient staleMirrorOutside
                ''https://example.com/f.bin'' ''/tmp/f.bin''
                ''2cf24dba5fb0a30e26e83b2ac5b9e29e1b161e5c1fa7425e73043362938b9824'' 3 5 World_empty))))) = None"
proof -
  have once: "downloadOnce NewClient staleMirrorOutside ''https://example.com/f.bin'' ''/tmp/f.bin'' World_empty
     = (None, \<lparr>files = [''/tmp/f.bin'' \<mapsto> ''jello''], slept = [],
               requests = [downloadRequest NewClient ''https://example.com/f.bin'']\<rparr>)"
    by (simp add: downloadOnce_def staleMirrorOutside_def scriptedOutside_def
          World_empty_def EnsureDirForFile_def EnsureDir_def Let_def)
  have run: "DownloadFileWithRetries NewClient staleMirrorOutside ''https://example.com/f.bin'' ''/tmp/f.bin''
          ''2cf24dba5fb0a30e26e83b2ac5b9e29e1b161e5c1fa7425e73043362938b9824'' 3 5 World_empty
     = (Some (Errorf ''hash mismatch: expected %s, got %s''
               [S ''2cf24dba5fb0a30e26e83b2ac5b9e29e1b161e5c1fa7425e73043362938b9824'',
                S ''187c9bceeb919e1b3e6d20fa50ecabf7d9d50b5343e8f9a3d912abb13929102e'']),
        \<lparr>files = [''/tmp/f.bin'' \<mapsto> ''jello''], slept = [],
         requests = [downloadRequest NewClient ''https://example.com/f.bin'']\<rparr>)"
  proof -
    have retry: "Retry (downloadOnce NewClient staleMirrorOutside ''https://example.com/f.bin'' ''/tmp/f.bin'')
            3 5000000000 time_Sleep World_empty
       = ((1, None), \<lparr>files = [''/tmp/f.bin'' \<mapsto> ''jello''], slept = [],
               requests = [downloadRequest NewClient ''https://example.com/f.bin'']\<rparr>)"
      unfolding Retry_def by (subst Retry_loop.simps) (simp add: once)
    have verify: "VerifyFileHash staleMirrorOutside ''/tmp/f.bin''
            ''2cf24dba5fb0a30e26e83b2ac5b9e29e1b161e5c1fa7425e73043362938b9824''
            \<lparr>files = [''/tmp/f.bin'' \<mapsto> ''jello''], slept = [],
               requests = [downloadRequest NewClient ''https://example.com/f.bin'']\<rparr>
       = Some (Errorf ''hash mismatch: expected %s, got %s''
               [S ''2cf24dba5fb0a30e26e83b2ac5b9e29e1b161e5c1fa7425e73043362938b9824'',
                S ''187c9bceeb919e1b3e6d20fa50ecabf7d9d50b5343e8f9a3d912abb13929102e''])"
      by (simp add: VerifyFileHash_def staleMirrorOutside_def scriptedOutside_def
            sha256_examples_def)
    show ?thesis
      unfolding DownloadFileWithRetries_def by (simp add: int64_def retry verify)
  qed
  have again: "downloadOnce NewClient staleMirrorOutside ''https://example.com/f.bin'' ''/tmp/f.bin''
       (time_Sleep 5000000000 \<lparr>files = [''/tmp/f.bin'' \<mapsto> ''jello''], slept = [],
         requests = [downloadRequest NewClient ''https://example.com/f.bin'']\<rparr>)
     = (None, \<lparr>files = [''/tmp/f.bin'' \<mapsto> ''hello''], slept = [5000000000],
               requests = [downloadRequest NewClient ''https://example.com/f.bin'',
                           downloadRequest NewClient ''https://example.com/f.bin'']\<rparr>)"
    by (simp add: downloadOnce_def staleMirrorOutside_def scriptedOutside_def time_Sleep_def
          EnsureDirForFile_def EnsureDir_def Let_def)
  have verify_again: "VerifyFileHash staleMirrorOutside ''/tmp/f.bin''
          ''2cf24dba5fb0a30e26e83b2ac5b9e29e1b161e5c1fa7425e73043362938b9824''
          \<lparr>files = [''/tmp/f.bin'' \<mapsto> ''hello''], slept = [5000000000],
               requests = [downloadRequest NewClient ''https://example.com/f.bin'',
                           downloadRequest NewClient ''https://example.com/f.bin'']\<rparr> = None"
    by (simp add: VerifyFileHash_def staleMirrorOutside_def scriptedOutside_def
          sha256_examples_def)
  show ?thesis
    unfolding run by (simp add: again verify_again)
qed

text \<open>
  Claim C1, amended. For a call with a non-empty expected hash, let \<open>r\<close> be the effective
  retry count (the argument, or the client's default when the argument is 0), with
  \<open>r + 1\<close> an \<^verbatim>\<open>int\<close>, and \<open>d\<close> the effective wait in nanoseconds (the seconds of the argument
  or of the default, times \<open>10\<^sup>9\<close>, as the 64-bit \<^verbatim>\<open>time.Duration\<close> holds it). The retry loop wraps
  the download attempt only: the first attempt is immediate, at most \<open>r\<close> further attempts
  follow, each after a call of \<^verbatim>\<open>time.Sleep\<close> with \<open>d\<close>, and the loop stops at the first attempt
  that downloads. The hash is then verified once, on the file that this attempt saved: the
  call succeeds exactly when some attempt among the first \<open>r + 1\<close> downloads and the file
  saved by the first such attempt can be read and has the expected SHA-256 digest; the
  result of the call is the result of that verification, and the call has slept \<open>k\<close> times
  when attempt \<open>k\<close> was the first to download. When all the \<open>r + 1\<close> attempts fail, the call
  makes exactly these attempts with \<open>r\<close> sleeps and returns the error of the last attempt
  wrapped in \<^verbatim>\<open>failed after r+1 attempts\<close>; with a negative \<open>r\<close> it makes no attempt.
\<close>

theorem DownloadFileWithRetries_verifies_after_retry_loop:
  assumes "expectedHash \<noteq> []"
    and r: "r = (if retries = 0 then defaultRetries c else retries)"
    and range: "r < 9223372036854775807"
    and d: "d = int64 ((if retryWait = 0 then defaultRetryWait c else retryWait) * 1000000000)"
  shows
   "(fst (DownloadFileWithRetries c out u p expectedHash retries retryWait w) = None \<longleftrightarrow>
     (\<exists>k. int k \<le> r
        \<and> (\<forall>j<k. fst (downloadOnce c out u p (before_attempt (downloadOnce c out u p) (time_Sleep d) w j)) \<noteq> None)
        \<and> fst (downloadOnce c out u p (before_attempt (downloadOnce c out u p) (time_Sleep d) w k)) = None
        \<and> (\<exists>contents.
              files (snd (downloadOnce c out u p (before_attempt (downloadOnce c out u p) (time_Sleep d) w k))) p
                = Some contents
            \<and> os_Open out p (snd (downloadOnce c out u p (before_attempt (downloadOnce c out u p) (time_Sleep d) w k))) = None
            \<and> io_Read out p (snd (downloadOnce c out u p (before_attempt (downloadOnce c out u p) (time_Sleep d) w k))) = None
            \<and> sha256_hex out contents = expectedHash)))
    \<and> (\<forall>k. int k \<le> r
        \<and> (\<forall>j<k. fst (downloadOnce c out u p (before_attempt (downloadOnce c out u p) (time_Sleep d) w j)) \<noteq> None)
        \<and> fst (downloadOnce c out u p (before_attempt (downloadOnce c out u p) (time_Sleep d) w k)) = None
        \<longrightarrow> DownloadFileWithRetries c out u p expectedHash retries retryWait w
            = (VerifyFileHash out p expectedHash
                 (snd (downloadOnce c out u p (before_attempt (downloadOnce c out u p) (time_Sleep d) w k))),
               snd (downloadOnce c out u p (before_attempt (downloadOnce c out u p) (time_Sleep d) w k)))
          \<and> slept (snd (downloadOnce c out u p (before_attempt (downloadOnce c out u p) (time_Sleep d) w k)))
            = slept w @ replicate k d)
    \<and> (0 \<le> r
        \<and> (\<forall>j. int j \<le> r \<longrightarrow>
              fst (downloadOnce c out u p (before_attempt (downloadOnce c out u p) (time_Sleep d) w j)) \<noteq> None)
        \<longrightarrow> DownloadFileWithRetries c out u p expectedHash retries retryWait w
            = (Some (Errorf ''failed after %d attempts: %w''
                       [I (r + 1),
                        E (the (fst (downloadOnce c out u p
                                       (before_attempt (downloadOnce c out u p) (time_Sleep d) w (nat r)))))]),
               snd (downloadOnce c out u p (before_attempt (downloadOnce c out u p) (time_Sleep d) w (nat r))))
          \<and> slept (snd (downloadOnce c out u p (before_attempt (downloadOnce c out u p) (time_Sleep d) w (nat r))))
            = slept w @ replicate (nat r) d)
    \<and> (r < 0
        \<longrightarrow> DownloadFileWithRetries c out u p expectedHash retries retryWait w
            = (Some (Errorf ''failed after %d attempts: %w'' [I (r + 1), Nil]), w))"
proof (intro conjI allI impI)
  show "fst (DownloadFileWithRetries c out u p expectedHash retries retryWait w) = None \<longleftrightarrow>
     (\<exists>k. int k \<le> r
        \<and> (\<forall>j<k. fst (downloadOnce c out u p (before_attempt (downloadOnce c out u p) (time_Sleep d) w j)) \<noteq> None)
        \<and> fst (downloadOnce c out u p (before_attempt (downloadOnce c out u p) (time_Sleep d) w k)) = None
        \<and> (\<exists>contents.
              files (snd (downloadOnce c out u p (before_attempt (downloadOnce c out u p) (time_Sleep d) w k))) p
                = Some contents
            \<and> os_Open out p (snd (downloadOnce c out u p (before_attempt (downloadOnce c out u p) (time_Sleep d) w k))) = None
            \<and> io_Read out p (snd (downloadOnce c out u p (before_attempt (downloadOnce c out u p) (time_Sleep d) w k))) = None
            \<and> sha256_hex out contents = expectedHash))"
    unfolding DownloadFileWithRetries_succeeds_iff[OF r d]
      VerifyFileHash_None_iff[OF assms(1)] ..
next
  fix k
  assume k: "int k \<le> r
        \<and> (\<forall>j<k. fst (downloadOnce c out u p (before_attempt (downloadOnce c out u p) (time_Sleep d) w j)) \<noteq> None)
        \<and> fst (downloadOnce c out u p (before_attempt (downloadOnce c out u p) (time_Sleep d) w k)) = None"
  then show "DownloadFileWithRetries c out u p expectedHash retries retryWait w
            = (VerifyFileHash out p expectedHash
                 (snd (downloadOnce c out u p (before_attempt (downloadOnce c out u p) (time_Sleep d) w k))),
               snd (downloadOnce c out u p (before_attempt (downloadOnce c out u p) (time_Sleep d) w k)))"
    by (intro DownloadFileWithRetries_first_success[OF r d]) simp_all
  show "slept (snd (downloadOnce c out u p (before_attempt (downloadOnce c out u p) (time_Sleep d) w k)))
            = slept w @ replicate k d"
    by (simp add: downloadOnce_slept before_attempt_slept)
next
  assume a: "0 \<le> r
        \<and> (\<forall>j. int j \<le> r \<longrightarrow>
              fst (downloadOnce c out u p (before_attempt (downloadOnce c out u p) (time_Sleep d) w j)) \<noteq> None)"
  then show "DownloadFileWithRetries c out u p expectedHash retries retryWait w
            = (Some (Errorf ''failed after %d attempts: %w''
                       [I (r + 1),
                        E (the (fst (downloadOnce c out u p
                                       (before_attempt (downloadOnce c out u p) (time_Sleep d) w (nat r)))))]),
               snd (downloadOnce c out u p (before_attempt (downloadOnce c out u p) (time_Sleep d) w (nat r))))"
    by (intro DownloadFileWithRetries_exhausted[OF r d]) simp_all
  show "slept (snd (downloadOnce c out u p (before_attempt (downloadOnce c out u p) (time_Sleep d) w (nat r))))
            = slept w @ replicate (nat r) d"
    by (simp add: downloadOnce_slept before_attempt_slept)
next
  assume "r < 0"
  then show "DownloadFileWithRetries c out u p expectedHash retries retryWait w
            = (Some (Errorf ''failed after %d attempts: %w'' [I (r + 1), Nil]), w)"
    by (rule DownloadFileWithRetries_no_attempt[OF r])
qed

text \<open>
  The theorem at a server that answers 503 once and then serves the expected content, with
  3 retries and 5 seconds of wait: the call succeeds after one sleep. And at a disk that
  fills up after three bytes, with 1 retry and 2 seconds of wait: the call makes two
  attempts with one sleep between them and returns the error of the second.
\<close>

theorem DownloadFileWithRetries_verifies_after_retry_loop_witness:
  "fst (DownloadFileWithRetries NewClient flakyServerOutside ''https://example.com/f.bin'' ''/tmp/f.bin''
          ''2cf24dba5fb0a30e26e83b2ac5b9e29e1b161e5c1fa7425e73043362938b9824'' 3 5 World_empty) = None
   \<and> slept (snd (DownloadFileWithRetries NewClient flakyServerOutside ''https://example.com/f.bin''
          ''/tmp/f.bin'' ''2cf24dba5fb0a30e26e83b2ac5b9e29e1b161e5c1fa7425e73043362938b9824'' 3 5
          World_empty)) = [5000000000]
   \<and> DownloadFileWithRetries NewClient diskFullOutside ''https://example.com/f.bin'' ''/tmp/f.bin''
          ''2cf24dba5fb0a30e26e83b2ac5b9e29e1b161e5c1fa7425e73043362938b9824'' 1 2 World_empty
       = (Some (Errorf ''failed after %d attempts: %w''
                  [I 2, E (Errorf ''failed to write file: %w''
                             [E (External ''write /tmp/f.bin: no space left on device'')])]),
          \<lparr>files = [''/tmp/f.bin'' \<mapsto> ''hel''], slept = [2000000000],
            requests = [downloadRequest NewClient ''https://example.com/f.bin'',
                        downloadRequest NewClient ''https://example.com/f.bin'']\<rparr>)"
proof -
  let ?h = "''2cf24dba5fb0a30e26e83b2ac5b9e29e1b161e5c1fa7425e73043362938b9824''"
  let ?u = "''https://example.com/f.bin''" and ?p = "''/tmp/f.bin''"
  let ?rq = "downloadRequest NewClient ?u"
  have h: "?h \<noteq> []" by simp
  have succeeds: "fst (DownloadFileWithRetries NewClient flakyServerOutside ?u ?p ?h 3 5 World_empty) = None
     \<and> slept (snd (DownloadFileWithRetries NewClient flakyServerOutside ?u ?p ?h 3 5 World_empty))
         = [5000000000]"
  proof -
    let ?op = "downloadOnce NewClient flakyServerOutside ?u ?p"
    have r: "(3::int) = (if (3::int) = 0 then defaultRetries NewClient else 3)" by simp
    have range: "(3::int) < 9223372036854775807" by simp
    have d: "(5000000000::int)
               = int64 ((if (5::int) = 0 then defaultRetryWait NewClient else 5) * 1000000000)"
      by (simp add: int64_def)
    note t = DownloadFileWithRetries_verifies_after_retry_loop[OF h r range d,
               of flakyServerOutside ?u ?p World_empty, THEN conjunct2, THEN conjunct1,
               THEN spec, of "Suc 0"]
    have first: "?op World_empty
       = (Some (Errorf ''download failed with status: %d'' [I 503]),
          \<lparr>files = Map.empty, slept = [], requests = [?rq]\<rparr>)"
      by (simp add: downloadOnce_def flakyServerOutside_def scriptedOutside_def
            World_empty_def EnsureDirForFile_def EnsureDir_def Let_def)
    have second: "?op (time_Sleep 5000000000 \<lparr>files = Map.empty, slept = [], requests = [?rq]\<rparr>)
       = (None, \<lparr>files = [?p \<mapsto> ''hello''], slept = [5000000000], requests = [?rq, ?rq]\<rparr>)"
      by (simp add: downloadOnce_def flakyServerOutside_def scriptedOutside_def time_Sleep_def
            EnsureDirForFile_def EnsureDir_def Let_def)
    have verify: "VerifyFileHash flakyServerOutside ?p ?h
          \<lparr>files = [?p \<mapsto> ''hello''], slept = [5000000000], requests = [?rq, ?rq]\<rparr> = None"
      by (simp add: VerifyFileHash_def flakyServerOutside_def scriptedOutside_def sha256_examples_def)
    have hyp: "int (Suc 0) \<le> 3
          \<and> (\<forall>j<Suc 0. fst (?op (before_attempt ?op (time_Sleep 5000000000) World_empty j)) \<noteq> None)
          \<and> fst (?op (before_attempt ?op (time_Sleep 5000000000) World_empty (Suc 0))) = None"
      by (simp add: first second)
    from mp[OF t hyp] show ?thesis
      by (simp add: first second verify)
  qed
  have exhausted: "DownloadFileWithRetries NewClient diskFullOutside ?u ?p ?h 1 2 World_empty
       = (Some (Errorf ''failed after %d attempts: %w''
                  [I 2, E (Errorf ''failed to write file: %w''
                             [E (External ''write /tmp/f.bin: no space left on device'')])]),
          \<lparr>files = [?p \<mapsto> ''hel''], slept = [2000000000], requests = [?rq, ?rq]\<rparr>)"
  proof -
    let ?op = "downloadOnce NewClient diskFullOutside ?u ?p"
    let ?full = "Errorf ''failed to write file: %w''
                   [E (External ''write /tmp/f.bin: no space left on device'')]"
    have r: "(1::int) = (if (1::int) = 0 then defaultRetries NewClient else 1)" by simp
    have range: "(1::int) < 9223372036854775807" by simp
    have d: "(2000000000::int)
               = int64 ((if (2::int) = 0 then defaultRetryWait NewClient else 2) * 1000000000)"
      by (simp add: int64_def)
    note t = DownloadFileWithRetries_verifies_after_retry_loop[OF h r range d,
               of diskFullOutside ?u ?p World_empty, THEN conjunct2, THEN conjunct2, THEN conjunct1]
    have first: "?op World_empty
       = (Some ?full, \<lparr>files = [?p \<mapsto> ''hel''], slept = [], requests = [?rq]\<rparr>)"
      by (simp add: downloadOnce_def diskFullOutside_def scriptedOutside_def
            World_empty_def EnsureDirForFile_def EnsureDir_def Let_def)
    have second: "?op (time_Sleep 2000000000 \<lparr>files = [?p \<mapsto> ''hel''], slept = [], requests = [?rq]\<rparr>)
       = (Some ?full, \<lparr>files = [?p \<mapsto> ''hel''], slept = [2000000000], requests = [?rq, ?rq]\<rparr>)"
      by (simp add: downloadOnce_def diskFullOutside_def scriptedOutside_def time_Sleep_def
            EnsureDirForFile_def EnsureDir_def Let_def)
    have fails: "fst (?op (before_attempt ?op (time_Sleep 2000000000) World_empty j)) \<noteq> None"
      if "int j \<le> 1" for j
    proof -
      from that have "j = 0 \<or> j = Suc 0" by auto
      then show ?thesis by (auto simp add: first second)
    qed
    have hyp: "(0::int) \<le> 1
        \<and> (\<forall>j. int j \<le> 1 \<longrightarrow>
              fst (?op (before_attempt ?op (time_Sleep 2000000000) World_empty j)) \<noteq> None)"
      using fails by simp
    from mp[OF t hyp] show ?thesis
      by (simp add: first second)
  qed
  from succeeds exhausted show ?thesis
    by simp
qed

subsection \<open>A failed stream to the destination\<close>

text \<open>
  Claim C9, amended. When a download attempt has got a response with status 200 and has
  created the destination, and streaming the body fails after \<open>n\<close> bytes, the attempt fails
  with the error \<^verbatim>\<open>failed to write file\<close> and the destination is not deleted: it holds the
  first \<open>n\<close> bytes of the body.
\<close>

theorem downloadOnce_failed_copy_leaves_file:
  assumes "EnsureDirForFile out p w = None"
    and "http_NewRequest out u = None"
    and "http_Do out (followRedirects c) (downloadRequest c u) w = Inr resp"
    and "StatusCode resp = 200"
    and "os_Create out p (w\<lparr>requests := requests w @ [downloadRequest c u]\<rparr>) = None"
    and "io_Copy out p (w\<lparr>requests := requests w @ [downloadRequest c u]\<rparr>) = Some (n, err)"
  shows "fst (downloadOnce c out u p w) = Some (Errorf ''failed to write file: %w'' [E err])
       \<and> files (snd (downloadOnce c out u p w)) p = Some (take n (Body resp))"
  using assms by (simp add: downloadOnce_def Let_def)

text \<open>The theorem at a disk that fills up after three bytes.\<close>

theorem downloadOnce_failed_copy_leaves_file_witness:
  "fst (downloadOnce NewClient diskFullOutside ''https://example.com/f.bin'' ''/tmp/f.bin'' World_empty)
     = Some (Errorf ''failed to write file: %w''
               [E (External ''write /tmp/f.bin: no space left on device'')])
   \<and> files (snd (downloadOnce NewClient diskFullOutside ''https://example.com/f.bin'' ''/tmp/f.bin''
                    World_empty)) ''/tmp/f.bin'' = Some ''hel''"
proof -
  let ?u = "''https://example.com/f.bin''" and ?p = "''/tmp/f.bin''"
  let ?resp = "\<lparr>StatusCode = 200, Body = ''hello''\<rparr>"
  have 1: "EnsureDirForFile diskFullOutside ?p World_empty = None"
    by (simp add: EnsureDirForFile_def EnsureDir_def diskFullOutside_def scriptedOutside_def)
  have 2: "http_NewRequest diskFullOutside ?u = None"
    by (simp add: diskFullOutside_def scriptedOutside_def)
  have 3: "http_Do diskFullOutside (followRedirects NewClient) (downloadRequest NewClient ?u) World_empty
           = Inr ?resp"
    by (simp add: diskFullOutside_def scriptedOutside_def)
  have 4: "StatusCode ?resp = 200" by simp
  have 5: "os_Create diskFullOutside ?p
             (World_empty\<lparr>requests := requests World_empty @ [downloadRequest NewClient ?u]\<rparr>) = None"
    by (simp add: diskFullOutside_def scriptedOutside_def)
  have 6: "io_Copy diskFullOutside ?p
             (World_empty\<lparr>requests := requests World_empty @ [downloadRequest NewClient ?u]\<rparr>)
           = Some (3, External ''write /tmp/f.bin: no space left on device'')"
    by (simp add: diskFullOutside_def scriptedOutside_def)
  from downloadOnce_failed_copy_leaves_file[OF 1 2 3 4 5 6] show ?thesis by simp
qed

text \<open>
  Claim C9 says that the destination is deleted when streaming fails. At the disk that
  fills up, the attempt fails and the destination exists afterwards.
\<close>

theorem downloadOnce_failed_copy_counterexample:
  "fst (downloadOnce NewClient diskFullOutside ''https://example.com/f.bin'' ''/tmp/f.bin'' World_empty)
     \<noteq> None
   \<and> files (snd (downloadOnce NewClient diskFullOutside ''https://example.com/f.bin'' ''/tmp/f.bin''
                    World_empty)) ''/tmp/f.bin'' \<noteq> None"
  by (simp add: downloadOnce_def diskFullOutside_def scriptedOutside_def
        World_empty_def EnsureDirForFile_def EnsureDir_def Let_def)

subsection \<open>Concurrent downloads\<close>

lemma downloadItem_result:
  "fst (downloadItem c out item t w)
   = \<lparr>Item = item,
      Error = (if URL item \<noteq> []
               then fst (DownloadFileWithRetries c out (URL item) (File item) (Hash item)
                           (Retries item) (RetryWait item) w)
               else None)\<rparr>"
  by (simp add: downloadItem_def Let_def split: prod.splits option.splits)

lemma pool_step_length:
  assumes "pool_step c out items capacity e s = Some s'"
  shows "length (pool_results s') = length (pool_results s)"
  using assms by (cases e) (auto split: if_splits prod.splits)

lemma pool_run_length:
  assumes "pool_run c out items capacity schedule s = Some s'"
  shows "length (pool_results s') = length (pool_results s)"
  using assms
proof (induction schedule arbitrary: s)
  case Nil
  then show ?case by simp
next
  case (Cons e schedule)
  from Cons.prems obtain s1 where e: "pool_step c out items capacity e s = Some s1"
    and rest: "pool_run c out items capacity schedule s1 = Some s'"
    by (auto split: option.splits)
  from Cons.IH[OF rest] pool_step_length[OF e] show ?case by simp
qed

lemma pool_run_append:
  "pool_run c out items capacity (xs @ ys) s
   = (case pool_run c out items capacity xs s of
        None \<Rightarrow> None
      | Some s1 \<Rightarrow> pool_run c out items capacity ys s1)"
  by (induction xs arbitrary: s) (simp_all split: option.splits)

text \<open>
  When goroutine \<open>k\<close> has finished, \<^verbatim>\<open>results[k]\<close> is what its own download step returned,
  in the state in which that step began.
\<close>

lemma pool_run_results:
  assumes "pool_run c out items capacity schedule s0 = Some s"
    and "length (pool_results s0) = length items"
    and "\<forall>k<length items. k \<in> set (pool_waiting s0)"
    and "k < length items" "k \<notin> set (pool_waiting s)" "k \<notin> set (pool_running s)"
  shows "\<exists>pre post s1. schedule = pre @ Finish k # post
           \<and> pool_run c out items capacity pre s0 = Some s1
           \<and> pool_results s ! k
               = fst (downloadItem c out (items ! k) (pool_cleanup s1) (pool_world s1))"
  using assms(1,4,5,6)
proof (induction schedule arbitrary: s k rule: rev_induct)
  case Nil
  then have "s = s0" by simp
  with Nil assms(3) show ?case by simp
next
  case (snoc e schedule)
  from snoc.prems(1) obtain s1 where run: "pool_run c out items capacity schedule s0 = Some s1"
    and step: "pool_step c out items capacity e s1 = Some s"
    by (auto simp add: pool_run_append split: option.splits)
  have len: "length (pool_results s1) = length items"
    using pool_run_length[OF run] assms(2) by simp
  show ?case
  proof (cases e)
    case (Acquire i)
    with step have s: "s = s1\<lparr>pool_waiting := remove1 i (pool_waiting s1),
                                 pool_running := i # pool_running s1\<rparr>"
      by (simp split: if_splits)
    from snoc.prems(4) have ki: "k \<noteq> i" and r1: "k \<notin> set (pool_running s1)"
      unfolding s by simp_all
    from snoc.prems(3) ki have w1: "k \<notin> set (pool_waiting s1)"
      unfolding s by simp
    from snoc.IH[OF run snoc.prems(2) w1 r1] obtain pre post s2 where
      "schedule = pre @ Finish k # post" "pool_run c out items capacity pre s0 = Some s2"
      "pool_results s1 ! k = fst (downloadItem c out (items ! k) (pool_cleanup s2) (pool_world s2))"
      by blast
    then have "schedule @ [e] = pre @ Finish k # (post @ [e])
           \<and> pool_run c out items capacity pre s0 = Some s2
           \<and> pool_results s ! k
               = fst (downloadItem c out (items ! k) (pool_cleanup s2) (pool_world s2))"
      unfolding s by simp
    then show ?thesis by blast
  next
    case (Finish i)
    with step have i: "i \<in> set (pool_running s1)" "i < length items"
      by (simp_all split: if_splits)
    obtain result t w where d: "downloadItem c out (items ! i) (pool_cleanup s1) (pool_world s1)
                                  = (result, t, w)"
      by (cases "downloadItem c out (items ! i) (pool_cleanup s1) (pool_world s1)")
    from step Finish i d have s: "s = s1\<lparr>pool_results := (pool_results s1)[i := result],
        pool_running := remove1 i (pool_running s1), pool_cleanup := t, pool_world := w\<rparr>"
      by simp
    show ?thesis
    proof (cases "k = i")
      case True
      have "pool_results s ! k
              = fst (downloadItem c out (items ! k) (pool_cleanup s1) (pool_world s1))"
        unfolding s True using d i(2) len by simp
      with run Finish True have "schedule @ [e] = schedule @ Finish k # []
           \<and> pool_run c out items capacity schedule s0 = Some s1
           \<and> pool_results s ! k
               = fst (downloadItem c out (items ! k) (pool_cleanup s1) (pool_world s1))"
        by simp
      then show ?thesis by blast
    next
      case False
      from snoc.prems(4) False have r1: "k \<notin> set (pool_running s1)"
        unfolding s by simp
      from snoc.prems(3) have w1: "k \<notin> set (pool_waiting s1)"
        unfolding s by simp
      from snoc.IH[OF run snoc.prems(2) w1 r1] obtain pre post s2 where
        "schedule = pre @ Finish k # post" "pool_run c out items capacity pre s0 = Some s2"
        "pool_results s1 ! k = fst (downloadItem c out (items ! k) (pool_cleanup s2) (pool_world s2))"
        by blast
      then have "schedule @ [e] = pre @ Finish k # (post @ [e])
           \<and> pool_run c out items capacity pre s0 = Some s2
           \<and> pool_results s ! k
               = fst (downloadItem c out (items ! k) (pool_cleanup s2) (pool_world s2))"
        unfolding s using False by simp
      then show ?thesis by blast
    qed
  qed
qed

lemma pool_run_sequential:
  assumes "pool_waiting s = ws" "pool_running s = []" "0 < capacity" "\<forall>i\<in>set ws. i < length items"
  shows "\<exists>s'. pool_run c out items capacity (concat (map (\<lambda>i. [Acquire i, Finish i]) ws)) s = Some s'
            \<and> pool_waiting s' = [] \<and> pool_running s' = []"
  using assms
proof (induction ws arbitrary: s)
  case Nil
  then show ?case by simp
next
  case (Cons i ws)
  obtain result t w where d: "downloadItem c out (items ! i) (pool_cleanup s) (pool_world s) = (result, t, w)"
    by (cases "downloadItem c out (items ! i) (pool_cleanup s) (pool_world s)")
  let ?s2 = "s\<lparr>pool_waiting := ws, pool_results := (pool_results s)[i := result],
        pool_running := [], pool_cleanup := t, pool_world := w\<rparr>"
  have two: "pool_run c out items capacity ([Acquire i, Finish i] @ rest) s
           = pool_run c out items capacity rest ?s2" for rest
    using Cons.prems d by simp
  have "\<exists>s'. pool_run c out items capacity (concat (map (\<lambda>i. [Acquire i, Finish i]) ws)) ?s2 = Some s'
            \<and> pool_waiting s' = [] \<and> pool_running s' = []"
    using Cons.prems by (intro Cons.IH) simp_all
  then show ?case using two[of "concat (map (\<lambda>i. [Acquire i, Finish i]) ws)"] by simp
qed

lemma DownloadMultipleWithCleanup_Some:
  assumes "DownloadMultipleWithCleanup c out items maxConcurrency cleanupOnFailure schedule w = Some (rs, w')"
  shows "\<exists>s. pool_run c out items
               (nat (if maxConcurrency \<le> 0 then int (length items) else maxConcurrency)) schedule
               \<lparr>pool_results = replicate (length items) \<lparr>Item = Item_zero, Error = None\<rparr>,
                 pool_waiting = [0..<length items], pool_running = [],
                 pool_cleanup = NewCleanupTracker, pool_world = w\<rparr> = Some s
           \<and> pool_waiting s = [] \<and> pool_running s = [] \<and> rs = pool_results s"
  using assms unfolding DownloadMultipleWithCleanup_def Let_def
  by (auto split: option.splits if_splits)

text \<open>
  Claim C3: \<^verbatim>\<open>DownloadMultipleWithCleanup\<close> returns one result for each input item, and the
  result at index \<open>k\<close> is the result for \<^verbatim>\<open>items[k]\<close>, whatever the order in which the
  concurrent downloads complete. For every schedule of the goroutines under which the call
  returns, the result list has the length of the input, and for every index \<open>k\<close> the schedule
  has a step in which goroutine \<open>k\<close> downloads: the entry \<open>k\<close> of the result carries
  \<^verbatim>\<open>items[k]\<close> and, as its error, the outcome of \<^verbatim>\<open>DownloadFileWithRetries\<close> on that item in the
  machine in which this step began (no error for an item without URL). And the call does
  return: the schedule that runs the goroutines one after the other is a run for every
  input and every limit of concurrency.
\<close>

theorem DownloadMultipleWithCleanup_results_in_input_order:
  "(DownloadMultipleWithCleanup c out items maxConcurrency cleanupOnFailure schedule w = Some (rs, w')
      \<longrightarrow> length rs = length items
        \<and> (\<forall>k<length items. \<exists>pre post s.
              schedule = pre @ Finish k # post
            \<and> pool_run c out items
                  (nat (if maxConcurrency \<le> 0 then int (length items) else maxConcurrency)) pre
                  \<lparr>pool_results = replicate (length items) \<lparr>Item = Item_zero, Error = None\<rparr>,
                    pool_waiting = [0..<length items], pool_running = [],
                    pool_cleanup = NewCleanupTracker, pool_world = w\<rparr> = Some s
            \<and> rs ! k
                = \<lparr>Item = items ! k,
                   Error = (if URL (items ! k) \<noteq> []
                            then fst (DownloadFileWithRetries c out (URL (items ! k)) (File (items ! k))
                                        (Hash (items ! k)) (Retries (items ! k)) (RetryWait (items ! k))
                                        (pool_world s))
                            else None)\<rparr>))
   \<and> DownloadMultipleWithCleanup c out items maxConcurrency cleanupOnFailure
        (sequential_schedule (length items)) w \<noteq> None"
proof (intro conjI impI allI)
  let ?cap = "nat (if maxConcurrency \<le> 0 then int (length items) else maxConcurrency)"
  let ?start = "\<lparr>pool_results = replicate (length items) \<lparr>Item = Item_zero, Error = None\<rparr>,
                 pool_waiting = [0..<length items], pool_running = [],
                 pool_cleanup = NewCleanupTracker, pool_world = w\<rparr>"
  assume "DownloadMultipleWithCleanup c out items maxConcurrency cleanupOnFailure schedule w = Some (rs, w')"
  from DownloadMultipleWithCleanup_Some[OF this] obtain s where
    run: "pool_run c out items ?cap schedule ?start = Some s"
    and fin: "pool_waiting s = []" "pool_running s = []" and rs: "rs = pool_results s"
    by blast
  from pool_run_length[OF run] rs show "length rs = length items"
    by simp
  fix k
  assume k: "k < length items"
  have "\<exists>pre post s1. schedule = pre @ Finish k # post
         \<and> pool_run c out items ?cap pre ?start = Some s1
         \<and> pool_results s ! k
             = fst (downloadItem c out (items ! k) (pool_cleanup s1) (pool_world s1))"
    by (rule pool_run_results[OF run _ _ k]) (simp_all add: fin)
  then show "\<exists>pre post s.
              schedule = pre @ Finish k # post
            \<and> pool_run c out items ?cap pre ?start = Some s
            \<and> rs ! k
                = \<lparr>Item = items ! k,
                   Error = (if URL (items ! k) \<noteq> []
                            then fst (DownloadFileWithRetries c out (URL (items ! k)) (File (items ! k))
                                        (Hash (items ! k)) (Retries (items ! k)) (RetryWait (items ! k))
                                        (pool_world s))
                            else None)\<rparr>"
    unfolding rs downloadItem_result by blast
next
  let ?cap = "nat (if maxConcurrency \<le> 0 then int (length items) else maxConcurrency)"
  let ?start = "\<lparr>pool_results = replicate (length items) \<lparr>Item = Item_zero, Error = None\<rparr>,
                 pool_waiting = [0..<length items], pool_running = [],
                 pool_cleanup = NewCleanupTracker, pool_world = w\<rparr>"
  show "DownloadMultipleWithCleanup c out items maxConcurrency cleanupOnFailure
        (sequential_schedule (length items)) w \<noteq> None"
  proof (cases "items = []")
    case True
    then show ?thesis
      by (simp add: DownloadMultipleWithCleanup_def sequential_schedule_def Let_def)
  next
    case False
    then have "0 < ?cap" by simp
    from pool_run_sequential[of ?start "[0..<length items]" ?cap items c out, OF _ _ this]
    obtain s' where "pool_run c out items ?cap (sequential_schedule (length items)) ?start = Some s'"
      "pool_waiting s' = []" "pool_running s' = []"
      unfolding sequential_schedule_def by auto
    then show ?thesis
      by (simp add: DownloadMultipleWithCleanup_def Let_def)
  qed
qed

text \<open>
  The theorem at two packages with a limit of 2 and cleanup on failure, at a mirror that
  serves other content at the first request: the download of the second package completes
  first and fails its hash verification, the download of the first package completes second
  and succeeds; the result of the first package is first, and the file of the second is
  removed.
\<close>

theorem DownloadMultipleWithCleanup_results_in_input_order_witness:
  "DownloadMultipleWithCleanup NewClient staleMirrorOutside [examplePackageA, examplePackageB]
      2 True [Acquire 1, Acquire 0, Finish 1, Finish 0] World_empty
    = Some ([\<lparr>Item = examplePackageA, Error = None\<rparr>,
             \<lparr>Item = examplePackageB,
              Error = Some (Errorf ''hash mismatch: expected %s, got %s''
               [S ''2cf24dba5fb0a30e26e83b2ac5b9e29e1b161e5c1fa7425e73043362938b9824'',
                S ''187c9bceeb919e1b3e6d20fa50ecabf7d9d50b5343e8f9a3d912abb13929102e''])\<rparr>],
            \<lparr>files = [''/tmp/b.pkg'' \<mapsto> ''jello'', ''/tmp/a.pkg'' \<mapsto> ''hello'']
                       (''/tmp/b.pkg'' := None),
             slept = [],
             requests = [downloadRequest NewClient ''https://example.com/b.pkg'',
                         downloadRequest NewClient ''https://example.com/a.pkg'']\<rparr>)
   \<and> length [\<lparr>Item = examplePackageA, Error = None\<rparr>,
             \<lparr>Item = examplePackageB,
              Error = Some (Errorf ''hash mismatch: expected %s, got %s''
               [S ''2cf24dba5fb0a30e26e83b2ac5b9e29e1b161e5c1fa7425e73043362938b9824'',
                S ''187c9bceeb919e1b3e6d20fa50ecabf7d9d50b5343e8f9a3d912abb13929102e''])\<rparr>] = 2
   \<and> DownloadMultipleWithCleanup NewClient staleMirrorOutside [examplePackageA, examplePackageB]
      2 True (sequential_schedule 2) World_empty \<noteq> None"
proof -
  let ?h = "''2cf24dba5fb0a30e26e83b2ac5b9e29e1b161e5c1fa7425e73043362938b9824''"
  let ?ua = "''https://example.com/a.pkg''" and ?pa = "''/tmp/a.pkg''"
  let ?ub = "''https://example.com/b.pkg''" and ?pb = "''/tmp/b.pkg''"
  let ?a = examplePackageA and ?b = examplePackageB
  let ?w1 = "\<lparr>files = [?pb \<mapsto> ''jello''], slept = [],
              requests = [downloadRequest NewClient ?ub]\<rparr>"
  let ?w2 = "\<lparr>files = [?pb \<mapsto> ''jello'', ?pa \<mapsto> ''hello''], slept = [],
              requests = [downloadRequest NewClient ?ub, downloadRequest NewClient ?ua]\<rparr>"
  let ?w3 = "\<lparr>files = [?pb \<mapsto> ''jello'', ?pa \<mapsto> ''hello''](?pb := None), slept = [],
              requests = [downloadRequest NewClient ?ub, downloadRequest NewClient ?ua]\<rparr>"
  let ?mismatch = "Errorf ''hash mismatch: expected %s, got %s''
               [S ?h, S ''187c9bceeb919e1b3e6d20fa50ecabf7d9d50b5343e8f9a3d912abb13929102e'']"
  let ?rs = "[\<lparr>Item = ?a, Error = None\<rparr>, \<lparr>Item = ?b, Error = Some ?mismatch\<rparr>]"
  have defaults: "defaultRetries NewClient = 3" "defaultRetryWait NewClient = 5"
    by (simp_all add: NewClient_def SetFollowRedirects_def)
  have onceb: "downloadOnce NewClient staleMirrorOutside ?ub ?pb World_empty = (None, ?w1)"
    by (simp add: downloadOnce_def staleMirrorOutside_def scriptedOutside_def
          World_empty_def EnsureDirForFile_def EnsureDir_def Let_def)
  have oncea: "downloadOnce NewClient staleMirrorOutside ?ua ?pa ?w1 = (None, ?w2)"
    by (simp add: downloadOnce_def staleMirrorOutside_def scriptedOutside_def
          EnsureDirForFile_def EnsureDir_def Let_def)
  have verifyb: "VerifyFileHash staleMirrorOutside ?pb ?h ?w1 = Some ?mismatch"
    by (simp add: VerifyFileHash_def staleMirrorOutside_def scriptedOutside_def sha256_examples_def)
  have verifya: "VerifyFileHash staleMirrorOutside ?pa ?h ?w2 = None"
    by (simp add: VerifyFileHash_def staleMirrorOutside_def scriptedOutside_def sha256_examples_def)
  have runb: "DownloadFileWithRetries NewClient staleMirrorOutside ?ub ?pb ?h 0 0 World_empty
                = (Some ?mismatch, ?w1)"
  proof -
    have "Retry (downloadOnce NewClient staleMirrorOutside ?ub ?pb) 3 5000000000 time_Sleep World_empty
            = ((1, None), ?w1)"
      unfolding Retry_def by (subst Retry_loop.simps) (simp add: onceb)
    then show ?thesis
      unfolding DownloadFileWithRetries_def by (simp add: defaults int64_def verifyb)
  qed
  have runa: "DownloadFileWithRetries NewClient staleMirrorOutside ?ua ?pa ?h 0 0 ?w1 = (None, ?w2)"
  proof -
    have "Retry (downloadOnce NewClient staleMirrorOutside ?ua ?pa) 3 5000000000 time_Sleep ?w1
            = ((1, None), ?w2)"
      unfolding Retry_def by (subst Retry_loop.simps) (simp add: oncea)
    then show ?thesis
      unfolding DownloadFileWithRetries_def by (simp add: defaults int64_def verifya)
  qed
  have fields: "URL ?a = ?ua" "File ?a = ?pa" "Hash ?a = ?h" "Retries ?a = 0" "RetryWait ?a = 0"
    "URL ?b = ?ub" "File ?b = ?pb" "Hash ?b = ?h" "Retries ?b = 0" "RetryWait ?b = 0"
    by (simp_all add: examplePackageA_def examplePackageB_def Item_zero_def)
  have ib: "downloadItem NewClient staleMirrorOutside ?b [] World_empty
     = (\<lparr>Item = ?b, Error = Some ?mismatch\<rparr>, [(?pb, True)], ?w1)"
    by (simp add: downloadItem_def fields Tracker_TrackFile_def runb)
  have ia: "downloadItem NewClient staleMirrorOutside ?a [(?pb, True)] ?w1
     = (\<lparr>Item = ?a, Error = None\<rparr>, [(?pb, True), (?pa, False)], ?w2)"
    by (simp add: downloadItem_def fields Tracker_TrackFile_def Tracker_MarkSuccess_def runa)
  have cleanup: "Tracker_Cleanup (removeFile staleMirrorOutside) (os_IsNotExist staleMirrorOutside)
                   (\<lambda>keys. map_range staleMirrorOutside keys ?w2) [(?pb, True), (?pa, False)] ?w2
                 = (None, ?w3)"
    by (simp add: Tracker_Cleanup_def removeFile_def staleMirrorOutside_def scriptedOutside_def)
  have run: "DownloadMultipleWithCleanup NewClient staleMirrorOutside [?a, ?b] 2 True
               [Acquire 1, Acquire 0, Finish 1, Finish 0] World_empty = Some (?rs, ?w3)"
    by (simp add: DownloadMultipleWithCleanup_def NewCleanupTracker_def Let_def ib ia cleanup upt_rec)
  note t = DownloadMultipleWithCleanup_results_in_input_order[of NewClient staleMirrorOutside
             "[?a, ?b]" 2 True "[Acquire 1, Acquire 0, Finish 1, Finish 0]" World_empty ?rs ?w3]
  have two: "length [?a, ?b] = 2" by simp
  from mp[OF t[THEN conjunct1] run, THEN conjunct1]
  have ordered: "length ?rs = 2"
    by simp
  from run ordered t[THEN conjunct2, unfolded two] show ?thesis
    by - (intro conjI, assumption+)
qed

subsection \<open>The root script of the preflight phase\<close>









end
